theory Spec2Isabelle
  imports Complex_Main "HOL-Library.Char_ord" "HOL-Library.List_Lexorder"
begin

section \<open>JavaScript values\<close>

text \<open>
  The pricing engine (\<^verbatim>\<open>lib/pricingEngine.js\<close>) and the cart methods
  (\<^verbatim>\<open>invoiceItemMethods.js\<close>) read every numeric property through
  \<^verbatim>\<open>Number.parseFloat\<close> and \<^verbatim>\<open>Number.isFinite\<close>. A numeric property is modelled
  as \<open>real option\<close>: \<open>None\<close> stands for a property that is missing, \<^verbatim>\<open>null\<close>, or
  whose parse is \<^verbatim>\<open>NaN\<close>; \<open>Some x\<close> is the finite number \<open>x\<close>. Numbers are exact
  reals, so the branches that only guard against \<^verbatim>\<open>Infinity\<close> are never taken.
\<close>

type_synonym num = "real option"

definition orZero :: "num \<Rightarrow> real" where
  \<comment> \<open>\<^verbatim>\<open>Number.parseFloat(v || 0)\<close>, and \<^verbatim>\<open>Number.isFinite(n) ? n : 0\<close>\<close>
  "orZero v = (case v of None \<Rightarrow> 0 | Some x \<Rightarrow> x)"

definition numOr :: "num \<Rightarrow> num \<Rightarrow> num" where
  \<comment> \<open>\<^verbatim>\<open>a || b\<close> on numeric properties: \<^verbatim>\<open>0\<close> and missing values are falsy\<close>
  "numOr a b = (case a of None \<Rightarrow> b | Some x \<Rightarrow> if x = 0 then b else Some x)"

definition orDefault :: "real \<Rightarrow> num \<Rightarrow> real" where
  \<comment> \<open>\<^verbatim>\<open>Number.parseFloat(v) || d\<close>\<close>
  "orDefault d v = (case v of None \<Rightarrow> d | Some x \<Rightarrow> if x = 0 then d else x)"

definition nullish :: "'a option \<Rightarrow> 'a option \<Rightarrow> 'a option" where
  \<comment> \<open>\<^verbatim>\<open>a ?? b\<close>\<close>
  "nullish a b = (case a of None \<Rightarrow> b | Some x \<Rightarrow> Some x)"

definition truthyNum :: "num \<Rightarrow> bool" where
  "truthyNum v = (case v of None \<Rightarrow> False | Some x \<Rightarrow> x \<noteq> 0)"

definition truthyStr :: "string option \<Rightarrow> bool" where
  \<comment> \<open>an optional string property is truthy when present and non-empty\<close>
  "truthyStr s = (case s of None \<Rightarrow> False | Some t \<Rightarrow> t \<noteq> [])"

definition strOr :: "string option \<Rightarrow> string option \<Rightarrow> string option" where
  \<comment> \<open>\<^verbatim>\<open>a || b\<close> on optional strings\<close>
  "strOr a b = (if truthyStr a then a else b)"

definition jsRound :: "real \<Rightarrow> real" where
  \<comment> \<open>\<^verbatim>\<open>Math.round\<close>: nearest integer, ties towards \<open>+\<infinity>\<close>\<close>
  "jsRound x = real_of_int \<lfloor>x + 1 / 2\<rfloor>"

definition jsFloor :: "real \<Rightarrow> real" where
  "jsFloor x = real_of_int \<lfloor>x\<rfloor>"

definition lowerChar :: "char \<Rightarrow> char" where
  "lowerChar c =
     (if c = CHR ''A'' then CHR ''a'' else if c = CHR ''B'' then CHR ''b''
      else if c = CHR ''C'' then CHR ''c'' else if c = CHR ''D'' then CHR ''d''
      else if c = CHR ''E'' then CHR ''e'' else if c = CHR ''F'' then CHR ''f''
      else if c = CHR ''G'' then CHR ''g'' else if c = CHR ''H'' then CHR ''h''
      else if c = CHR ''I'' then CHR ''i'' else if c = CHR ''J'' then CHR ''j''
      else if c = CHR ''K'' then CHR ''k'' else if c = CHR ''L'' then CHR ''l''
      else if c = CHR ''M'' then CHR ''m'' else if c = CHR ''N'' then CHR ''n''
      else if c = CHR ''O'' then CHR ''o'' else if c = CHR ''P'' then CHR ''p''
      else if c = CHR ''Q'' then CHR ''q'' else if c = CHR ''R'' then CHR ''r''
      else if c = CHR ''S'' then CHR ''s'' else if c = CHR ''T'' then CHR ''t''
      else if c = CHR ''U'' then CHR ''u'' else if c = CHR ''V'' then CHR ''v''
      else if c = CHR ''W'' then CHR ''w'' else if c = CHR ''X'' then CHR ''x''
      else if c = CHR ''Y'' then CHR ''y'' else if c = CHR ''Z'' then CHR ''z''
      else c)"

definition toLowerCase :: "string option \<Rightarrow> string" where
  \<comment> \<open>\<^verbatim>\<open>String(s || "").toLowerCase()\<close> on the ASCII letters the rule kinds are written in\<close>
  "toLowerCase s = map lowerChar (case s of None \<Rightarrow> [] | Some t \<Rightarrow> t)"

text \<open>
  \<^verbatim>\<open>String.prototype.localeCompare\<close> compares two strings by the collation of the
  runtime's locale and returns a negative number, zero or a positive number. The collation
  is not code of the repository and differs between runtimes and locales, so it is a
  parameter of every function that sorts rules.
\<close>

type_synonym collation = "string \<Rightarrow> string \<Rightarrow> real"

datatype jsflag = JTrue | JOne | JStrOne | JTruthy | JFalsy
  \<comment> \<open>a flag property: \<^verbatim>\<open>true\<close>, \<^verbatim>\<open>1\<close>, \<^verbatim>\<open>"1"\<close>, any other truthy value, or a falsy one\<close>

definition truthy :: "jsflag \<Rightarrow> bool" where
  "truthy f = (f \<noteq> JFalsy)"

definition isTrue :: "jsflag \<Rightarrow> bool" where
  \<comment> \<open>\<^verbatim>\<open>f === true\<close>\<close>
  "isTrue f = (f = JTrue)"

definition coerceFlag :: "jsflag \<Rightarrow> bool" where
  \<comment> \<open>\<^verbatim>\<open>value === true || value === 1 || value === "1"\<close>\<close>
  "coerceFlag f = (f = JTrue \<or> f = JOne \<or> f = JStrOne)"

section \<open>Data model\<close>

record slab =
  slab_min_qty :: num
  slab_rate_or_discount :: num

record free_item_pricing =
  free_item_base_rate :: num
  base_free_item_rate :: num
  free_item_rate :: num
  rate_for_free_item :: num
  free_item_base_price_list_rate :: num
  free_item_price_list_rate :: num
  base_for_price_list_rate :: num
  for_price_list_rate :: num
  free_item_base_discount_amount :: num
  free_item_discount_amount :: num
  free_item_discount_percentage :: num

text \<open>
  A pricing rule as the server sends it. The free-item pricing properties are grouped
  in \<open>free_pricing\<close>; dates are timestamps (\<open>None\<close>: missing or not a date).
\<close>

record rule =
  name :: string
  specificity :: num
  priority :: num
  rate_or_discount :: num
  margin_rate_or_amount :: num
  free_qty :: num
  free_qty_per_unit :: num
  min_qty :: num
  recurse_for :: num
  max_free_qty :: num
  slabs :: "slab list"
  rate_or_discount_type :: "string option"
  price_or_discount :: "string option"
  discount_type :: "string option"
  margin_type :: "string option"
  is_free_item_rule :: bool
  apply_per_threshold :: bool
  is_recursive :: bool
  round_free_qty :: bool
  same_item :: bool
  stop_further_rules :: bool
  apply_multiple_pricing_rules :: bool
  free_item :: "string option"
  valid_from :: "int option"
  valid_upto :: "int option"
  customer :: "string option"
  customer_group :: "string option"
  territory :: "string option"
  price_list :: "string option"
  currency :: "string option"
  free_pricing :: free_item_pricing

record detail =
  d_name :: string
  d_type :: "string option"
  d_value :: num
  d_change :: num

text \<open>
  The badge shown on a line. Its label and tooltip are rendered strings in the code
  (translated templates with interpolated numbers); the model keeps what is
  interpolated.
\<close>

datatype badge_part =
    Every real real
  | Qualified real
  | MinimumQty real
  | FreeQty real

datatype badge =
    PricingBadge "string option" nat "(string \<times> string option) list" "string list"
      \<comment> \<open>first rule name, number of further rules, tooltip entries (name, type), names\<close>
  | FreeBadge string "badge_part list"
      \<comment> \<open>rule label and tooltip parts of a free line\<close>

text \<open>
  A reference to pricing rules stored on a line (\<^verbatim>\<open>pricing_rule\<close>,
  \<^verbatim>\<open>pricing_rules\<close>): a string, an array, an object with name-like properties, or a
  string. A string whose trimmed text is bracketed like a JSON array or object is
  \<open>RJsonStr\<close>: it carries its text and what \<^verbatim>\<open>JSON.parse\<close> makes of it (\<open>None\<close> when
  the parse throws); \<open>RStr\<close> is any other string. An object is given by its properties
  \<^verbatim>\<open>name\<close>, \<^verbatim>\<open>rule\<close>, \<^verbatim>\<open>pricing_rule\<close> and \<^verbatim>\<open>pricingRule\<close>.
\<close>

datatype ruleref =
    RNone
  | RStr string
  | RJsonStr string "ruleref option"
  | RArr "ruleref list"
  | RObj "string option" "string option" "string option" "string option"

record line =
  item_code :: "string option"
  item_name :: "string option"
  item_group :: "string option"
  brand :: "string option"
  posa_row_id :: "string option"
  name :: "string option"
  qty :: num
  stock_qty :: num
  base_qty :: num
  base_quantity :: num
  transfer_qty :: num
  conversion_factor :: num
  uom_conversion_factor :: num
  uom :: "string option"
  stock_uom :: "string option"
  base_rate :: num
  base_price_list_rate :: num
  base_discount_amount :: num
  discount_percentage :: num
  rate :: num
  price_list_rate :: num
  discount_amount :: num
  amount :: num
  base_amount :: num
  locked_price :: jsflag
  posa_offer_applied :: jsflag
  manual_rate_set :: jsflag
  manual_rate_set_from_uom :: jsflag
  is_free_item :: jsflag
  same_item :: jsflag
  auto_free_source :: "string option"
  parent_row_id :: "string option"
  source_rule :: "string option"
  bundle_id :: "string option"
  pricing_rule_badge :: "badge option"
  pricing_rule_details :: "detail list"
  pricing_rules :: ruleref
  pricing_rule :: ruleref

record ctx =
  ctx_company :: "string option"
  ctx_price_list :: "string option"
  ctx_currency :: "string option"
  ctx_date :: "int option"
  ctx_customer :: "string option"
  ctx_customer_group :: "string option"
  ctx_territory :: "string option"

record indexes =
  byItem :: "string \<rightharpoonup> rule list"
  byGroup :: "string \<rightharpoonup> rule list"
  byBrand :: "string \<rightharpoonup> rule list"
  general :: "rule list"

text \<open>
  A free-item descriptor: what \<^verbatim>\<open>applyFreeItemRule\<close> returns, what the cart-wide
  freebie map holds and what the server's free lines are normalised to.
\<close>

record freebie =
  fb_item_code :: "string option"
  fb_qty :: num
  fb_stock_qty :: num
  fb_rule :: "string option"
  fb_same_item :: bool
  fb_min_qty :: num
  fb_multiplier :: num
  fb_apply_per_threshold :: bool
  fb_max_free_qty :: num
  fb_threshold_qty :: num
  fb_free_qty_per_threshold :: num
  fb_uom :: "string option"
  fb_conversion_factor :: num
  fb_base_rate :: num
  fb_rate :: num
  fb_base_price_list_rate :: num
  fb_price_list_rate :: num
  fb_base_discount_amount :: num
  fb_discount_amount :: num
  fb_discount_percentage :: num
  fb_parentRowId :: "string option"

record pricing =
  p_rate :: real
  p_discountPerUnit :: real
  p_applied :: "detail list"

section \<open>Rule evaluation (pricingEngine.js)\<close>

definition round6 :: "real \<Rightarrow> real" where
  \<comment> \<open>\<^verbatim>\<open>round(value)\<close> with the default precision 6\<close>
  "round6 v = jsRound (v * 10 ^ 6) / 10 ^ 6"

definition inDateRange :: "int option \<Rightarrow> int option \<Rightarrow> int option \<Rightarrow> bool" where
  "inDateRange currentDate start end' =
     (case currentDate of
        None \<Rightarrow> True
      | Some now \<Rightarrow>
          (if (case start of None \<Rightarrow> False | Some from \<Rightarrow> now < from) then False
           else if (case end' of None \<Rightarrow> False | Some to \<Rightarrow> now > to) then False
           else True))"

definition matchParty :: "rule \<Rightarrow> string option \<Rightarrow> string option \<Rightarrow> string option \<Rightarrow> bool" where
  "matchParty r cust customerGroup terr =
     (if truthyStr (customer r) \<and> truthyStr cust \<and> customer r \<noteq> cust then False
      else if truthyStr (customer_group r) \<and> truthyStr customerGroup
              \<and> customer_group r \<noteq> customerGroup then False
      else if truthyStr (territory r) \<and> truthyStr terr \<and> territory r \<noteq> terr then False
      else if truthyStr (customer r) \<and> \<not> truthyStr cust then False
      else if truthyStr (customer_group r) \<and> \<not> truthyStr customerGroup then False
      else if truthyStr (territory r) \<and> \<not> truthyStr terr then False
      else True)"

definition matchPriceListAndCurrency :: "rule \<Rightarrow> string option \<Rightarrow> string option \<Rightarrow> bool" where
  "matchPriceListAndCurrency r priceList cur =
     (if truthyStr (price_list r) \<and> truthyStr priceList \<and> price_list r \<noteq> priceList then False
      else if truthyStr (currency r) \<and> truthyStr cur \<and> currency r \<noteq> cur then False
      else if truthyStr (price_list r) \<and> \<not> truthyStr priceList then False
      else if truthyStr (currency r) \<and> \<not> truthyStr cur then False
      else True)"

definition pushUnique :: "rule list \<times> string list \<Rightarrow> rule \<Rightarrow> rule list \<times> string list" where
  \<comment> \<open>the bucket and the names seen so far\<close>
  "pushUnique st r =
     (if rule.name r \<in> set (snd st) then st
      else (fst st @ [r], snd st @ [rule.name r]))"

definition bucketOf :: "string option \<Rightarrow> (string \<rightharpoonup> rule list) \<Rightarrow> rule list" where
  \<comment> \<open>\<^verbatim>\<open>key && m.has(key)\<close> guarding \<^verbatim>\<open>m.get(key)\<close>\<close>
  "bucketOf key m =
     (case key of
        None \<Rightarrow> []
      | Some k \<Rightarrow> if k = [] then [] else (case m k of None \<Rightarrow> [] | Some rs \<Rightarrow> rs))"

definition collectCandidates :: "line \<Rightarrow> indexes \<Rightarrow> rule list" where
  "collectCandidates item ix =
     fst (foldl pushUnique
            (foldl pushUnique
               (foldl pushUnique
                  (foldl pushUnique ([], []) (bucketOf (item_code item) (byItem ix)))
                  (bucketOf (item_group item) (byGroup ix)))
               (bucketOf (brand item) (byBrand ix)))
            (general ix))"

definition ruleBenefitScore :: "rule \<Rightarrow> real" where
  "ruleBenefitScore r =
     (let discount = \<bar>orZero (rate_or_discount r)\<bar>;
          margin = \<bar>orZero (margin_rate_or_amount r)\<bar>;
          freebies = \<bar>orZero (free_qty r)\<bar> + \<bar>orZero (free_qty_per_unit r)\<bar>
      in max discount (max margin freebies))"

definition ruleSort :: "collation \<Rightarrow> rule \<Rightarrow> rule \<Rightarrow> real" where
  \<comment> \<open>\<open>localeCompare a b\<close> stands for \<^verbatim>\<open>a.localeCompare(b)\<close>\<close>
  "ruleSort localeCompare a b =
     (if orZero (specificity b) \<noteq> orZero (specificity a)
      then orZero (specificity b) - orZero (specificity a)
      else if orZero (priority b) \<noteq> orZero (priority a)
      then orZero (priority b) - orZero (priority a)
      else let benefitDelta = ruleBenefitScore b - ruleBenefitScore a
           in if benefitDelta \<noteq> 0 then benefitDelta
              else localeCompare (rule.name a) (rule.name b))"

text \<open>
  \<^verbatim>\<open>Array.prototype.sort\<close> is stable; with a comparator it is modelled as a stable
  insertion sort.
\<close>

fun insertBy :: "('a \<Rightarrow> 'a \<Rightarrow> real) \<Rightarrow> 'a \<Rightarrow> 'a list \<Rightarrow> 'a list" where
  "insertBy cmp x [] = [x]"
| "insertBy cmp x (y # ys) = (if cmp x y \<le> 0 then x # y # ys else y # insertBy cmp x ys)"

definition sortBy :: "('a \<Rightarrow> 'a \<Rightarrow> real) \<Rightarrow> 'a list \<Rightarrow> 'a list" where
  "sortBy cmp xs = foldr (insertBy cmp) xs []"

fun selectSlabLoop :: "slab list \<Rightarrow> real \<Rightarrow> slab option \<Rightarrow> slab option" where
  "selectSlabLoop [] q chosen = chosen"
| "selectSlabLoop (s # ss) q chosen =
     (let minQty = orZero (slab_min_qty s)
      in selectSlabLoop ss q
           (if q \<ge> minQty
               \<and> (case chosen of None \<Rightarrow> True | Some c \<Rightarrow> minQty \<ge> orZero (slab_min_qty c))
            then Some s else chosen))"

definition selectSlab :: "rule \<Rightarrow> real \<Rightarrow> slab option" where
  "selectSlab r q = (if slabs r = [] then None else selectSlabLoop (slabs r) q None)"

definition applyMargin :: "real \<Rightarrow> rule \<Rightarrow> real" where
  "applyMargin baseRate r =
     (let marginType = strOr (margin_type r) (discount_type r);
          marginValue = orZero (numOr (numOr (margin_rate_or_amount r) (rate_or_discount r)) (Some 0))
      in if marginValue = 0 then baseRate
         else if marginType = Some ''Amount'' then baseRate + marginValue
         else if marginType = Some ''Percentage'' then baseRate * (1 + marginValue / 100)
         else baseRate)"

definition resolveSlabValue :: "rule \<Rightarrow> slab option \<Rightarrow> real" where
  "resolveSlabValue r sl =
     (case sl of
        None \<Rightarrow> orZero (rate_or_discount r)
      | Some s \<Rightarrow>
          (case slab_rate_or_discount s of
             Some v \<Rightarrow> v
           | None \<Rightarrow> orZero (rate_or_discount r)))"

definition isAmountRule :: "rule \<Rightarrow> bool" where
  \<comment> \<open>\<^verbatim>\<open>isAmount\<close> of \<^verbatim>\<open>applyOneRule\<close>\<close>
  "isAmountRule r =
     (let rawType = toLowerCase (rate_or_discount_type r);
          discountType = toLowerCase (discount_type r)
      in rawType = ''discount amount'' \<or> discountType = ''amount'')"

definition isMarginRule :: "rule \<Rightarrow> bool" where
  \<comment> \<open>\<^verbatim>\<open>isMargin\<close> of \<^verbatim>\<open>applyOneRule\<close>\<close>
  "isMarginRule r =
     (let discountType = toLowerCase (discount_type r)
      in discountType = ''margin'' \<or> truthyStr (margin_type r))"

definition isPriceOverrideRule :: "rule \<Rightarrow> bool" where
  \<comment> \<open>\<^verbatim>\<open>isPriceOverride\<close> of \<^verbatim>\<open>applyOneRule\<close>\<close>
  "isPriceOverrideRule r =
     (let rawType = toLowerCase (rate_or_discount_type r);
          priceMode = toLowerCase (price_or_discount r);
          discountType = toLowerCase (discount_type r)
      in priceMode = ''price''
         \<and> (rawType = ''rate'' \<or> rawType = ''price'' \<or> (rawType = [] \<and> discountType = ''rate'')))"

definition applyOneRule :: "real \<Rightarrow> rule \<Rightarrow> real \<Rightarrow> real \<Rightarrow> real \<times> real \<times> detail option" where
  \<comment> \<open>returns \<^verbatim>\<open>{ newRate, discount, detail }\<close>\<close>
  "applyOneRule currentRate r q baseRate =
     (let sl = selectSlab r q;
          v = resolveSlabValue r sl;
          isAmount = isAmountRule r;
          isMargin = isMarginRule r;
          isPriceOverride = isPriceOverrideRule r
      in if is_free_item_rule r then (currentRate, 0, None)
         else
           let (newRate0, ty) =
                 (if isPriceOverride then
                    (if isAmount then (currentRate - v, ''Amount'')
                     else ((if v = 0 then currentRate else v), ''Rate''))
                  else if isMargin then
                    (applyMargin baseRate r,
                     (case margin_type r of None \<Rightarrow> ''Margin''
                      | Some t \<Rightarrow> if t = [] then ''Margin'' else t))
                  else if isAmount then (currentRate - v, ''Amount'')
                  else (currentRate * (1 - v / 100), ''Rate''));
               newRate = max 0 newRate0;
               change = currentRate - newRate
           in (newRate, change,
               Some \<lparr> d_name = rule.name r, d_type = Some ty, d_value = Some v,
                      d_change = Some change \<rparr>))"

definition isFreeRule :: "rule \<Rightarrow> bool" where
  "isFreeRule r = (is_free_item_rule r \<or> toLowerCase (price_or_discount r) = ''product'')"

definition computeThresholdInfo :: "rule \<Rightarrow> real \<Rightarrow> real \<times> real" where
  \<comment> \<open>returns \<^verbatim>\<open>{ minimum, multiplier }\<close>\<close>
  "computeThresholdInfo r q =
     (let minimum = orDefault 1 (numOr (numOr (min_qty r) (recurse_for r)) (Some 1));
          multiplier =
            (if apply_per_threshold r then
               (let divisor = orDefault 1 (numOr (numOr (recurse_for r) (min_qty r)) (Some 1))
                in jsFloor (q / divisor))
             else (if q \<ge> minimum then 1 else 0))
      in (minimum, multiplier))"

definition freeQtyOf :: "rule \<Rightarrow> real \<Rightarrow> real" where
  \<comment> \<open>the free quantity \<^verbatim>\<open>applyFreeItemRule\<close> computes before it builds the descriptor\<close>
  "freeQtyOf r effectiveQty =
     (let multiplier = snd (computeThresholdInfo r effectiveQty);
          freePerThreshold =
            (if truthyNum (free_qty_per_unit r) then orZero (free_qty_per_unit r)
             else orZero (free_qty r));
          freeQty0 =
            (if apply_per_threshold r then multiplier * freePerThreshold
             else if truthyNum (free_qty_per_unit r)
             then effectiveQty * orZero (free_qty_per_unit r)
             else orZero (free_qty r));
          freeQty1 = (case max_free_qty r of None \<Rightarrow> freeQty0 | Some m \<Rightarrow> min freeQty0 m)
      in if round_free_qty r then jsFloor freeQty1 else freeQty1)"

definition applyFreeItemRule :: "rule \<Rightarrow> line \<Rightarrow> real \<Rightarrow> freebie option" where
  "applyFreeItemRule r item effectiveQty =
     (let (minimum, multiplier) = computeThresholdInfo r effectiveQty;
          thresholdQty = minimum;
          freePerThreshold =
            (if truthyNum (free_qty_per_unit r) then orZero (free_qty_per_unit r)
             else orZero (free_qty r));
          freeQty = freeQtyOf r effectiveQty
      in if freeQty \<le> 0 then None
         else
           let fp = free_pricing r;
               sameItem = rule.same_item r;
               u = (if sameItem then strOr (stock_uom item) (uom item) else None);
               conversionFactor = (if sameItem then Some 1 else None);
               rawBaseRate =
                 nullish (free_item_base_rate fp) (nullish (base_free_item_rate fp) (free_item_rate fp));
               rawDisplayRate = nullish (free_item_rate fp) (rate_for_free_item fp);
               baseRate = nullish rawBaseRate rawDisplayRate;
               rawBasePriceListRate =
                 nullish (free_item_base_price_list_rate fp)
                   (nullish (free_item_price_list_rate fp) (base_for_price_list_rate fp));
               rawDisplayPriceListRate =
                 nullish (free_item_price_list_rate fp) (for_price_list_rate fp);
               basePriceListRate =
                 nullish rawBasePriceListRate (nullish rawDisplayPriceListRate baseRate);
               baseDiscount0 =
                 nullish (free_item_base_discount_amount fp) (free_item_discount_amount fp);
               baseDiscount =
                 (case (baseDiscount0, basePriceListRate, baseRate) of
                    (None, Some plr, Some br) \<Rightarrow> Some (max (plr - br) 0)
                  | _ \<Rightarrow> baseDiscount0);
               discountPercentage =
                 nullish (free_item_discount_percentage fp)
                   (if truthyNum basePriceListRate
                    then Some (max ((orZero baseDiscount / orZero basePriceListRate) * 100) 0)
                    else None)
           in Some \<lparr>
                fb_item_code =
                  (if sameItem then item_code item else strOr (free_item r) (item_code item)),
                fb_qty = Some freeQty,
                fb_stock_qty = Some freeQty,
                fb_rule = Some (rule.name r),
                fb_same_item = sameItem,
                fb_min_qty = Some minimum,
                fb_multiplier = Some multiplier,
                fb_apply_per_threshold =
                  (apply_per_threshold r \<or> is_recursive r \<or> truthyNum (recurse_for r)),
                fb_max_free_qty = max_free_qty r,
                fb_threshold_qty = Some thresholdQty,
                fb_free_qty_per_threshold = Some freePerThreshold,
                fb_uom = u,
                fb_conversion_factor = conversionFactor,
                fb_base_rate = baseRate,
                fb_rate = (if baseRate = None then None else nullish rawDisplayRate baseRate),
                fb_base_price_list_rate = basePriceListRate,
                fb_price_list_rate =
                  (if basePriceListRate = None then None
                   else nullish rawDisplayPriceListRate basePriceListRate),
                fb_base_discount_amount = baseDiscount,
                fb_discount_amount =
                  (if baseDiscount = None then None
                   else nullish (free_item_discount_amount fp) baseDiscount),
                fb_discount_percentage = discountPercentage,
                fb_parentRowId = None \<rparr>)"

fun applyPricingChain ::
  "rule list \<Rightarrow> real \<Rightarrow> real \<Rightarrow> real \<Rightarrow> detail list \<Rightarrow> real \<times> detail list" where
  \<comment> \<open>the \<^verbatim>\<open>for (const rule of pricingRules)\<close> loop with its two \<^verbatim>\<open>break\<close>s\<close>
  "applyPricingChain [] rate' effectiveQty startRate applied = (rate', applied)"
| "applyPricingChain (r # rs) rate' effectiveQty startRate applied =
     (let (newRate, discount, det) = applyOneRule rate' r effectiveQty startRate;
          applied' = (case det of None \<Rightarrow> applied | Some d \<Rightarrow> applied @ [d])
      in if stop_further_rules r then (newRate, applied')
         else if \<not> apply_multiple_pricing_rules r then (newRate, applied')
         else applyPricingChain rs newRate effectiveQty startRate applied')"

fun collectFreebies :: "rule list \<Rightarrow> line \<Rightarrow> real \<Rightarrow> freebie list \<Rightarrow> freebie list" where
  \<comment> \<open>the \<^verbatim>\<open>for (const rule of freeRules)\<close> loop\<close>
  "collectFreebies [] item effectiveQty freebies = freebies"
| "collectFreebies (r # rs) item effectiveQty freebies =
     (let freebies' =
            (case applyFreeItemRule r item effectiveQty of
               None \<Rightarrow> freebies
             | Some f \<Rightarrow> freebies @ [f])
      in if stop_further_rules r then freebies'
         else collectFreebies rs item effectiveQty freebies')"

definition effectiveQtyOf :: "line \<Rightarrow> num \<Rightarrow> num \<Rightarrow> real" where
  "effectiveQtyOf item q docQty =
     (let rawRuleQty = nullish q (nullish (qty item) (Some 0));
          rawDocQty =
            (case docQty of
               Some d \<Rightarrow> Some d
             | None \<Rightarrow> nullish (qty item) rawRuleQty);
          rawStockQty =
            nullish (stock_qty item) (nullish (base_qty item) (nullish (base_quantity item) (Some 0)));
          absoluteQty = max 0 (orZero rawRuleQty);
          absoluteDocQty = max 0 (orZero rawDocQty);
          absoluteStockQty = max 0 (orZero rawStockQty)
      in max absoluteQty (max absoluteDocQty absoluteStockQty))"

definition startRateOf :: "line \<Rightarrow> num \<Rightarrow> real" where
  "startRateOf item baseRate =
     (let effectiveBase =
            (case baseRate of
               Some b \<Rightarrow> Some b
             | None \<Rightarrow>
                 numOr (numOr (numOr (base_price_list_rate item) (price_list_rate item)) (rate item))
                   (Some 0))
      in orZero effectiveBase)"

definition validCandidates :: "line \<Rightarrow> ctx \<Rightarrow> indexes \<Rightarrow> rule list" where
  "validCandidates item c ix =
     filter (\<lambda>r. matchPriceListAndCurrency r (ctx_price_list c) (ctx_currency c))
       (filter (\<lambda>r. matchParty r (ctx_customer c) (ctx_customer_group c) (ctx_territory c))
          (filter (\<lambda>r. inDateRange (ctx_date c) (valid_from r) (valid_upto r))
             (collectCandidates item ix)))"

definition evaluatePricingRules ::
  "collation \<Rightarrow> line \<Rightarrow> num \<Rightarrow> num \<Rightarrow> num \<Rightarrow> ctx \<Rightarrow> indexes \<Rightarrow> pricing \<times> freebie list" where
  \<comment> \<open>\<^verbatim>\<open>evaluatePricingRules({ item, qty, docQty, baseRate, ctx, indexes })\<close>, in a runtime
      whose \<^verbatim>\<open>localeCompare\<close> is the first argument\<close>
  "evaluatePricingRules localeCompare item q docQty baseRate c ix =
     (let effectiveQty = effectiveQtyOf item q docQty;
          startRate = startRateOf item baseRate;
          valid = validCandidates item c ix;
          pricingRules =
            sortBy (ruleSort localeCompare)
              (filter (\<lambda>r. effectiveQty \<ge> orZero (min_qty r))
                 (filter (\<lambda>r. \<not> isFreeRule r) valid));
          pr =
            (if pricingRules \<noteq> [] then
               (let (rate', applied) = applyPricingChain pricingRules startRate effectiveQty startRate []
                in \<lparr> p_rate = round6 rate', p_discountPerUnit = round6 (startRate - rate'),
                     p_applied = applied \<rparr>)
             else \<lparr> p_rate = round6 startRate, p_discountPerUnit = 0, p_applied = [] \<rparr>);
          freeRules =
            sortBy (ruleSort localeCompare)
              (filter (\<lambda>r. effectiveQty
                            \<ge> orDefault 1 (numOr (numOr (min_qty r) (recurse_for r)) (Some 1)))
                 (filter isFreeRule valid));
          freebies = collectFreebies freeRules item effectiveQty []
      in (pr, freebies))"

section \<open>Cart lines (invoiceItemMethods.js)\<close>

text \<open>
  The methods of this file run inside a component. Its \<^verbatim>\<open>flt\<close> (rounding to a
  precision), \<^verbatim>\<open>get_new_item\<close> and the catalogue lookup \<^verbatim>\<open>getItemByCode\<close> are defined
  elsewhere; its method \<^verbatim>\<open>calc_stock_qty\<close> calls \<^verbatim>\<open>calcStockQty\<close> of the stock utilities,
  which are not among the sources either. They are parameters of the model, as is the
  collation of the runtime. The code tests \<^verbatim>\<open>this.flt\<close> and \<^verbatim>\<open>this.calc_stock_qty\<close>
  before most calls, so both may be absent.
\<close>

record env =
  exchange_rate :: num
  currency_precision :: num
  float_precision :: num
  flt :: "(num \<Rightarrow> num \<Rightarrow> real) option"
  calc_stock_qty :: "(line \<Rightarrow> num \<Rightarrow> line) option"
  get_new_item :: "line \<Rightarrow> line"
  getItemByCode :: "string option \<Rightarrow> line option"
  locale_compare :: collation

datatype 'a outcome =
    Returned 'a
  | Threw 'a
  \<comment> \<open>\<open>Threw s\<close>: a \<^verbatim>\<open>TypeError\<close> was raised in state \<open>s\<close> (a call of the missing \<^verbatim>\<open>flt\<close>)\<close>

fun stateOf :: "'a outcome \<Rightarrow> 'a" where
  "stateOf (Returned s) = s"
| "stateOf (Threw s) = s"

definition fltOr :: "env \<Rightarrow> num \<Rightarrow> num \<Rightarrow> num" where
  \<comment> \<open>\<^verbatim>\<open>this.flt ? this.flt(v, p) : v\<close>\<close>
  "fltOr e v p = (case flt e of None \<Rightarrow> v | Some f \<Rightarrow> Some (f v p))"

definition toBaseCurrency :: "env \<Rightarrow> num \<Rightarrow> real" where
  "toBaseCurrency e v =
     (let r = orDefault 1 (numOr (exchange_rate e) (Some 1))
      in if r = 0 then orZero v else orZero v / r)"

definition fromBaseCurrency :: "env \<Rightarrow> num \<Rightarrow> real" where
  "fromBaseCurrency e v =
     (let r = orDefault 1 (numOr (exchange_rate e) (Some 1));
          numeric = orZero v
      in if r \<noteq> 0 then numeric * r else numeric)"

definition isFreeLine :: "line \<Rightarrow> bool" where
  "isFreeLine item =
     (if coerceFlag (is_free_item item) then True
      else if coerceFlag (line.same_item item) then True
      else if truthyStr (auto_free_source item) then True
      else False)"

fun firstSome :: "num list \<Rightarrow> num" where
  \<comment> \<open>\<^verbatim>\<open>[...].map(parse).find((value) => value !== null)\<close>\<close>
  "firstSome [] = None"
| "firstSome (None # vs) = firstSome vs"
| "firstSome (Some x # vs) = Some x"

definition resolveBaseRate :: "line \<Rightarrow> real" where
  "resolveBaseRate item =
     orZero (firstSome [base_price_list_rate item, price_list_rate item, base_rate item, rate item])"

definition resolvePricingQty :: "line \<Rightarrow> real" where
  "resolvePricingQty item =
     (case firstSome [stock_qty item, base_qty item, base_quantity item, transfer_qty item] of
        Some direct \<Rightarrow> direct
      | None \<Rightarrow>
          (case qty item of
             None \<Rightarrow> 0
           | Some q \<Rightarrow>
               (case firstSome
                       (filter (\<lambda>v. v \<noteq> Some 0 \<and> v \<noteq> Some 1)
                          [conversion_factor item, uom_conversion_factor item]) of
                  Some factor \<Rightarrow> q * factor
                | None \<Rightarrow> q)))"

fun joinWith :: "string \<Rightarrow> string list \<Rightarrow> string" where
  "joinWith sep [] = []"
| "joinWith sep [s] = s"
| "joinWith sep (s # t # ss) = s @ sep @ joinWith sep (t # ss)"

definition jsonStringify :: "string list \<Rightarrow> string" where
  \<comment> \<open>\<^verbatim>\<open>JSON.stringify\<close> of an array of names that need no escaping\<close>
  "jsonStringify names =
     ''['' @ joinWith '','' (map (\<lambda>n. [CHR 0x22] @ n @ [CHR 0x22]) names) @ '']''"

definition updatePricingBadge :: "line \<Rightarrow> detail list \<Rightarrow> line" where
  "updatePricingBadge item applied =
     (if applied = [] then
        item \<lparr> pricing_rule_badge := None, pricing_rule_details := [], pricing_rules := RNone \<rparr>
      else
        let names = filter (\<lambda>n. n \<noteq> []) (map d_name applied);
            first = (case names of [] \<Rightarrow> None | n # _ \<Rightarrow> Some n);
            extraCount = (if length names > 1 then length names - 1 else 0);
            tooltip = map (\<lambda>d. (d_name d, d_type d)) applied
        in item \<lparr> pricing_rule_badge := Some (PricingBadge first extraCount tooltip names),
                  pricing_rule_details := applied,
                  pricing_rules := RJsonStr (jsonStringify names) (Some (RArr (map RStr names))) \<rparr>)"

text \<open>
  The freebie map is a JavaScript \<^verbatim>\<open>Map\<close>: an association list in insertion order,
  where \<^verbatim>\<open>set\<close> on a key already present replaces the value in place.
\<close>

type_synonym freebie_map = "(string \<times> freebie) list"

fun mapSet :: "('k \<times> 'v) list \<Rightarrow> 'k \<Rightarrow> 'v \<Rightarrow> ('k \<times> 'v) list" where
  "mapSet [] k v = [(k, v)]"
| "mapSet ((k', v') # m) k v = (if k' = k then (k, v) # m else (k', v') # mapSet m k v)"

definition tmpl :: "string option \<Rightarrow> string" where
  \<comment> \<open>a property interpolated in a template literal\<close>
  "tmpl s = (case s of None \<Rightarrow> ''undefined'' | Some t \<Rightarrow> t)"

definition freebieKey :: "freebie \<Rightarrow> line \<Rightarrow> string" where
  \<comment> \<open>\<^verbatim>\<open>`${entry.rule}::${entry.item_code}::${item.posa_row_id}`\<close>\<close>
  "freebieKey entry item =
     tmpl (fb_rule entry) @ ''::'' @ tmpl (fb_item_code entry) @ ''::'' @ tmpl (posa_row_id item)"

definition mergeFreebie :: "line \<Rightarrow> freebie_map \<Rightarrow> freebie \<Rightarrow> freebie_map" where
  \<comment> \<open>one step of \<^verbatim>\<open>freebies.forEach\<close>: the entry's own properties override the existing
      ones; the pricing properties exist on the entry only when they are not null\<close>
  "mergeFreebie item freebiesMap entry =
     (let key = freebieKey entry item;
          existing = map_of freebiesMap key;
          existingQty = (case existing of None \<Rightarrow> Some 0 | Some x \<Rightarrow> fb_qty x);
          existingStock = (case existing of None \<Rightarrow> None | Some x \<Rightarrow> fb_stock_qty x);
          keep = (\<lambda>sel. nullish (sel entry) (case existing of None \<Rightarrow> None | Some x \<Rightarrow> sel x));
          parsedEntryQty = orZero (fb_qty entry);
          parsedExistingQty = orZero existingQty;
          parsedEntryStock = orZero (numOr (fb_stock_qty entry) (fb_qty entry));
          parsedExistingStock = orZero (numOr existingStock existingQty)
      in mapSet freebiesMap key
           (entry \<lparr> fb_base_rate := keep fb_base_rate,
                    fb_rate := keep fb_rate,
                    fb_base_price_list_rate := keep fb_base_price_list_rate,
                    fb_price_list_rate := keep fb_price_list_rate,
                    fb_base_discount_amount := keep fb_base_discount_amount,
                    fb_discount_amount := keep fb_discount_amount,
                    fb_discount_percentage := keep fb_discount_percentage,
                    fb_qty := Some (parsedEntryQty + parsedExistingQty),
                    fb_stock_qty := Some (parsedEntryStock + parsedExistingStock),
                    fb_parentRowId := posa_row_id item \<rparr>))"

definition manualOverrideOf :: "line \<Rightarrow> bool" where
  \<comment> \<open>\<^verbatim>\<open>item._manual_rate_set === true && !(item._manual_rate_set_from_uom === true)\<close>\<close>
  "manualOverrideOf item =
     (let manualFromUom = isTrue (manual_rate_set_from_uom item)
      in isTrue (manual_rate_set item) \<and> \<not> manualFromUom)"

definition applyRateUpdate :: "env \<Rightarrow> line \<Rightarrow> pricing \<Rightarrow> real \<Rightarrow> real \<Rightarrow> line outcome" where
  \<comment> \<open>the body of \<^verbatim>\<open>if (allowRateUpdate) { ... }\<close> in \<^verbatim>\<open>_applyPricingToLine\<close>\<close>
  "applyRateUpdate e item pr baseRate signedDocQty =
     (let proposedRate = p_rate pr;
          proposedDiscount = p_discountPerUnit pr;
          baseDiscountPerUnit0 = \<bar>proposedDiscount\<bar>;
          maxDiscount = max baseRate 0;
          baseDiscountPerUnit =
            (if baseDiscountPerUnit0 > maxDiscount then maxDiscount else baseDiscountPerUnit0);
          discountedRate = max (baseRate - baseDiscountPerUnit) 0;
          effectiveBaseRate0 = min proposedRate baseRate;
          effectiveBaseRate =
            (if discountedRate < effectiveBaseRate0 then discountedRate else effectiveBaseRate0);
          baseAmount = effectiveBaseRate * signedDocQty;
          convertedRate = fromBaseCurrency e (Some effectiveBaseRate);
          convertedDiscount = fromBaseCurrency e (Some baseDiscountPerUnit);
          normalizedBaseDiscount = \<bar>baseDiscountPerUnit\<bar>;
          normalizedDiscount = \<bar>convertedDiscount\<bar>;
          item1 = item \<lparr> base_price_list_rate := Some baseRate,
                          base_rate := Some effectiveBaseRate,
                          base_discount_amount := Some normalizedBaseDiscount,
                          price_list_rate :=
                            fltOr e (Some (fromBaseCurrency e (Some baseRate))) (currency_precision e),
                          rate := fltOr e (Some convertedRate) (currency_precision e),
                          discount_amount := fltOr e (Some normalizedDiscount) (currency_precision e) \<rparr>;
          rawDiscountPercentage =
            (if baseRate \<noteq> 0 then (normalizedBaseDiscount / baseRate) * 100 else 0)
      in if baseRate \<noteq> 0 \<and> flt e = None then Threw item1
         else
           let item2 = item1 \<lparr> discount_percentage :=
                                 (if baseRate \<noteq> 0
                                  then fltOr e (Some \<bar>rawDiscountPercentage\<bar>) (float_precision e)
                                  else Some 0) \<rparr>;
               product = (case (rate item2, qty item2) of
                            (Some r, Some q) \<Rightarrow> Some (r * q)
                          | _ \<Rightarrow> None)
           in Returned (item2 \<lparr> amount := fltOr e product (currency_precision e),
                                base_amount := fltOr e (Some baseAmount) (currency_precision e) \<rparr>))"

definition applyPricingToLine ::
  "env \<Rightarrow> line \<Rightarrow> ctx \<Rightarrow> indexes \<Rightarrow> freebie_map \<Rightarrow> (line \<times> freebie_map) outcome" where
  "applyPricingToLine e item c ix freebiesMap =
     (let manualOverride = manualOverrideOf item;
          allowRateUpdate =
            (\<not> truthy (locked_price item) \<and> \<not> truthy (posa_offer_applied item) \<and> \<not> manualOverride);
          signedDocQty = orZero (qty item);
          docQty = \<bar>signedDocQty\<bar>;
          pricingQty = resolvePricingQty item;
          q = \<bar>pricingQty\<bar>
      in if docQty = 0 \<and> q = 0 then Returned (item, freebiesMap)
         else
           let baseRate = resolveBaseRate item;
               (pr, freebies) =
                 evaluatePricingRules (locale_compare e) item (Some q) (Some docQty)
                   (Some baseRate) c ix;
               item1 = updatePricingBadge item (p_applied pr)
           in case (if allowRateUpdate then applyRateUpdate e item1 pr baseRate signedDocQty
                    else Returned item1) of
                Threw item2 \<Rightarrow> Threw (item2, freebiesMap)
              | Returned item2 \<Rightarrow> Returned (item2, foldl (mergeFreebie item2) freebiesMap freebies))"

definition allowRateUpdateOf :: "line \<Rightarrow> bool" where
  \<comment> \<open>\<^verbatim>\<open>!item.locked_price && !item.posa_offer_applied && !manualOverride\<close>\<close>
  "allowRateUpdateOf item =
     (\<not> truthy (locked_price item) \<and> \<not> truthy (posa_offer_applied item) \<and> \<not> manualOverrideOf item)"

abbreviation linePricing :: "env \<Rightarrow> line \<Rightarrow> ctx \<Rightarrow> indexes \<Rightarrow> pricing" where
  "linePricing e item c ix \<equiv>
     fst (evaluatePricingRules (locale_compare e) item (Some \<bar>resolvePricingQty item\<bar>) (Some \<bar>orZero (qty item)\<bar>)
            (Some (resolveBaseRate item)) c ix)"

abbreviation lineDiscount :: "env \<Rightarrow> line \<Rightarrow> ctx \<Rightarrow> indexes \<Rightarrow> real" where
  "lineDiscount e item c ix \<equiv>
     min \<bar>p_discountPerUnit (linePricing e item c ix)\<bar> (max (resolveBaseRate item) 0)"

section \<open>The cart and its free lines (\<^verbatim>\<open>_syncAutoFreeLines\<close>)\<close>

text \<open>
  Cart lines are objects that the code mutates in place and keeps in the array
  \<^verbatim>\<open>this.items\<close>; other parts of the application hold references to them. The model
  has an explicit store: \<open>heap\<close> holds the line objects, a reference is an index into it,
  and \<open>items\<close> is the array of references. A new object is allocated at the end of the
  heap. \<^verbatim>\<open>this.items\<close> never holds \<^verbatim>\<open>null\<close>.
\<close>

record packed =
  packed_bundle_id :: "string option"
  packed_item_code :: "string option"

record cart =
  heap :: "line list"
  items :: "nat list"
  packed_items :: "packed list"

definition lineAt :: "cart \<Rightarrow> nat \<Rightarrow> line" where
  "lineAt s r = heap s ! r"

definition setLine :: "cart \<Rightarrow> nat \<Rightarrow> line \<Rightarrow> cart" where
  "setLine s r l = s \<lparr> heap := (heap s)[r := l] \<rparr>"

definition allocLine :: "cart \<Rightarrow> line \<Rightarrow> nat \<times> cart" where
  "allocLine s l = (length (heap s), s \<lparr> heap := heap s @ [l] \<rparr>)"

definition emptyLine :: line where
  \<comment> \<open>the object \<^verbatim>\<open>{}\<close>\<close>
  "emptyLine = \<lparr> item_code = None, item_name = None, item_group = None, brand = None,
     posa_row_id = None, line.name = None, qty = None, stock_qty = None, base_qty = None,
     base_quantity = None, transfer_qty = None, conversion_factor = None,
     uom_conversion_factor = None, uom = None, stock_uom = None, base_rate = None,
     base_price_list_rate = None, base_discount_amount = None, discount_percentage = None,
     rate = None, price_list_rate = None, discount_amount = None, amount = None,
     base_amount = None, locked_price = JFalsy, posa_offer_applied = JFalsy,
     manual_rate_set = JFalsy, manual_rate_set_from_uom = JFalsy, is_free_item = JFalsy,
     line.same_item = JFalsy, auto_free_source = None, parent_row_id = None, source_rule = None,
     bundle_id = None, pricing_rule_badge = None, pricing_rule_details = [],
     pricing_rules = RNone, pricing_rule = RNone \<rparr>"

fun firstNonEmpty :: "string list \<Rightarrow> string" where
  "firstNonEmpty [] = []"
| "firstNonEmpty (s # ss) = (if s \<noteq> [] then s else firstNonEmpty ss)"

fun preferString :: "ruleref \<Rightarrow> string" where
  "preferString RNone = []"
| "preferString (RStr s) = s"
| "preferString (RJsonStr s parsed) = s"
| "preferString (RArr vs) = firstNonEmpty (map preferString vs)"
| "preferString (RObj n r pr pR) =
     (case strOr n (strOr r (strOr pr (strOr pR (Some [])))) of None \<Rightarrow> [] | Some t \<Rightarrow> t)"

definition isSpace :: "char \<Rightarrow> bool" where
  "isSpace c = (c = CHR '' '' \<or> c = CHR 0x09 \<or> c = CHR 0x0A \<or> c = CHR 0x0D)"

definition trim :: "string \<Rightarrow> string" where
  "trim s = rev (dropWhile isSpace (rev (dropWhile isSpace s)))"

definition truthyRef :: "ruleref \<Rightarrow> bool" where
  "truthyRef v = (case v of RNone \<Rightarrow> False | RStr s \<Rightarrow> s \<noteq> [] | RJsonStr s p \<Rightarrow> s \<noteq> [] | _ \<Rightarrow> True)"

definition resolveRuleName :: "line \<Rightarrow> string" where
  "resolveRuleName l =
     (if truthyStr (source_rule l) then tmpl (source_rule l)
      else if truthyRef (pricing_rule l) then preferString (pricing_rule l)
      else
        (case pricing_rules l of
           RStr raw \<Rightarrow> trim raw
         | RJsonStr raw parsed \<Rightarrow>
             (case parsed of
                Some v \<Rightarrow> preferString v
              | None \<Rightarrow> trim raw)
         | raw \<Rightarrow> preferString raw))"

record legacy =
  lg_line :: nat
  lg_index :: nat
  lg_rule :: string
  lg_used :: bool

type_synonym existing_map = "(string \<times> nat \<times> nat) list"
  \<comment> \<open>\<^verbatim>\<open>auto_free_source\<close> to \<^verbatim>\<open>{ line, index }\<close>\<close>

definition indexLine :: "cart \<Rightarrow> existing_map \<times> legacy list \<Rightarrow> nat \<times> nat \<Rightarrow> existing_map \<times> legacy list" where
  \<comment> \<open>one step of the first \<^verbatim>\<open>this.items.forEach((line, index) => ...)\<close>\<close>
  "indexLine s st ri =
     (let l = lineAt s (fst ri)
      in if truthyStr (auto_free_source l)
         then (mapSet (fst st) (tmpl (auto_free_source l)) ri, snd st)
         else if truthy (is_free_item l) then
           (let ruleName = resolveRuleName l
            in if ruleName \<noteq> []
               then (fst st, snd st @ [\<lparr> lg_line = fst ri, lg_index = snd ri, lg_rule = ruleName,
                                         lg_used = False \<rparr>])
               else st)
         else st)"

definition indexLines :: "cart \<Rightarrow> existing_map \<times> legacy list" where
  "indexLines s = foldl (indexLine s) ([], []) (zip (items s) [0..<length (items s)])"

definition currencyPrecisionOf :: "env \<Rightarrow> num" where
  "currencyPrecisionOf e = (case currency_precision e of None \<Rightarrow> Some 2 | Some p \<Rightarrow> Some p)"

definition floatPrecisionOf :: "env \<Rightarrow> num" where
  "floatPrecisionOf e = (case float_precision e of None \<Rightarrow> Some 2 | Some p \<Rightarrow> Some p)"

definition formatCurrency :: "env \<Rightarrow> num \<Rightarrow> real" where
  "formatCurrency e v =
     (case v of
        None \<Rightarrow> 0
      | Some x \<Rightarrow> (case flt e of None \<Rightarrow> x | Some f \<Rightarrow> f (Some x) (currencyPrecisionOf e)))"

definition formatPercentage :: "env \<Rightarrow> num \<Rightarrow> real" where
  "formatPercentage e v =
     (case v of
        None \<Rightarrow> 0
      | Some x \<Rightarrow> (case flt e of None \<Rightarrow> x | Some f \<Rightarrow> f (Some x) (floatPrecisionOf e)))"

definition convertFromBase :: "env \<Rightarrow> num \<Rightarrow> num" where
  "convertFromBase e v =
     (case v of
        None \<Rightarrow> None
      | Some numeric \<Rightarrow> Some (formatCurrency e (Some (fromBaseCurrency e (Some numeric)))))"

definition applyFreeLinePricing :: "env \<Rightarrow> line \<Rightarrow> freebie \<Rightarrow> num \<Rightarrow> line" where
  "applyFreeLinePricing e l data q =
     (let baseRate = nullish (fb_base_rate data) (fb_rate data);
          basePriceListRate =
            nullish (fb_base_price_list_rate data) (nullish (fb_price_list_rate data) baseRate);
          baseDiscount0 = nullish (fb_base_discount_amount data) (fb_discount_amount data);
          baseDiscount =
            (case (baseDiscount0, basePriceListRate, baseRate) of
               (None, Some plr, Some br) \<Rightarrow> Some (max (plr - br) 0)
             | _ \<Rightarrow> baseDiscount0);
          resolvedBaseRate = orZero baseRate;
          resolvedBasePriceListRate =
            (case basePriceListRate of None \<Rightarrow> resolvedBaseRate | Some plr \<Rightarrow> plr);
          resolvedBaseDiscount =
            (case baseDiscount of
               Some d \<Rightarrow> max d 0
             | None \<Rightarrow> max (resolvedBasePriceListRate - resolvedBaseRate) 0);
          resolvedDiscountPercentage =
            (case fb_discount_percentage data of
               Some p \<Rightarrow> max p 0
             | None \<Rightarrow>
                 if resolvedBasePriceListRate \<noteq> 0
                 then max ((resolvedBaseDiscount / resolvedBasePriceListRate) * 100) 0
                 else 0);
          baseAmount = (case q of None \<Rightarrow> None | Some n \<Rightarrow> Some (resolvedBaseRate * n));
          convertedRate = convertFromBase e (Some resolvedBaseRate);
          convertedPriceListRate = convertFromBase e (Some resolvedBasePriceListRate);
          convertedDiscount = convertFromBase e (Some resolvedBaseDiscount);
          convertedAmount = convertFromBase e baseAmount
      in l \<lparr> base_rate := Some resolvedBaseRate,
              base_price_list_rate := Some resolvedBasePriceListRate,
              base_discount_amount := Some resolvedBaseDiscount,
              base_amount := baseAmount,
              rate :=
                (case convertedRate of
                   Some v \<Rightarrow> Some v
                 | None \<Rightarrow> Some (formatCurrency e (Some resolvedBaseRate))),
              price_list_rate :=
                (case convertedPriceListRate of
                   Some v \<Rightarrow> Some v
                 | None \<Rightarrow> Some (formatCurrency e (Some resolvedBasePriceListRate))),
              discount_amount :=
                (case convertedDiscount of
                   Some v \<Rightarrow> Some (max v 0)
                 | None \<Rightarrow> Some (formatCurrency e (Some (max resolvedBaseDiscount 0)))),
              amount :=
                (case convertedAmount of
                   Some v \<Rightarrow> Some v
                 | None \<Rightarrow> Some (formatCurrency e baseAmount)),
              discount_percentage := Some (formatPercentage e (Some resolvedDiscountPercentage)) \<rparr>)"

definition buildFreeBadgeMeta :: "freebie \<Rightarrow> badge" where
  "buildFreeBadgeMeta data =
     (let ruleLabel = (case strOr (fb_rule data) (Some []) of None \<Rightarrow> [] | Some t \<Rightarrow> t);
          freeQty = orZero (fb_qty data);
          thresholdQty = orZero (nullish (fb_threshold_qty data) (nullish (fb_min_qty data) (Some 0)));
          perThreshold = nullish (fb_free_qty_per_threshold data) (Some 0);
          multiplier = nullish (fb_multiplier data) (Some 0);
          parts =
            (case perThreshold of
               Some per \<Rightarrow>
                 if fb_apply_per_threshold data \<and> thresholdQty > 0 then
                   Every thresholdQty per
                     # (case multiplier of
                          Some m \<Rightarrow> if m \<ge> 0 then [Qualified m] else []
                        | None \<Rightarrow> [])
                 else if thresholdQty > 0 then [MinimumQty thresholdQty] else []
             | None \<Rightarrow> if thresholdQty > 0 then [MinimumQty thresholdQty] else [])
      in FreeBadge ruleLabel (parts @ [FreeQty freeQty]))"

definition applyFreeLineState :: "env \<Rightarrow> line \<Rightarrow> freebie \<Rightarrow> line" where
  "applyFreeLineState e l0 data =
     (let q = fltOr e (fb_qty data) (float_precision e);
          hasUom = (truthyStr (fb_uom data) \<and> uom l0 \<noteq> fb_uom data);
          l1 = (if hasUom then l0 \<lparr> uom := fb_uom data \<rparr> else l0);
          hasConversion = (fb_conversion_factor data \<noteq> None);
          l2 = (case fb_conversion_factor data of
                  Some parsed \<Rightarrow> if parsed > 0 then l1 \<lparr> conversion_factor := Some parsed \<rparr> else l1
                | None \<Rightarrow> l1);
          requiresQtyUpdate = (Some (orZero (qty l2)) \<noteq> q \<or> hasUom \<or> hasConversion);
          l3 = (if requiresQtyUpdate then
                  (let l3a = l2 \<lparr> qty := q \<rparr>;
                       l3b = (case fb_stock_qty data of
                                Some sq \<Rightarrow> l3a \<lparr> stock_qty := Some sq \<rparr>
                              | None \<Rightarrow> l3a)
                   in case calc_stock_qty e of
                        Some calc \<Rightarrow> calc l3b (qty l3b)
                      | None \<Rightarrow> l3b)
                else (case fb_stock_qty data of
                        Some sq \<Rightarrow> l2 \<lparr> stock_qty := Some sq \<rparr>
                      | None \<Rightarrow> l2));
          l4 = applyFreeLinePricing e (l3 \<lparr> is_free_item := JOne, locked_price := JTrue \<rparr>) data q
      in l4 \<lparr> source_rule := fb_rule data, pricing_rule_badge := Some (buildFreeBadgeMeta data) \<rparr>)"

fun findIndex :: "('a \<Rightarrow> bool) \<Rightarrow> 'a list \<Rightarrow> nat option" where
  \<comment> \<open>\<^verbatim>\<open>Array.prototype.findIndex\<close>; \<open>None\<close> for \<^verbatim>\<open>-1\<close>\<close>
  "findIndex P [] = None"
| "findIndex P (x # xs) = (if P x then Some 0 else map_option Suc (findIndex P xs))"

definition newFreeLine :: "env \<Rightarrow> cart \<Rightarrow> string \<Rightarrow> freebie \<Rightarrow> line" where
  \<comment> \<open>the object built for a key without a line, before it is spliced into the cart\<close>
  "newFreeLine e s key data =
     (let catalogItem = getItemByCode e (fb_item_code data);
          parentLine =
            (if truthyStr (fb_parentRowId data)
             then find (\<lambda>l. posa_row_id l = fb_parentRowId data) (map (lineAt s) (items s))
             else None);
          catUom = (case catalogItem of None \<Rightarrow> None | Some c \<Rightarrow> uom c);
          catStockUom = (case catalogItem of None \<Rightarrow> None | Some c \<Rightarrow> stock_uom c);
          parUom = (case parentLine of None \<Rightarrow> None | Some p \<Rightarrow> uom p);
          parStockUom = (case parentLine of None \<Rightarrow> None | Some p \<Rightarrow> stock_uom p);
          resolvedUom0 = strOr (fb_uom data) (strOr catUom (strOr parUom (strOr catStockUom parStockUom)));
          resolvedUom = (if truthyStr resolvedUom0 then resolvedUom0 else None);
          resolvedConversion =
            (case fb_conversion_factor data of
               Some parsed \<Rightarrow>
                 if parsed > 0 then Some parsed
                 else if resolvedUom \<noteq> None \<and> parentLine \<noteq> None \<and> parUom = resolvedUom
                 then (case parentLine of None \<Rightarrow> None | Some p \<Rightarrow> conversion_factor p)
                 else if resolvedUom \<noteq> None \<and> catalogItem \<noteq> None \<and> catUom = resolvedUom
                 then (case catalogItem of None \<Rightarrow> None | Some c \<Rightarrow> conversion_factor c)
                 else if resolvedUom \<noteq> None \<and> resolvedUom = strOr catStockUom parStockUom
                 then Some 1 else None
             | None \<Rightarrow>
                 if resolvedUom \<noteq> None \<and> parentLine \<noteq> None \<and> parUom = resolvedUom
                 then (case parentLine of None \<Rightarrow> None | Some p \<Rightarrow> conversion_factor p)
                 else if resolvedUom \<noteq> None \<and> catalogItem \<noteq> None \<and> catUom = resolvedUom
                 then (case catalogItem of None \<Rightarrow> None | Some c \<Rightarrow> conversion_factor c)
                 else if resolvedUom \<noteq> None \<and> resolvedUom = strOr catStockUom parStockUom
                 then Some 1 else None);
          quantity = fltOr e (fb_qty data) (float_precision e);
          template =
            (case catalogItem of None \<Rightarrow> emptyLine | Some c \<Rightarrow> c)
              \<lparr> item_code := fb_item_code data,
                item_name :=
                  strOr (case catalogItem of None \<Rightarrow> None | Some c \<Rightarrow> item_name c) (fb_item_code data),
                qty := quantity,
                rate := Some 0,
                price_list_rate := Some 0,
                uom := (if resolvedUom \<noteq> None then resolvedUom else catUom) \<rparr>;
          f0 = get_new_item e template;
          f1 = f0 \<lparr> qty := quantity \<rparr>;
          f2 = (if resolvedUom \<noteq> None then f1 \<lparr> uom := resolvedUom \<rparr> else f1);
          f3 = (if resolvedConversion \<noteq> None then f2 \<lparr> conversion_factor := resolvedConversion \<rparr>
                else f2);
          f4 = (case fb_stock_qty data of Some sq \<Rightarrow> f3 \<lparr> stock_qty := Some sq \<rparr> | None \<Rightarrow> f3);
          f5 = f4 \<lparr> is_free_item := JOne, locked_price := JTrue, manual_rate_set := JTrue,
                     source_rule := fb_rule data, auto_free_source := Some key,
                     parent_row_id := fb_parentRowId data,
                     pricing_rule_badge := Some (buildFreeBadgeMeta data) \<rparr>
      in applyFreeLinePricing e f5 data quantity)"

definition legacyMatches :: "cart \<Rightarrow> freebie \<Rightarrow> legacy \<Rightarrow> bool" where
  "legacyMatches s data entry =
     (let normalizedRule = (case strOr (fb_rule data) (Some []) of None \<Rightarrow> [] | Some t \<Rightarrow> t)
      in \<not> lg_used entry
         \<and> item_code (lineAt s (lg_line entry)) = fb_item_code data
         \<and> (normalizedRule = [] \<or> lg_rule entry = normalizedRule))"

definition syncEntry ::
  "env \<Rightarrow> cart \<times> existing_map \<times> legacy list \<Rightarrow> string \<times> freebie
     \<Rightarrow> cart \<times> existing_map \<times> legacy list" where
  \<comment> \<open>one iteration of \<^verbatim>\<open>for (const [key, data] of freebiesMap.entries())\<close>\<close>
  "syncEntry e st kd =
     (let s = fst st; existing = fst (snd st); legacyFreeLines = snd (snd st);
          key = fst kd; data = snd kd
      in case map_of existing key of
           Some match \<Rightarrow>
             (setLine s (fst match) (applyFreeLineState e (lineAt s (fst match)) data),
              existing, legacyFreeLines)
         | None \<Rightarrow>
             (case findIndex (legacyMatches s data) legacyFreeLines of
                Some i \<Rightarrow>
                  (let legacyEntry = legacyFreeLines ! i;
                       r = lg_line legacyEntry;
                       l1 = (lineAt s r) \<lparr> auto_free_source := Some key,
                                              parent_row_id := fb_parentRowId data \<rparr>
                   in (setLine s r (applyFreeLineState e l1 data),
                       mapSet existing key (r, lg_index legacyEntry),
                       legacyFreeLines[i := legacyEntry \<lparr> lg_used := True \<rparr>]))
              | None \<Rightarrow>
                  (let freeLine = newFreeLine e s key data;
                       (r, s1) = allocLine s freeLine;
                       insertAt =
                         (case findIndex (\<lambda>l. posa_row_id l = fb_parentRowId data)
                                 (map (lineAt s1) (items s1)) of
                            Some parentIndex \<Rightarrow> parentIndex + 1
                          | None \<Rightarrow> length (items s1));
                       s2 = s1 \<lparr> items := take insertAt (items s1) @ [r] @ drop insertAt (items s1) \<rparr>;
                       s3 = (case calc_stock_qty e of
                               Some calc \<Rightarrow> setLine s2 r (calc (lineAt s2 r) (qty (lineAt s2 r)))
                             | None \<Rightarrow> s2)
                   in (s3, existing, legacyFreeLines))))"

definition isStale :: "string list \<Rightarrow> line \<Rightarrow> bool" where
  \<comment> \<open>\<^verbatim>\<open>line.auto_free_source && !expectedKeys.has(line.auto_free_source)\<close>\<close>
  "isStale expectedKeys l =
     (truthyStr (auto_free_source l) \<and> tmpl (auto_free_source l) \<notin> set expectedKeys)"

definition removeAt :: "cart \<Rightarrow> nat \<Rightarrow> cart" where
  \<comment> \<open>\<^verbatim>\<open>const [line] = this.items.splice(idx, 1)\<close> and the filter of the packed items\<close>
  "removeAt s idx =
     (let l = lineAt s (items s ! idx);
          s1 = s \<lparr> items := take idx (items s) @ drop (Suc idx) (items s) \<rparr>
      in if truthyStr (bundle_id l)
         then s1 \<lparr> packed_items :=
                     filter (\<lambda>p. packed_bundle_id p \<noteq> bundle_id l) (packed_items s1) \<rparr>
         else s1)"

definition removeStale :: "string list \<Rightarrow> cart \<Rightarrow> cart" where
  "removeStale expectedKeys s =
     (let removable =
            filter (\<lambda>index. isStale expectedKeys (lineAt s (items s ! index)))
              [0..<length (items s)]
      in foldl removeAt s (rev removable))"

definition syncAutoFreeLines :: "env \<Rightarrow> freebie_map \<Rightarrow> cart \<Rightarrow> cart" where
  "syncAutoFreeLines e freebiesMap s =
     (let expectedKeys = map fst freebiesMap;
          st0 = (s, indexLines s);
          st1 = foldl (syncEntry e) st0 freebiesMap
      in removeStale expectedKeys (fst st1))"

section \<open>Server reconciliation (\<^verbatim>\<open>_applyServerPricingRules\<close>)\<close>

text \<open>
  The response of the remote pricing service is a parameter: its \<^verbatim>\<open>updates\<close> and its
  \<^verbatim>\<open>free_lines\<close>. The invoice-level discount of the response does not touch the cart
  lines and is left out. A rejected call raises in the caller, which falls back to the
  local result.
\<close>

record server_free =
  sf_item_code :: "string option"
  sf_pricing_rules :: "string option"
  sf_source_rule :: "string option"
  sf_parent_row_id :: "string option"
  sf_parent_detail_docname :: "string option"
  sf_parent_row :: "string option"
  sf_parent_docname :: "string option"
  sf_qty :: num
  sf_stock_qty :: num
  sf_base_qty :: num
  sf_conversion_factor :: num
  sf_cf :: num
  sf_base_rate :: num
  sf_rate :: num
  sf_base_price_list_rate :: num
  sf_price_list_rate :: num
  sf_base_discount_amount :: num
  sf_discount_amount :: num
  sf_discount_percentage :: num
  sf_same_item :: jsflag
  sf_uom :: "string option"

record snapshot =
  sn_parentRowId :: "string option"
  sn_qty :: num
  sn_stock_qty :: num
  sn_base_rate :: num
  sn_rate :: num
  sn_base_price_list_rate :: num
  sn_price_list_rate :: num
  sn_base_discount_amount :: num
  sn_discount_amount :: num
  sn_discount_percentage :: num
  sn_uom :: "string option"
  sn_conversion_factor :: num
  sn_same_item :: bool

datatype 'a jsprop =
    Absent
  | NotArray
  | Array "'a list"
  \<comment> \<open>an own property that may be missing, or present without being an array\<close>

datatype srv_detail =
    SDNull
  | SDStr string
  | SDObj "string option" "string option" "string option" "string option" "string option"
      \<comment> \<open>\<^verbatim>\<open>name\<close>, \<^verbatim>\<open>pricing_rule\<close>, \<^verbatim>\<open>rule\<close>, \<^verbatim>\<open>type\<close>, \<^verbatim>\<open>discount_type\<close>\<close>

record line_update =
  upd_row_id :: "string option"
  upd_rate :: num
  upd_price_list_rate :: num
  upd_discount_amount :: num
  upd_discount_percentage :: num
  upd_pricing_rules :: "string jsprop"
  upd_pricing_rule_details :: "srv_detail jsprop"

record response =
  rs_updates :: "line_update list"
  rs_free_lines :: "server_free list"

fun splitColons :: "string \<Rightarrow> string \<Rightarrow> string list" where
  \<comment> \<open>\<^verbatim>\<open>key.split("::")\<close>; the first argument is the segment read so far\<close>
  "splitColons acc [] = [acc]"
| "splitColons acc [c] = [acc @ [c]]"
| "splitColons acc (c # d # cs) =
     (if c = CHR '':'' \<and> d = CHR '':'' then acc # splitColons [] cs
      else splitColons (acc @ [c]) (d # cs))"

definition registerExistingFreebie ::
  "(string \<times> snapshot) list \<Rightarrow> line \<Rightarrow> (string \<times> snapshot) list" where
  "registerExistingFreebie snapshots l =
     (if \<not> truthyStr (auto_free_source l) then snapshots
      else
        let key = tmpl (auto_free_source l);
            segments = splitColons [] key;
            parentSegment =
              (if length segments > 2 then Some (joinWith ''::'' (drop 2 segments)) else None);
            sameItemFlag = coerceFlag (line.same_item l);
            snap = \<lparr> sn_parentRowId =
                       (let p = strOr (parent_row_id l) parentSegment
                        in if truthyStr p then p else None),
                     sn_qty = qty l,
                     sn_stock_qty = stock_qty l,
                     sn_base_rate = nullish (base_rate l) (rate l),
                     sn_rate = rate l,
                     sn_base_price_list_rate = nullish (base_price_list_rate l) (price_list_rate l),
                     sn_price_list_rate = price_list_rate l,
                     sn_base_discount_amount = nullish (base_discount_amount l) (discount_amount l),
                     sn_discount_amount = discount_amount l,
                     sn_discount_percentage = discount_percentage l,
                     sn_uom = uom l,
                     sn_conversion_factor = conversion_factor l,
                     sn_same_item = sameItemFlag \<rparr>;
            snapshots1 = mapSet snapshots key snap
        in if length segments \<ge> 2 then
             (let baseKey = segments ! 0 @ ''::'' @ segments ! 1
              in if map_of snapshots1 baseKey = None then mapSet snapshots1 baseKey snap
                 else snapshots1)
           else snapshots1)"

definition resolveWithFallback :: "num \<Rightarrow> num \<Rightarrow> bool \<Rightarrow> num" where
  "resolveWithFallback primary fallback treatZeroAsMissing =
     (case primary of
        None \<Rightarrow> fallback
      | Some p \<Rightarrow>
          (case fallback of
             Some f \<Rightarrow> if treatZeroAsMissing \<and> p \<le> 0 \<and> f > 0 then Some f else Some p
           | None \<Rightarrow> Some p))"

definition entryParent :: "server_free \<Rightarrow> string option" where
  \<comment> \<open>\<^verbatim>\<open>entry.parent_row_id || entry.parent_detail_docname || entry.parent_row ||
      entry.parent_docname || null\<close>\<close>
  "entryParent en =
     (let p = strOr (sf_parent_row_id en)
                (strOr (sf_parent_detail_docname en) (strOr (sf_parent_row en) (sf_parent_docname en)))
      in if truthyStr p then p else None)"

type_synonym free_state =
  "freebie_map \<times> (string \<times> string option) list \<times> string option list"
  \<comment> \<open>the freebie map, \<^verbatim>\<open>sameItemFreeParents\<close> (as pairs of parent row and item code)
      and \<^verbatim>\<open>sameItemFreeCodes\<close>\<close>

definition optField :: "'a option \<Rightarrow> ('a \<Rightarrow> 'b option) \<Rightarrow> 'b option" where
  \<comment> \<open>\<^verbatim>\<open>obj?.field\<close>\<close>
  "optField obj sel = (case obj of None \<Rightarrow> None | Some x \<Rightarrow> sel x)"

definition entryRuleName :: "server_free \<Rightarrow> string option" where
  \<comment> \<open>\<^verbatim>\<open>entry.pricing_rules || entry.source_rule || ""\<close>\<close>
  "entryRuleName en = strOr (sf_pricing_rules en) (strOr (sf_source_rule en) (Some []))"

definition entryKeyBase :: "server_free \<Rightarrow> string" where
  \<comment> \<open>\<^verbatim>\<open>`${ruleName || ""}::${entry.item_code}`\<close>\<close>
  "entryKeyBase en = tmpl (entryRuleName en) @ ''::'' @ tmpl (sf_item_code en)"

definition entryFallback :: "(string \<times> snapshot) list \<Rightarrow> server_free \<Rightarrow> snapshot option" where
  \<comment> \<open>\<^verbatim>\<open>fallbackSnapshot\<close>: the snapshot under the full key, else under the base key\<close>
  "entryFallback snapshots en =
     (case map_of snapshots
             (case entryParent en of
                None \<Rightarrow> entryKeyBase en
              | Some p \<Rightarrow> entryKeyBase en @ ''::'' @ p) of
        Some sn \<Rightarrow> Some sn
      | None \<Rightarrow> map_of snapshots (entryKeyBase en))"

definition entryNormalizedParent :: "(string \<times> snapshot) list \<Rightarrow> server_free \<Rightarrow> string option" where
  \<comment> \<open>\<^verbatim>\<open>parentRowId || fallbackSnapshot?.parentRowId || null\<close>\<close>
  "entryNormalizedParent snapshots en =
     (let p = strOr (entryParent en) (optField (entryFallback snapshots en) sn_parentRowId)
      in if truthyStr p then p else None)"

definition entrySameItem :: "(string \<times> snapshot) list \<Rightarrow> server_free \<Rightarrow> bool" where
  "entrySameItem snapshots en =
     (coerceFlag (sf_same_item en)
      \<or> (case entryFallback snapshots en of None \<Rightarrow> False | Some sn \<Rightarrow> sn_same_item sn))"

definition processServerFree ::
  "(string \<times> snapshot) list \<Rightarrow> free_state \<Rightarrow> server_free \<Rightarrow> free_state" where
  \<comment> \<open>one step of \<^verbatim>\<open>serverFree.forEach((entry) => ...)\<close>\<close>
  "processServerFree snapshots st en =
     (if \<not> truthyStr (sf_item_code en) then st
      else
        let ruleName = entryRuleName en;
            keyBase = entryKeyBase en;
            fallbackSnapshot = entryFallback snapshots en;
            normalizedParentRowId = entryNormalizedParent snapshots en;
            key = (case normalizedParentRowId of
                     None \<Rightarrow> keyBase
                   | Some p \<Rightarrow> keyBase @ ''::'' @ p);
            q = orZero (resolveWithFallback (sf_qty en) (optField fallbackSnapshot sn_qty) False);
            stockQtyRaw = nullish (sf_stock_qty en) (nullish (sf_base_qty en) (sf_qty en));
            stockQty =
              (case resolveWithFallback stockQtyRaw (nullish (optField fallbackSnapshot sn_stock_qty) (optField fallbackSnapshot sn_qty)) False of
                 None \<Rightarrow> q
               | Some v \<Rightarrow> v);
            conversionFactor =
              resolveWithFallback (nullish (sf_conversion_factor en) (sf_cf en))
                (optField fallbackSnapshot sn_conversion_factor) False;
            baseRate0 =
              resolveWithFallback (nullish (sf_base_rate en) (sf_rate en))
                (nullish (optField fallbackSnapshot sn_base_rate) (optField fallbackSnapshot sn_rate)) True;
            displayRate0 = resolveWithFallback (sf_rate en) (optField fallbackSnapshot sn_rate) True;
            basePriceListRate0 =
              resolveWithFallback (nullish (sf_base_price_list_rate en) (sf_price_list_rate en))
                (nullish (optField fallbackSnapshot sn_base_price_list_rate) (optField fallbackSnapshot sn_price_list_rate)) True;
            displayPriceListRate0 =
              resolveWithFallback (sf_price_list_rate en) (optField fallbackSnapshot sn_price_list_rate) True;
            baseDiscount0 =
              resolveWithFallback (nullish (sf_base_discount_amount en) (sf_discount_amount en))
                (nullish (optField fallbackSnapshot sn_base_discount_amount) (optField fallbackSnapshot sn_discount_amount)) True;
            discountAmount0 = resolveWithFallback (sf_discount_amount en) (optField fallbackSnapshot sn_discount_amount) True;
            discountPercentage0 =
              resolveWithFallback (sf_discount_percentage en) (optField fallbackSnapshot sn_discount_percentage) True;
            baseRate = nullish baseRate0 displayRate0;
            displayRate = nullish displayRate0 baseRate;
            basePriceListRate = nullish basePriceListRate0 displayPriceListRate0;
            displayPriceListRate = nullish displayPriceListRate0 basePriceListRate;
            baseDiscount = nullish baseDiscount0 discountAmount0;
            discountAmount = nullish discountAmount0 baseDiscount;
            discountPercentage =
              (case (discountPercentage0, baseDiscount, basePriceListRate) of
                 (None, Some bd, Some plr) \<Rightarrow>
                   if plr \<noteq> 0 then Some (max ((bd / plr) * 100) 0) else None
               | _ \<Rightarrow> discountPercentage0);
            sameItem = entrySameItem snapshots en;
            u = strOr (sf_uom en) (optField fallbackSnapshot sn_uom);
            data = \<lparr> fb_item_code = sf_item_code en, fb_qty = Some q, fb_stock_qty = Some stockQty,
                     fb_rule = ruleName, fb_same_item = sameItem, fb_min_qty = None,
                     fb_multiplier = None, fb_apply_per_threshold = False, fb_max_free_qty = None,
                     fb_threshold_qty = None, fb_free_qty_per_threshold = None, fb_uom = u,
                     fb_conversion_factor = conversionFactor, fb_base_rate = baseRate,
                     fb_rate = displayRate, fb_base_price_list_rate = basePriceListRate,
                     fb_price_list_rate = displayPriceListRate,
                     fb_base_discount_amount = baseDiscount, fb_discount_amount = discountAmount,
                     fb_discount_percentage = discountPercentage,
                     fb_parentRowId = normalizedParentRowId \<rparr>;
            freebiesMap = mapSet (fst st) key data
        in if sameItem then
             (case normalizedParentRowId of
                Some p \<Rightarrow> (freebiesMap, fst (snd st) @ [(p, sf_item_code en)], snd (snd st))
              | None \<Rightarrow> (freebiesMap, fst (snd st), snd (snd st) @ [sf_item_code en]))
           else (freebiesMap, fst (snd st), snd (snd st)))"

definition serverFreeState :: "(string \<times> snapshot) list \<Rightarrow> server_free list \<Rightarrow> free_state" where
  \<comment> \<open>the state after \<^verbatim>\<open>serverFree.forEach\<close>\<close>
  "serverFreeState snapshots free = foldl (processServerFree snapshots) ([], [], []) free"

definition updateTarget :: "cart \<Rightarrow> line_update \<Rightarrow> nat option" where
  \<comment> \<open>\<^verbatim>\<open>this.items.find(...)\<close>: the reference of the first line the update addresses\<close>
  "updateTarget s u =
     find (\<lambda>r. let l = lineAt s r
                in \<not> truthy (is_free_item l)
                   \<and> (posa_row_id l = upd_row_id u \<or> line.name l = upd_row_id u
                       \<or> (item_code l = upd_row_id u \<and> \<not> truthyStr (auto_free_source l))))
       (items s)"

definition updBaseRate :: "line \<Rightarrow> line_update \<Rightarrow> real" where
  "updBaseRate item u = orZero (nullish (upd_rate u) (nullish (base_rate item) (Some 0)))"

definition updBasePriceListRate :: "line \<Rightarrow> line_update \<Rightarrow> real" where
  "updBasePriceListRate item u =
     orZero (nullish (upd_price_list_rate u) (nullish (base_price_list_rate item) (Some 0)))"

definition updBaseDiscount :: "line \<Rightarrow> line_update \<Rightarrow> real" where
  "updBaseDiscount item u =
     orZero (nullish (upd_discount_amount u) (nullish (base_discount_amount item) (Some 0)))"

definition updDiscountPercentage :: "line \<Rightarrow> line_update \<Rightarrow> real" where
  "updDiscountPercentage item u =
     orZero (nullish (upd_discount_percentage u) (nullish (discount_percentage item) (Some 0)))"

definition hasSameItemFree ::
  "(string \<times> string option) list \<Rightarrow> string option list \<Rightarrow> line \<Rightarrow> line_update \<Rightarrow> bool" where
  "hasSameItemFree sameItemFreeParents sameItemFreeCodes item u =
     (let parentKey = strOr (posa_row_id item) (strOr (line.name item) (upd_row_id u))
      in (truthyStr parentKey \<and> (tmpl parentKey, item_code item) \<in> set sameItemFreeParents)
         \<or> item_code item \<in> set sameItemFreeCodes)"

definition originalBaseRate :: "env \<Rightarrow> line \<Rightarrow> real" where
  "originalBaseRate e item =
     (case base_rate item of Some b \<Rightarrow> b | None \<Rightarrow> toBaseCurrency e (Some (orZero (rate item))))"

definition originalBasePriceList :: "env \<Rightarrow> line \<Rightarrow> real" where
  "originalBasePriceList e item =
     (case base_price_list_rate item of
        Some b \<Rightarrow> b
      | None \<Rightarrow> toBaseCurrency e (Some (orZero (price_list_rate item))))"

definition originalBaseDiscount :: "env \<Rightarrow> line \<Rightarrow> real" where
  "originalBaseDiscount e item =
     (case base_discount_amount item of
        Some b \<Rightarrow> b
      | None \<Rightarrow> toBaseCurrency e (Some (orZero (discount_amount item))))"

definition epsilon :: real where
  "epsilon = 1 / 10 ^ 6"

definition serverZeroedValues :: "env \<Rightarrow> line \<Rightarrow> line_update \<Rightarrow> bool" where
  "serverZeroedValues e item u =
     (let baseRate = updBaseRate item u;
          basePriceListRate = updBasePriceListRate item u;
          baseDiscount = updBaseDiscount item u;
          discountPercentage = updDiscountPercentage item u;
          zeroRateFromServer = (basePriceListRate > 0 \<and> baseRate \<le> 0);
          zeroPriceListFromServer = (basePriceListRate \<le> 0);
          serverRemovedPriceList =
            (if zeroPriceListFromServer then originalBasePriceList e item > 0 else False);
          serverRemovedDiscount =
            (if baseDiscount \<le> 0 then originalBaseDiscount e item > 0 else False);
          serverRemovedPercentage =
            (if discountPercentage \<le> 0 \<and> originalBasePriceList e item > 0
             then originalBaseDiscount e item \<ge> originalBasePriceList e item - epsilon
             else False)
      in zeroRateFromServer \<or> serverRemovedPriceList \<or> serverRemovedDiscount
         \<or> serverRemovedPercentage)"

definition serverFullDiscount :: "line \<Rightarrow> line_update \<Rightarrow> bool" where
  "serverFullDiscount item u =
     (updDiscountPercentage item u \<ge> 9999 / 100
      \<or> (updBasePriceListRate item u > 0
          \<and> updBaseDiscount item u \<ge> updBasePriceListRate item u - epsilon))"

definition fallbackFullDiscount :: "env \<Rightarrow> line \<Rightarrow> bool" where
  "fallbackFullDiscount e item =
     (if originalBasePriceList e item > 0
      then originalBaseDiscount e item \<ge> originalBasePriceList e item - epsilon
      else False)"

definition allowServerRateUpdate ::
  "env \<Rightarrow> (string \<times> string option) list \<Rightarrow> string option list \<Rightarrow> line \<Rightarrow> line_update \<Rightarrow> bool" where
  "allowServerRateUpdate e sameItemFreeParents sameItemFreeCodes item u =
     (let manualOverride = manualOverrideOf item;
          priceLocked = isTrue (locked_price item);
          offerApplied = coerceFlag (posa_offer_applied item);
          allow0 = (\<not> manualOverride \<and> \<not> priceLocked \<and> \<not> offerApplied)
      in if allow0 then
           \<not> (hasSameItemFree sameItemFreeParents sameItemFreeCodes item u
              \<and> originalBaseRate e item > 0
              \<and> (serverZeroedValues e item u \<or> serverFullDiscount item u
                   \<or> fallbackFullDiscount e item))
         else False)"

definition writeServerRates :: "env \<Rightarrow> line \<Rightarrow> line_update \<Rightarrow> line" where
  \<comment> \<open>the body of the second \<^verbatim>\<open>if (allowServerRateUpdate) { ... }\<close>\<close>
  "writeServerRates e item u =
     (let precision = numOr (currency_precision e) (Some 2);
          baseRate = updBaseRate item u;
          basePriceListRate = updBasePriceListRate item u;
          baseDiscount = updBaseDiscount item u;
          discountPercentage = updDiscountPercentage item u;
          convertedRate = fromBaseCurrency e (Some baseRate);
          convertedPriceListRate = fromBaseCurrency e (Some basePriceListRate);
          convertedDiscount = fromBaseCurrency e (Some baseDiscount);
          item1 = item \<lparr> base_rate := Some baseRate,
                          base_price_list_rate := Some basePriceListRate,
                          base_discount_amount := Some baseDiscount,
                          discount_percentage := Some discountPercentage,
                          rate := fltOr e (Some convertedRate) precision,
                          price_list_rate := fltOr e (Some convertedPriceListRate) precision,
                          discount_amount := fltOr e (Some convertedDiscount) precision \<rparr>;
          product = (case (rate item1, qty item1) of
                       (Some r, Some q) \<Rightarrow> Some (r * q)
                     | _ \<Rightarrow> None);
          baseProduct = (case qty item1 of Some q \<Rightarrow> Some (baseRate * q) | None \<Rightarrow> None)
      in item1 \<lparr> amount := fltOr e product precision,
                  base_amount := fltOr e baseProduct precision \<rparr>)"

fun detailOf :: "srv_detail \<Rightarrow> detail option" where
  "detailOf SDNull = None"
| "detailOf (SDStr s) =
     (if s = [] then None
      else Some \<lparr> d_name = s, d_type = None, d_value = None, d_change = None \<rparr>)"
| "detailOf (SDObj n pr r ty dty) =
     (let nm = strOr n (strOr pr r)
      in if \<not> truthyStr nm then None
         else let t = strOr ty dty
              in Some \<lparr> d_name = tmpl nm, d_type = (if truthyStr t then t else None),
                        d_value = None, d_change = None \<rparr>)"

fun arrayNames :: "ruleref \<Rightarrow> string list" where
  \<comment> \<open>\<^verbatim>\<open>Array.isArray(item.pricing_rules) ? item.pricing_rules.filter((name) => !!name) : []\<close>,
      for an array of strings\<close>
  "arrayNames (RArr vs) = filter (\<lambda>n. n \<noteq> []) (map preferString vs)"
| "arrayNames v = []"

definition serverDetails :: "line \<Rightarrow> line_update \<Rightarrow> detail list" where
  "serverDetails item u =
     (let rulesProvided = (upd_pricing_rules u \<noteq> Absent);
          appliedRules =
            (if rulesProvided then
               (case upd_pricing_rules u of
                  Array names \<Rightarrow> filter (\<lambda>n. n \<noteq> []) names
                | _ \<Rightarrow> [])
             else arrayNames (pricing_rules item))
      in case upd_pricing_rule_details u of
           Array ds \<Rightarrow> List.map_filter detailOf ds
         | _ \<Rightarrow>
             if \<not> rulesProvided then pricing_rule_details item
             else map (\<lambda>n. \<lparr> d_name = n, d_type = None, d_value = None, d_change = None \<rparr>)
                    appliedRules)"

definition applyServerUpdate ::
  "env \<Rightarrow> (string \<times> string option) list \<Rightarrow> string option list \<Rightarrow> cart \<Rightarrow> line_update \<Rightarrow> cart" where
  \<comment> \<open>one step of \<^verbatim>\<open>updates.forEach((update) => ...)\<close>\<close>
  "applyServerUpdate e sameItemFreeParents sameItemFreeCodes s u =
     (case updateTarget s u of
        None \<Rightarrow> s
      | Some r \<Rightarrow>
          (let item = lineAt s r;
               item1 =
                 (if allowServerRateUpdate e sameItemFreeParents sameItemFreeCodes item u
                  then writeServerRates e item u else item)
           in setLine s r (updatePricingBadge item1 (serverDetails item1 u))))"

definition applyServerUpdates ::
  "env \<Rightarrow> (string \<times> string option) list \<Rightarrow> string option list \<Rightarrow> cart \<Rightarrow> line_update list \<Rightarrow> cart" where
  "applyServerUpdates e sameItemFreeParents sameItemFreeCodes s us =
     foldl (applyServerUpdate e sameItemFreeParents sameItemFreeCodes) s us"

definition applyServerPricingRules :: "env \<Rightarrow> ctx \<Rightarrow> response \<Rightarrow> cart \<Rightarrow> cart" where
  "applyServerPricingRules e c resp s =
     (if \<not> truthyStr (ctx_company c) \<or> \<not> truthyStr (ctx_price_list c)
         \<or> \<not> truthyStr (ctx_currency c) then s
      else
        let snapshots = foldl registerExistingFreebie [] (map (lineAt s) (items s));
            paidLines =
              filter (\<lambda>r. \<not> truthy (is_free_item (lineAt s r))
                           \<and> \<not> truthyStr (auto_free_source (lineAt s r))) (items s)
        in if paidLines = [] then syncAutoFreeLines e [] s
           else
             let st = serverFreeState snapshots (rs_free_lines resp);
                 s1 = applyServerUpdates e (fst (snd st)) (snd (snd st)) s (rs_updates resp)
             in syncAutoFreeLines e (fst st) s1)"

subsection \<open>What an update leaves alone, and when the guard applies\<close>

definition rateFields :: "line \<Rightarrow> num list" where
  \<comment> \<open>the rate, price-list rate, discount and amount of a line, in both currencies\<close>
  "rateFields l =
     [rate l, base_rate l, price_list_rate l, base_price_list_rate l, discount_amount l,
      base_discount_amount l, discount_percentage l, amount l, base_amount l]"

definition recordedSameItemFree ::
  "(string \<times> snapshot) list \<Rightarrow> server_free list \<Rightarrow> line \<Rightarrow> line_update \<Rightarrow> bool" where
  \<comment> \<open>what \<^verbatim>\<open>serverFree.forEach\<close> records for a line: some entry of the line's item counts as
      same-item (by its own flag or by the snapshot's), and its parent row after the
      fallback to the snapshot is the line's row key, or it has no parent row even then\<close>
  "recordedSameItemFree snapshots free item u =
     (\<exists>en\<in>set free.
        truthyStr (sf_item_code en) \<and> entrySameItem snapshots en
        \<and> sf_item_code en = item_code item
        \<and> (case entryNormalizedParent snapshots en of
              None \<Rightarrow> True
            | Some p \<Rightarrow>
                (let parentKey = strOr (posa_row_id item) (strOr (line.name item) (upd_row_id u))
                 in truthyStr parentKey \<and> p = tmpl parentKey)))"

definition namesLineAsParent :: "server_free \<Rightarrow> line \<Rightarrow> line_update \<Rightarrow> bool" where
  \<comment> \<open>the entry's own parent row id (\<^verbatim>\<open>parent_row_id || parent_detail_docname || parent_row ||
      parent_docname\<close>) is the row key of the line (\<^verbatim>\<open>posa_row_id || name || row_id\<close>)\<close>
  "namesLineAsParent en item u =
     (case entryParent en of
        None \<Rightarrow> False
      | Some p \<Rightarrow>
          strOr (posa_row_id item) (strOr (line.name item) (upd_row_id u)) = Some p)"

definition namesNoParent :: "(string \<times> snapshot) list \<Rightarrow> server_free \<Rightarrow> bool" where
  \<comment> \<open>the entry carries no parent row id, and the cart at the start of the reconciliation
      held no free line of the entry's rule and item whose snapshot records a parent row\<close>
  "namesNoParent snapshots en =
     (entryParent en = None
      \<and> \<not> truthyStr (optField (entryFallback snapshots en) sn_parentRowId))"

definition returnedZeroed :: "env \<Rightarrow> line \<Rightarrow> line_update \<Rightarrow> bool" where
  \<comment> \<open>the returned rate, price-list rate or discount is zeroed, or the update is a full
      discount; a zeroed rate counts when the returned or the original price-list rate is
      positive, a zeroed price-list rate or discount when the original one was positive\<close>
  "returnedZeroed e item u =
     ((updBaseRate item u \<le> 0
         \<and> (updBasePriceListRate item u > 0 \<or> originalBasePriceList e item > 0))
      \<or> (updBasePriceListRate item u \<le> 0 \<and> originalBasePriceList e item > 0)
      \<or> (updBaseDiscount item u \<le> 0 \<and> originalBaseDiscount e item > 0)
      \<or> updDiscountPercentage item u \<ge> 9999 / 100
      \<or> (updBasePriceListRate item u > 0
          \<and> updBaseDiscount item u \<ge> updBasePriceListRate item u - epsilon))"

subsection \<open>Well-formed carts and \<^verbatim>\<open>calc_stock_qty\<close>\<close>

definition tagOf :: "cart \<Rightarrow> nat \<Rightarrow> string option" where
  "tagOf s r = auto_free_source (lineAt s r)"


definition liveRefs :: "cart \<Rightarrow> bool" where
  \<comment> \<open>every entry of \<^verbatim>\<open>this.items\<close> is a live object\<close>
  "liveRefs s = (\<forall>r\<in>set (items s). r < length (heap s))"


definition calcKeepsTags :: "env \<Rightarrow> bool" where
  \<comment> \<open>\<^verbatim>\<open>calc_stock_qty\<close> recomputes stock quantities; it leaves the free-line key and the
      bundle id of the line alone (the method of the component assigns neither)\<close>
  "calcKeepsTags e =
     (\<forall>calc l q. calc_stock_qty e = Some calc \<longrightarrow>
        auto_free_source (calc l q) = auto_free_source l \<and> bundle_id (calc l q) = bundle_id l)"

subsection \<open>Invariants of the synchronisation\<close>

definition keepsPacked :: "cart \<Rightarrow> (nat \<Rightarrow> bool) \<Rightarrow> nat list \<Rightarrow> packed \<Rightarrow> bool" where
  "keepsPacked s P rs p =
     (\<forall>r\<in>set rs. P r \<and> truthyStr (bundle_id (lineAt s r)) \<longrightarrow>
        packed_bundle_id p \<noteq> bundle_id (lineAt s r))"

definition created :: "env \<Rightarrow> cart \<Rightarrow> string \<Rightarrow> freebie \<Rightarrow> line" where
  \<comment> \<open>the new free line as it is once \<^verbatim>\<open>calc_stock_qty\<close> has run on it\<close>
  "created e s key data =
     (case calc_stock_qty e of
        Some calc \<Rightarrow> calc (newFreeLine e s key data) (qty (newFreeLine e s key data))
      | None \<Rightarrow> newFreeLine e s key data)"

definition tagsKept :: "cart \<Rightarrow> cart \<Rightarrow> bool" where
  "tagsKept s0 s =
     (length (heap s0) \<le> length (heap s) \<and> set (items s0) \<subseteq> set (items s)
      \<and> packed_items s = packed_items s0
      \<and> (\<forall>r<length (heap s0). truthyStr (tagOf s0 r) \<longrightarrow>
            tagOf s r = tagOf s0 r \<and> bundle_id (lineAt s r) = bundle_id (lineAt s0 r)))"

definition legacyUntagged :: "cart \<Rightarrow> legacy list \<Rightarrow> bool" where
  "legacyUntagged s0 lg =
     (\<forall>en\<in>set lg. lg_line en < length (heap s0) \<and> \<not> truthyStr (tagOf s0 (lg_line en)))"







definition refsOf :: "existing_map \<times> legacy list \<Rightarrow> nat set" where
  \<comment> \<open>the line objects the two indexes of \<^verbatim>\<open>_syncAutoFreeLines\<close> point to\<close>
  "refsOf st = (fst \<circ> snd) ` set (fst st) \<union> lg_line ` set (snd st)"

section \<open>Example rules and lines\<close>



definition blankRule :: rule where
  "blankRule = \<lparr> rule.name = [], specificity = None, priority = None, rate_or_discount = None,
     margin_rate_or_amount = None, free_qty = None, free_qty_per_unit = None, min_qty = None,
     recurse_for = None, max_free_qty = None, slabs = [], rate_or_discount_type = None,
     price_or_discount = None, discount_type = None, margin_type = None,
     is_free_item_rule = False, apply_per_threshold = False, is_recursive = False,
     round_free_qty = False, same_item = False, stop_further_rules = False,
     apply_multiple_pricing_rules = False, free_item = None, valid_from = None, valid_upto = None,
     customer = None, customer_group = None, territory = None, price_list = None, currency = None,
     free_pricing = \<lparr> free_item_base_rate = None, base_free_item_rate = None, free_item_rate = None,
       rate_for_free_item = None, free_item_base_price_list_rate = None,
       free_item_price_list_rate = None, base_for_price_list_rate = None, for_price_list_rate = None,
       free_item_base_discount_amount = None, free_item_discount_amount = None,
       free_item_discount_percentage = None \<rparr> \<rparr>"

definition blankLine :: line where
  "blankLine = emptyLine"

definition blankCtx :: ctx where
  "blankCtx = \<lparr> ctx_company = None, ctx_price_list = None, ctx_currency = None, ctx_date = None,
     ctx_customer = None, ctx_customer_group = None, ctx_territory = None \<rparr>"

definition itemIndex :: "string \<Rightarrow> rule list \<Rightarrow> indexes" where
  "itemIndex code rs = \<lparr> byItem = [code \<mapsto> rs], byGroup = Map.empty, byBrand = Map.empty, general = [] \<rparr>"

definition slabRule :: rule where
  "slabRule = blankRule \<lparr> rule.name := ''SLAB-RULE'', price_or_discount := Some ''Discount'',
      discount_type := Some ''Rate'', specificity := Some 3, priority := Some 5,
      slabs := [\<lparr> slab_min_qty = Some 5, slab_rate_or_discount = Some 5 \<rparr>,
                \<lparr> slab_min_qty = Some 10, slab_rate_or_discount = Some 10 \<rparr>] \<rparr>"

definition freeRule :: rule where
  "freeRule = blankRule \<lparr> rule.name := ''FREE-1'', is_free_item_rule := True, min_qty := Some 3,
      free_qty := Some 1, apply_per_threshold := True, specificity := Some 3, priority := Some 5,
      rule.same_item := True \<rparr>"

definition marginRule :: rule where
  "marginRule = blankRule \<lparr> rule.name := ''MARGIN'', price_or_discount := Some ''Discount'',
      discount_type := Some ''Margin'', margin_type := Some ''Percentage'',
      margin_rate_or_amount := Some 10, specificity := Some 3, priority := Some 1 \<rparr>"

definition fullDiscountRule :: rule where
  "fullDiscountRule = blankRule \<lparr> rule.name := ''DISC-100'', price_or_discount := Some ''Discount'',
      discount_type := Some ''Rate'', rate_or_discount := Some 100, specificity := Some 3 \<rparr>"


abbreviation slabMinQty :: "slab \<Rightarrow> real" where
  "slabMinQty s \<equiv> orZero (slab_min_qty s)"

definition consistentCollation :: "collation \<Rightarrow> bool" where
  \<comment> \<open>what ECMAScript asks of \<^verbatim>\<open>localeCompare\<close>: swapping the arguments swaps the sign, and
      "before" is transitive; two different strings may still compare as 0\<close>
  "consistentCollation lc =
     ((\<forall>a b. (lc a b < 0) = (0 < lc b a))
      \<and> (\<forall>a b c. lc a b < 0 \<and> lc b c < 0 \<longrightarrow> lc a c < 0))"

definition specRuleOrder :: "collation \<Rightarrow> rule \<Rightarrow> rule \<Rightarrow> bool" where
  \<comment> \<open>the ordering in the specification's words: specificity, then priority, then benefit
      score, all descending, then the rule name, compared by the collation\<close>
  "specRuleOrder lc a b =
     (orZero (specificity a) > orZero (specificity b)
      \<or> (orZero (specificity a) = orZero (specificity b)
          \<and> (orZero (priority a) > orZero (priority b)
              \<or> (orZero (priority a) = orZero (priority b)
                  \<and> (ruleBenefitScore a > ruleBenefitScore b
                      \<or> (ruleBenefitScore a = ruleBenefitScore b
                          \<and> lc (rule.name a) (rule.name b) < 0))))))"

definition codeUnitCompare :: collation where
  \<comment> \<open>a collation for the examples: the lexicographic order of the code units. Apart from
      the examples of the rule order itself, the examples sort at most one rule, so that
      their results are the same under every collation\<close>
  "codeUnitCompare a b = (if a < b then - 1 else if a = b then 0 else 1)"

definition ignorable :: "char \<Rightarrow> bool" where
  \<comment> \<open>the soft hyphen U+00AD and the control characters U+0000 to U+0008, to which the
      Unicode collation algorithm gives no weight at any level\<close>
  "ignorable ch = (ch = CHR 0xAD \<or> (of_char ch :: nat) < 9)"

definition ignoringCollation :: collation where
  \<comment> \<open>a collation that, like the Unicode one behind \<^verbatim>\<open>localeCompare\<close>, skips the ignorable
      characters; on what is left it is the order of the code units\<close>
  "ignoringCollation a b =
     codeUnitCompare (filter (\<lambda>ch. \<not> ignorable ch) a) (filter (\<lambda>ch. \<not> ignorable ch) b)"

definition promoRule :: "string \<Rightarrow> rule" where
  \<comment> \<open>rules that differ in nothing but the name\<close>
  "promoRule n = blankRule \<lparr> rule.name := n, price_or_discount := Some ''Discount'',
      discount_type := Some ''Rate'', rate_or_discount := Some 10, specificity := Some 3,
      priority := Some 1 \<rparr>"

definition overDiscountRule :: rule where
  \<comment> \<open>an amount discount larger than the rate it is taken from\<close>
  "overDiscountRule = blankRule \<lparr> rule.name := ''OFF-150'', price_or_discount := Some ''Discount'',
      discount_type := Some ''Amount'', rate_or_discount := Some 150, specificity := Some 3 \<rparr>"

definition marginSlabRule :: rule where
  \<comment> \<open>a margin rule that carries a slab\<close>
  "marginSlabRule = blankRule \<lparr> rule.name := ''MARGIN-SLAB'', price_or_discount := Some ''Discount'',
      discount_type := Some ''Margin'', margin_type := Some ''Percentage'',
      rate_or_discount := Some 10, specificity := Some 3,
      slabs := [\<lparr> slab_min_qty = Some 5, slab_rate_or_discount = Some 20 \<rparr>] \<rparr>"

definition twoThresholdRule :: rule where
  \<comment> \<open>a free-item rule whose \<^verbatim>\<open>min_qty\<close> and \<^verbatim>\<open>recurse_for\<close> differ\<close>
  "twoThresholdRule = blankRule \<lparr> rule.name := ''FREE-2T'', is_free_item_rule := True,
      min_qty := Some 3, recurse_for := Some 2, free_qty := Some 1, apply_per_threshold := True,
      specificity := Some 3, rule.same_item := True \<rparr>"

definition cappedFreeRule :: rule where
  "cappedFreeRule = blankRule \<lparr> rule.name := ''FREE-CAP'', is_free_item_rule := True, min_qty := Some 2,
      free_qty := Some 2, apply_per_threshold := True, max_free_qty := Some 3,
      round_free_qty := True, specificity := Some 3, priority := Some 5, free_item := Some ''BONUS'' \<rparr>"

definition plainEnv :: env where
  "plainEnv = \<lparr> exchange_rate = Some 1, currency_precision = Some 2, float_precision = Some 2,
     flt = Some (\<lambda>v p. orZero v), calc_stock_qty = None,
     get_new_item = (\<lambda>template. template), getItemByCode = (\<lambda>code. None),
     locale_compare = codeUnitCompare \<rparr>"

definition paidLine :: line where
  "paidLine = blankLine \<lparr> item_code := Some ''ITEM-4'', posa_row_id := Some ''ROW-1'', qty := Some 1,
     price_list_rate := Some 100, base_price_list_rate := Some 100, rate := Some 100,
     base_rate := Some 100 \<rparr>"

definition staleFreeLine :: line where
  "staleFreeLine = blankLine \<lparr> item_code := Some ''BONUS'', posa_row_id := Some ''ROW-2'',
     qty := Some 1, is_free_item := JOne, locked_price := JTrue, manual_rate_set := JTrue,
     auto_free_source := Some ''OLD-RULE::BONUS::ROW-1'', parent_row_id := Some ''ROW-1'',
     source_rule := Some ''OLD-RULE'', bundle_id := Some ''BUNDLE-1'' \<rparr>"

definition exampleCart :: cart where
  "exampleCart = \<lparr> heap = [paidLine, staleFreeLine], items = [0, 1],
     packed_items = [\<lparr> packed_bundle_id = Some ''BUNDLE-1'', packed_item_code = Some ''PART'' \<rparr>] \<rparr>"

definition exampleFreebie :: freebie where
  "exampleFreebie = \<lparr> fb_item_code = Some ''ITEM-4'', fb_qty = Some 2, fb_stock_qty = Some 2,
     fb_rule = Some ''FREE-1'', fb_same_item = True, fb_min_qty = Some 3, fb_multiplier = Some 2,
     fb_apply_per_threshold = True, fb_max_free_qty = None, fb_threshold_qty = Some 3,
     fb_free_qty_per_threshold = Some 1, fb_uom = None, fb_conversion_factor = Some 1,
     fb_base_rate = None, fb_rate = None, fb_base_price_list_rate = None,
     fb_price_list_rate = None, fb_base_discount_amount = None, fb_discount_amount = None,
     fb_discount_percentage = None, fb_parentRowId = Some ''ROW-1'' \<rparr>"

definition exampleMap :: freebie_map where
  "exampleMap = [(''FREE-1::ITEM-4::ROW-1'', exampleFreebie)]"

definition blankUpdate :: line_update where
  "blankUpdate = \<lparr> upd_row_id = None, upd_rate = None, upd_price_list_rate = None,
     upd_discount_amount = None, upd_discount_percentage = None, upd_pricing_rules = Absent,
     upd_pricing_rule_details = Absent \<rparr>"

definition blankServerFree :: server_free where
  "blankServerFree = \<lparr> sf_item_code = None, sf_pricing_rules = None, sf_source_rule = None,
     sf_parent_row_id = None, sf_parent_detail_docname = None, sf_parent_row = None,
     sf_parent_docname = None, sf_qty = None, sf_stock_qty = None, sf_base_qty = None,
     sf_conversion_factor = None, sf_cf = None, sf_base_rate = None, sf_rate = None,
     sf_base_price_list_rate = None, sf_price_list_rate = None, sf_base_discount_amount = None,
     sf_discount_amount = None, sf_discount_percentage = None, sf_same_item = JFalsy,
     sf_uom = None \<rparr>"

definition serverCtx :: ctx where
  "serverCtx = blankCtx \<lparr> ctx_company := Some ''Test Co'', ctx_price_list := Some ''Standard'',
     ctx_currency := Some ''USD'' \<rparr>"

definition manualItem :: line where
  "manualItem = blankLine \<lparr> posa_row_id := Some ''ROW-1'', item_code := Some ''ITEM-1'', qty := Some 2,
     rate := Some 120, base_rate := Some 120, price_list_rate := Some 150,
     base_price_list_rate := Some 150, discount_amount := Some 60, base_discount_amount := Some 60,
     discount_percentage := Some 40, manual_rate_set := JTrue \<rparr>"

definition manualUpdate :: line_update where
  "manualUpdate = blankUpdate \<lparr> upd_row_id := Some ''ROW-1'', upd_rate := Some 80,
     upd_price_list_rate := Some 110, upd_discount_amount := Some 30,
     upd_discount_percentage := Some 27 \<rparr>"

definition sameItemPaid :: line where
  "sameItemPaid = blankLine \<lparr> posa_row_id := Some ''ROW-3'', item_code := Some ''ITEM-SAME'',
     qty := Some 3, rate := Some 50, base_rate := Some 50, price_list_rate := Some 50,
     base_price_list_rate := Some 50, discount_amount := Some 0, base_discount_amount := Some 0,
     discount_percentage := Some 0 \<rparr>"

definition zeroingUpdate :: line_update where
  "zeroingUpdate = blankUpdate \<lparr> upd_row_id := Some ''ROW-3'', upd_rate := Some 0,
     upd_price_list_rate := Some 50, upd_discount_amount := Some 50,
     upd_discount_percentage := Some 100, upd_pricing_rules := Array [''RULE-SAME''] \<rparr>"

definition sameItemFree :: server_free where
  "sameItemFree = blankServerFree \<lparr> sf_item_code := Some ''ITEM-SAME'', sf_qty := Some 1,
     sf_pricing_rules := Some ''RULE-SAME'', sf_parent_row_id := Some ''ROW-3'',
     sf_same_item := JOne, sf_rate := Some 0 \<rparr>"

definition cartOf :: "line list \<Rightarrow> cart" where
  "cartOf ls = \<lparr> heap = ls, items = [0..<length ls], packed_items = [] \<rparr>"

definition parentlessFree :: server_free where
  \<comment> \<open>a same-item free line of the server that names no parent row\<close>
  "parentlessFree = blankServerFree \<lparr> sf_item_code := Some ''ITEM-SAME'', sf_qty := Some 1,
     sf_pricing_rules := Some ''RULE-SAME'', sf_same_item := JOne, sf_rate := Some 0 \<rparr>"

definition otherRowPaid :: line where
  \<comment> \<open>the same item on another row\<close>
  "otherRowPaid = sameItemPaid \<lparr> posa_row_id := Some ''ROW-9'' \<rparr>"

definition otherRowFree :: line where
  \<comment> \<open>the free line an earlier pass made for that other row\<close>
  "otherRowFree = blankLine \<lparr> posa_row_id := Some ''ROW-10'', item_code := Some ''ITEM-SAME'',
     qty := Some 1, rate := Some 0, base_rate := Some 0, is_free_item := JOne,
     line.same_item := JOne, locked_price := JTrue, manual_rate_set := JTrue,
     auto_free_source := Some ''RULE-SAME::ITEM-SAME::ROW-9'', parent_row_id := Some ''ROW-9'',
     source_rule := Some ''RULE-SAME'' \<rparr>"

definition edgePaid :: line where
  "edgePaid = blankLine \<lparr> posa_row_id := Some ''ROW-3'', item_code := Some ''ITEM-SAME'',
     qty := Some 3, rate := Some 50, base_rate := Some 50, price_list_rate := Some 0,
     base_price_list_rate := Some 0, discount_amount := Some 0, base_discount_amount := Some 0,
     discount_percentage := Some 0 \<rparr>"

definition clearingUpdate :: line_update where
  "clearingUpdate = blankUpdate \<lparr> upd_row_id := Some ''ROW-3'', upd_rate := Some 0,
     upd_price_list_rate := Some 0, upd_discount_amount := Some 0,
     upd_discount_percentage := Some 0 \<rparr>"

section \<open>Properties of the rule evaluator\<close>

subsection \<open>Rule ordering\<close>

lemma lex4_trans:
  fixes s1 s2 s3 p1 p2 p3 b1 b2 b3 :: real
  assumes tr: "n12 \<and> n23 \<longrightarrow> n13"
      and "s1 > s2 \<or> (s1 = s2 \<and> (p1 > p2 \<or> (p1 = p2 \<and> (b1 > b2 \<or> (b1 = b2 \<and> n12)))))"
      and "s2 > s3 \<or> (s2 = s3 \<and> (p2 > p3 \<or> (p2 = p3 \<and> (b2 > b3 \<or> (b2 = b3 \<and> n23)))))"
  shows "s1 > s3 \<or> (s1 = s3 \<and> (p1 > p3 \<or> (p1 = p3 \<and> (b1 > b3 \<or> (b1 = b3 \<and> n13)))))"
  using assms by (auto intro: less_trans)

lemma specRuleOrder_trans:
  assumes "consistentCollation lc" and "specRuleOrder lc a b" and "specRuleOrder lc b c"
  shows "specRuleOrder lc a c"
proof -
  have "lc (rule.name a) (rule.name b) < 0 \<and> lc (rule.name b) (rule.name c) < 0
          \<longrightarrow> lc (rule.name a) (rule.name c) < 0"
    using assms(1) unfolding consistentCollation_def by blast
  then show ?thesis
    using assms(2,3) unfolding specRuleOrder_def by (rule lex4_trans)
qed

lemma ruleSort_neg_iff: "ruleSort lc a b < 0 \<longleftrightarrow> specRuleOrder lc a b"
  by (auto simp: ruleSort_def specRuleOrder_def Let_def)

lemma ruleSort_pos_iff:
  assumes "consistentCollation lc"
  shows "0 < ruleSort lc a b \<longleftrightarrow> specRuleOrder lc b a"
proof -
  have "(0 < lc (rule.name a) (rule.name b)) = (lc (rule.name b) (rule.name a) < 0)"
    using assms unfolding consistentCollation_def by simp
  then show ?thesis
    by (auto simp: ruleSort_def specRuleOrder_def Let_def)
qed

lemma ruleSort_zero_iff:
  "ruleSort lc a b = 0 \<longleftrightarrow>
     orZero (specificity a) = orZero (specificity b) \<and> orZero (priority a) = orZero (priority b)
     \<and> ruleBenefitScore a = ruleBenefitScore b \<and> lc (rule.name a) (rule.name b) = 0"
  by (auto simp: ruleSort_def Let_def)

lemma collation_zero_sym:
  assumes "consistentCollation lc"
  shows "(lc x y = 0) = (lc y x = 0)"
proof -
  have a: "(lc x y < 0) = (0 < lc y x)" and b: "(lc y x < 0) = (0 < lc x y)"
    using assms unfolding consistentCollation_def by simp_all
  show ?thesis
  proof
    assume "lc x y = 0"
    with a b show "lc y x = 0" by (cases "lc y x < 0"; cases "0 < lc y x") auto
  next
    assume "lc y x = 0"
    with a b show "lc x y = 0" by (cases "lc x y < 0"; cases "0 < lc x y") auto
  qed
qed

lemma codeUnitCompare_consistent: "consistentCollation codeUnitCompare"
  unfolding consistentCollation_def codeUnitCompare_def by auto

lemma ignoringCollation_consistent: "consistentCollation ignoringCollation"
  using codeUnitCompare_consistent
  unfolding consistentCollation_def ignoringCollation_def by blast

text \<open>
  C7, as amended. \<^verbatim>\<open>ruleSort\<close> orders by specificity, then priority, then benefit score
  (the maximum of \<open>|rate_or_discount|\<close>, \<open>|margin_rate_or_amount|\<close> and
  \<open>|free_qty| + |free_qty_per_unit|\<close>), all descending, and then by
  \<^verbatim>\<open>localeCompare\<close> of the names, which is the collation of the runtime's locale and not
  the order of the code units. For every collation that is a consistent comparator,
  swapping the arguments swaps the sign, "before" is transitive, and \<^verbatim>\<open>ruleSort\<close>
  returns 0 exactly when the three numbers agree and the collation returns 0 for the two
  names. It is therefore a strict total order on every set of rules whose names the
  collation tells apart, and not on every set of rules with different names.
\<close>

theorem ruleSort_strict_total_order:
  assumes "consistentCollation lc"
  shows "((ruleSort lc a b = 0) =
            (orZero (specificity a) = orZero (specificity b)
             \<and> orZero (priority a) = orZero (priority b)
             \<and> ruleBenefitScore a = ruleBenefitScore b
             \<and> lc (rule.name a) (rule.name b) = 0))
   \<and> (lc (rule.name a) (rule.name b) \<noteq> 0 \<longrightarrow> ruleSort lc a b \<noteq> 0)
   \<and> ((ruleSort lc a b < 0) = (0 < ruleSort lc b a))
   \<and> ((ruleSort lc a b = 0) = (ruleSort lc b a = 0))
   \<and> (ruleSort lc a b < 0 \<and> ruleSort lc b c < 0 \<longrightarrow> ruleSort lc a c < 0)
   \<and> ((ruleSort lc a b < 0) = specRuleOrder lc a b)
   \<and> ruleBenefitScore a =
       max \<bar>orZero (rate_or_discount a)\<bar>
         (max \<bar>orZero (margin_rate_or_amount a)\<bar>
            (\<bar>orZero (free_qty a)\<bar> + \<bar>orZero (free_qty_per_unit a)\<bar>))"
proof -
  have exact: "(ruleSort lc a b = 0) =
            (orZero (specificity a) = orZero (specificity b)
             \<and> orZero (priority a) = orZero (priority b)
             \<and> ruleBenefitScore a = ruleBenefitScore b
             \<and> lc (rule.name a) (rule.name b) = 0)"
    by (rule ruleSort_zero_iff)
  have distinct: "lc (rule.name a) (rule.name b) \<noteq> 0 \<longrightarrow> ruleSort lc a b \<noteq> 0"
    by (simp add: ruleSort_zero_iff)
  have swap: "(ruleSort lc a b < 0) = (0 < ruleSort lc b a)"
    by (simp add: ruleSort_neg_iff ruleSort_pos_iff [OF assms])
  have zero: "(ruleSort lc a b = 0) = (ruleSort lc b a = 0)"
    using collation_zero_sym [OF assms, of "rule.name a" "rule.name b"]
    by (auto simp: ruleSort_zero_iff)
  have trans: "ruleSort lc a b < 0 \<and> ruleSort lc b c < 0 \<longrightarrow> ruleSort lc a c < 0"
    using specRuleOrder_trans [OF assms, of a b c] by (simp add: ruleSort_neg_iff)
  have order: "(ruleSort lc a b < 0) = specRuleOrder lc a b"
    by (rule ruleSort_neg_iff)
  have score: "ruleBenefitScore a =
       max \<bar>orZero (rate_or_discount a)\<bar>
         (max \<bar>orZero (margin_rate_or_amount a)\<bar>
            (\<bar>orZero (free_qty a)\<bar> + \<bar>orZero (free_qty_per_unit a)\<bar>))"
    by (simp add: ruleBenefitScore_def Let_def)
  from exact distinct swap zero trans order score show ?thesis by blast
qed

theorem ruleSort_strict_total_order_witness:
  "consistentCollation codeUnitCompare
   \<and> codeUnitCompare (rule.name (promoRule ''PROMO-A'')) (rule.name (promoRule ''PROMO-B'')) \<noteq> 0
   \<and> ruleSort codeUnitCompare (promoRule ''PROMO-A'') (promoRule ''PROMO-B'') < 0
   \<and> ruleSort codeUnitCompare (promoRule ''PROMO-B'') (promoRule ''PROMO-C'') < 0
   \<and> ruleSort codeUnitCompare (promoRule ''PROMO-A'') (promoRule ''PROMO-B'') \<noteq> 0
   \<and> 0 < ruleSort codeUnitCompare (promoRule ''PROMO-B'') (promoRule ''PROMO-A'')
   \<and> ruleSort codeUnitCompare (promoRule ''PROMO-A'') (promoRule ''PROMO-C'') < 0
   \<and> specRuleOrder codeUnitCompare (promoRule ''PROMO-A'') (promoRule ''PROMO-B'')"
proof -
  have n: "codeUnitCompare (rule.name (promoRule ''PROMO-A'')) (rule.name (promoRule ''PROMO-B'')) \<noteq> 0"
    by code_simp
  have ab: "ruleSort codeUnitCompare (promoRule ''PROMO-A'') (promoRule ''PROMO-B'') < 0"
    by code_simp
  have bc: "ruleSort codeUnitCompare (promoRule ''PROMO-B'') (promoRule ''PROMO-C'') < 0"
    by code_simp
  note t = ruleSort_strict_total_order [OF codeUnitCompare_consistent,
      of "promoRule ''PROMO-A''" "promoRule ''PROMO-B''" "promoRule ''PROMO-C''"]
  from n ab bc t codeUnitCompare_consistent show ?thesis by blast
qed

theorem ruleSort_strict_total_order_counterexample:
  "consistentCollation ignoringCollation
   \<and> rule.name (promoRule ''PROMO'') \<noteq> rule.name (promoRule (''PRO'' @ [CHR 0xAD] @ ''MO''))
   \<and> ruleSort ignoringCollation (promoRule ''PROMO'') (promoRule (''PRO'' @ [CHR 0xAD] @ ''MO'')) = 0
   \<and> ruleSort ignoringCollation (promoRule (''PRO'' @ [CHR 0xAD] @ ''MO'')) (promoRule ''PROMO'') = 0"
proof -
  have n: "rule.name (promoRule ''PROMO'') \<noteq> rule.name (promoRule (''PRO'' @ [CHR 0xAD] @ ''MO''))"
    by code_simp
  have z1: "ruleSort ignoringCollation (promoRule ''PROMO'')
              (promoRule (''PRO'' @ [CHR 0xAD] @ ''MO'')) = 0"
    by code_simp
  have z2: "ruleSort ignoringCollation (promoRule (''PRO'' @ [CHR 0xAD] @ ''MO''))
              (promoRule ''PROMO'') = 0"
    by code_simp
  from ignoringCollation_consistent n z1 z2 show ?thesis by blast
qed

subsection \<open>Slab selection\<close>




lemma selectSlabLoop_mem:
  "selectSlabLoop ss q ch = Some s \<Longrightarrow> s \<in> set ss \<or> ch = Some s"
  by (induction ss arbitrary: ch) (auto simp: Let_def split: if_splits)

lemma selectSlabLoop_le:
  "selectSlabLoop ss q ch = Some s \<Longrightarrow> (\<forall>c. ch = Some c \<longrightarrow> slabMinQty c \<le> q) \<Longrightarrow> slabMinQty s \<le> q"
  by (induction ss arbitrary: ch) (auto simp: Let_def split: if_splits)

lemma selectSlabLoop_chosen_le:
  "selectSlabLoop ss q (Some c) = Some s \<Longrightarrow> slabMinQty c \<le> slabMinQty s"
proof (induction ss arbitrary: c)
  case Nil then show ?case by simp
next
  case (Cons t ss)
  show ?case
  proof (cases "q \<ge> slabMinQty t \<and> slabMinQty t \<ge> slabMinQty c")
    case True
    with Cons.prems have "selectSlabLoop ss q (Some t) = Some s" by (simp add: Let_def)
    from Cons.IH[OF this] True show ?thesis by simp
  next
    case False
    with Cons.prems have "selectSlabLoop ss q (Some c) = Some s" by (auto simp: Let_def)
    from Cons.IH[OF this] show ?thesis .
  qed
qed

lemma selectSlabLoop_Some_stays:
  "\<exists>s. selectSlabLoop ss q (Some c) = Some s"
  by (induction ss arbitrary: c) (auto simp: Let_def)

lemma selectSlabLoop_max:
  "selectSlabLoop ss q ch = Some s \<Longrightarrow> t \<in> set ss \<Longrightarrow> slabMinQty t \<le> q \<Longrightarrow> slabMinQty t \<le> slabMinQty s"
proof (induction ss arbitrary: ch)
  case Nil then show ?case by simp
next
  case (Cons u ss)
  let ?ch' = "(if q \<ge> slabMinQty u \<and> (case ch of None \<Rightarrow> True | Some c \<Rightarrow> slabMinQty u \<ge> slabMinQty c) then Some u else ch)"
  from Cons.prems(1) have run: "selectSlabLoop ss q ?ch' = Some s" by (simp add: Let_def)
  show ?case
  proof (cases "t \<in> set ss")
    case True
    from Cons.IH[OF run True Cons.prems(3)] show ?thesis .
  next
    case False
    with Cons.prems(2) have tu: "t = u" by simp
    show ?thesis
    proof (cases ch)
      case None
      with tu Cons.prems(3) have "?ch' = Some t" by simp
      with run have "selectSlabLoop ss q (Some t) = Some s" by simp
      then show ?thesis by (rule selectSlabLoop_chosen_le)
    next
      case (Some c)
      show ?thesis
      proof (cases "slabMinQty u \<ge> slabMinQty c")
        case True
        with Some tu Cons.prems(3) have "?ch' = Some t" by simp
        with run have "selectSlabLoop ss q (Some t) = Some s" by simp
        then show ?thesis by (rule selectSlabLoop_chosen_le)
      next
        case False
        with Some have "?ch' = Some c" by simp
        with run have "selectSlabLoop ss q (Some c) = Some s" by simp
        then have "slabMinQty c \<le> slabMinQty s" by (rule selectSlabLoop_chosen_le)
        with False tu show ?thesis by simp
      qed
    qed
  qed
qed

lemma selectSlabLoop_found:
  "t \<in> set ss \<Longrightarrow> slabMinQty t \<le> q \<Longrightarrow> \<exists>s. selectSlabLoop ss q ch = Some s"
proof (induction ss arbitrary: ch)
  case Nil then show ?case by simp
next
  case (Cons u ss)
  show ?case
  proof (cases "t \<in> set ss")
    case True
    from Cons.IH[OF True Cons.prems(2)] show ?thesis by (simp add: Let_def)
  next
    case False
    with Cons.prems have tu: "t = u" by simp
    show ?thesis
    proof (cases "case ch of None \<Rightarrow> True | Some c \<Rightarrow> slabMinQty u \<ge> slabMinQty c")
      case True
      with tu Cons.prems(2) show ?thesis using selectSlabLoop_Some_stays by (simp add: Let_def)
    next
      case False
      then obtain c where "ch = Some c" by (cases ch) auto
      with False show ?thesis using selectSlabLoop_Some_stays by (simp add: Let_def)
    qed
  qed
qed

lemma selectSlabLoop_none:
  "\<forall>t\<in>set ss. \<not> slabMinQty t \<le> q \<Longrightarrow> selectSlabLoop ss q ch = ch"
  by (induction ss arbitrary: ch) (auto simp: Let_def)


lemma selectSlab_props:
  assumes "selectSlab r q = Some s"
  shows "s \<in> set (slabs r)" and "slabMinQty s \<le> q"
    and "\<forall>t\<in>set (slabs r). slabMinQty t \<le> q \<longrightarrow> slabMinQty t \<le> slabMinQty s"
proof -
  from assms have run: "selectSlabLoop (slabs r) q None = Some s"
    by (simp add: selectSlab_def split: if_splits)
  from selectSlabLoop_mem [OF run] show "s \<in> set (slabs r)" by simp
  from selectSlabLoop_le [OF run] show "slabMinQty s \<le> q" by simp
  from selectSlabLoop_max [OF run]
  show "\<forall>t\<in>set (slabs r). slabMinQty t \<le> q \<longrightarrow> slabMinQty t \<le> slabMinQty s" by blast
qed

lemma selectSlab_found:
  assumes "t \<in> set (slabs r)" and "slabMinQty t \<le> q"
  shows "\<exists>s. selectSlab r q = Some s"
proof -
  from assms(1) have "slabs r \<noteq> []" by auto
  with selectSlabLoop_found [OF assms, of None] show ?thesis by (simp add: selectSlab_def)
qed

lemma sortBy_short: "length xs \<le> 1 \<Longrightarrow> sortBy cmp xs = xs"
  by (cases xs) (auto simp: sortBy_def)

lemma sortBy_filtered:
  assumes "length xs \<le> 1"
  shows "sortBy cmp (filter P (filter Q xs)) = filter P (filter Q xs)"
proof -
  have "length (filter P (filter Q xs)) \<le> length xs"
    using length_filter_le [of P "filter Q xs"] length_filter_le [of Q xs] by linarith
  with assms have "length (filter P (filter Q xs)) \<le> 1" by linarith
  then show ?thesis by (rule sortBy_short)
qed

lemma evaluatePricingRules_one_rule:
  assumes "length (validCandidates item c ix) \<le> 1"
  shows "evaluatePricingRules lc item q d b c ix = evaluatePricingRules lc' item q d b c ix"
  unfolding evaluatePricingRules_def Let_def sortBy_filtered [OF assms] by (rule refl)

lemma applyOneRule_detail_value:
  "\<not> is_free_item_rule r \<Longrightarrow>
   \<exists>d. snd (snd (applyOneRule cur r q base)) = Some d
        \<and> d_value d = Some (resolveSlabValue r (selectSlab r q))"
  by (simp add: applyOneRule_def Let_def split_def)

lemma rule_kind_slab_free [simp]:
  "isAmountRule (r \<lparr> rate_or_discount := x \<rparr>) = isAmountRule r"
  "isMarginRule (r \<lparr> rate_or_discount := x \<rparr>) = isMarginRule r"
  "isPriceOverrideRule (r \<lparr> rate_or_discount := x \<rparr>) = isPriceOverrideRule r"
  "isAmountRule (r \<lparr> slabs := ss \<rparr>) = isAmountRule r"
  "isMarginRule (r \<lparr> slabs := ss \<rparr>) = isMarginRule r"
  "isPriceOverrideRule (r \<lparr> slabs := ss \<rparr>) = isPriceOverrideRule r"
  by (simp_all add: isAmountRule_def isMarginRule_def isPriceOverrideRule_def)

lemma applyOneRule_slab_value:
  assumes "selectSlab r q = Some s" and "slab_rate_or_discount s = Some v"
    and "\<not> isMarginRule r \<or> isPriceOverrideRule r"
  shows "applyOneRule cur r q base
           = applyOneRule cur (r \<lparr> rate_or_discount := Some v, slabs := [] \<rparr>) q base"
proof -
  have sel: "selectSlab (r \<lparr> rate_or_discount := Some v, slabs := [] \<rparr>) q = None"
    by (simp add: selectSlab_def)
  have v1: "resolveSlabValue r (selectSlab r q) = v"
    using assms(1,2) by (simp add: resolveSlabValue_def)
  have v2: "resolveSlabValue (r \<lparr> rate_or_discount := Some v, slabs := [] \<rparr>) None = v"
    by (simp add: resolveSlabValue_def orZero_def)
  show ?thesis
  proof (cases "isPriceOverrideRule r")
    case True
    then show ?thesis
      by (simp add: applyOneRule_def sel v1 v2 Let_def)
  next
    case False
    with assms(3) have "\<not> isMarginRule r" by simp
    with False show ?thesis
      by (simp add: applyOneRule_def sel v1 v2 Let_def)
  qed
qed

lemma applyOneRule_margin:
  assumes "isMarginRule r" and "\<not> isPriceOverrideRule r" and "\<not> is_free_item_rule r"
  shows "fst (applyOneRule cur r q base) = max 0 (applyMargin base r)"
  using assms by (simp add: applyOneRule_def Let_def split_def)

lemma applyMargin_slabs: "applyMargin base (r \<lparr> slabs := ss \<rparr>) = applyMargin base r"
  by (simp add: applyMargin_def)

text \<open>
  C8, as amended. For a rule with slabs, \<^verbatim>\<open>selectSlab\<close> returns the slab with the largest
  \<^verbatim>\<open>min_qty\<close> among those whose \<^verbatim>\<open>min_qty\<close> is at most the effective quantity (and
  one is returned whenever one qualifies). That slab's \<^verbatim>\<open>rate_or_discount\<close> is the value
  reported in the rule's detail, and it replaces the rule-level value in the rate of every
  rule that is a price override or is not a margin rule: such a rule is applied exactly as
  the rule without slabs whose \<^verbatim>\<open>rate_or_discount\<close> is the slab's. A margin rule that is
  not a price override takes its rate from \<^verbatim>\<open>applyMargin\<close>, which reads
  \<^verbatim>\<open>margin_rate_or_amount || rate_or_discount\<close> of the rule and no slab. The percentage rule
  with slabs \<open>[{5, 5%}, {10, 10%}]\<close> at quantity 12 on base rate 100 gives rate 90.
\<close>

theorem slab_selection:
  "(\<forall>s. selectSlab r q = Some s \<longrightarrow>
        s \<in> set (slabs r) \<and> slabMinQty s \<le> q
        \<and> (\<forall>t\<in>set (slabs r). slabMinQty t \<le> q \<longrightarrow> slabMinQty t \<le> slabMinQty s))
   \<and> ((\<exists>t\<in>set (slabs r). slabMinQty t \<le> q) \<longrightarrow> selectSlab r q \<noteq> None)
   \<and> (\<forall>s v. selectSlab r q = Some s \<and> slab_rate_or_discount s = Some v \<longrightarrow>
          resolveSlabValue r (selectSlab r q) = v)
   \<and> (\<not> is_free_item_rule r \<longrightarrow>
        (\<exists>d. snd (snd (applyOneRule cur r q base)) = Some d
             \<and> d_value d = Some (resolveSlabValue r (selectSlab r q))))
   \<and> (\<forall>s v. selectSlab r q = Some s \<and> slab_rate_or_discount s = Some v
             \<and> (\<not> isMarginRule r \<or> isPriceOverrideRule r) \<longrightarrow>
          applyOneRule cur r q base
            = applyOneRule cur (r \<lparr> rate_or_discount := Some v, slabs := [] \<rparr>) q base)
   \<and> (isMarginRule r \<and> \<not> isPriceOverrideRule r \<and> \<not> is_free_item_rule r \<longrightarrow>
        fst (applyOneRule cur r q base) = max 0 (applyMargin base r)
        \<and> fst (applyOneRule cur r q base) = fst (applyOneRule cur (r \<lparr> slabs := [] \<rparr>) q base))
   \<and> selectSlab slabRule 12 = Some \<lparr> slab_min_qty = Some 10, slab_rate_or_discount = Some 10 \<rparr>
   \<and> p_rate (fst (evaluatePricingRules lc (blankLine\<lparr>item_code := Some ''ITEM-6''\<rparr>)
                     (Some 12) None (Some 100) blankCtx (itemIndex ''ITEM-6'' [slabRule]))) = 90"
proof -
  have sel: "\<forall>s. selectSlab r q = Some s \<longrightarrow>
        s \<in> set (slabs r) \<and> slabMinQty s \<le> q
        \<and> (\<forall>t\<in>set (slabs r). slabMinQty t \<le> q \<longrightarrow> slabMinQty t \<le> slabMinQty s)"
    using selectSlab_props by blast
  have found: "(\<exists>t\<in>set (slabs r). slabMinQty t \<le> q) \<longrightarrow> selectSlab r q \<noteq> None"
    using selectSlab_found by fastforce
  have val: "\<forall>s v. selectSlab r q = Some s \<and> slab_rate_or_discount s = Some v \<longrightarrow>
          resolveSlabValue r (selectSlab r q) = v"
    by (simp add: resolveSlabValue_def)
  have det: "\<not> is_free_item_rule r \<longrightarrow>
        (\<exists>d. snd (snd (applyOneRule cur r q base)) = Some d
             \<and> d_value d = Some (resolveSlabValue r (selectSlab r q)))"
    using applyOneRule_detail_value by blast
  have repl: "\<forall>s v. selectSlab r q = Some s \<and> slab_rate_or_discount s = Some v
             \<and> (\<not> isMarginRule r \<or> isPriceOverrideRule r) \<longrightarrow>
          applyOneRule cur r q base
            = applyOneRule cur (r \<lparr> rate_or_discount := Some v, slabs := [] \<rparr>) q base"
  proof (intro allI impI)
    fix s v
    assume h: "selectSlab r q = Some s \<and> slab_rate_or_discount s = Some v
             \<and> (\<not> isMarginRule r \<or> isPriceOverrideRule r)"
    show "applyOneRule cur r q base
            = applyOneRule cur (r \<lparr> rate_or_discount := Some v, slabs := [] \<rparr>) q base"
      using h by (intro applyOneRule_slab_value [of r q s v]) simp_all
  qed
  have marg: "isMarginRule r \<and> \<not> isPriceOverrideRule r \<and> \<not> is_free_item_rule r \<longrightarrow>
        fst (applyOneRule cur r q base) = max 0 (applyMargin base r)
        \<and> fst (applyOneRule cur r q base) = fst (applyOneRule cur (r \<lparr> slabs := [] \<rparr>) q base)"
  proof
    assume m: "isMarginRule r \<and> \<not> isPriceOverrideRule r \<and> \<not> is_free_item_rule r"
    then have m': "isMarginRule (r \<lparr> slabs := [] \<rparr>) \<and> \<not> isPriceOverrideRule (r \<lparr> slabs := [] \<rparr>)
                     \<and> \<not> is_free_item_rule (r \<lparr> slabs := [] \<rparr>)"
      by simp
    have one: "fst (applyOneRule cur r q base) = max 0 (applyMargin base r)"
      using m by (intro applyOneRule_margin) simp_all
    have two: "fst (applyOneRule cur (r \<lparr> slabs := [] \<rparr>) q base) = max 0 (applyMargin base r)"
      using m' applyOneRule_margin [of "r \<lparr> slabs := [] \<rparr>" cur q base]
      by (simp add: applyMargin_slabs)
    from one two
    show "fst (applyOneRule cur r q base) = max 0 (applyMargin base r)
          \<and> fst (applyOneRule cur r q base) = fst (applyOneRule cur (r \<lparr> slabs := [] \<rparr>) q base)"
      by simp
  qed
  have ex1: "selectSlab slabRule 12 = Some \<lparr> slab_min_qty = Some 10, slab_rate_or_discount = Some 10 \<rparr>"
    by code_simp
  have one_rule: "sortBy (ruleSort lc) [x] = [x]" for x
    by (simp add: sortBy_def)
  have ex2: "p_rate (fst (evaluatePricingRules lc (blankLine\<lparr>item_code := Some ''ITEM-6''\<rparr>)
                     (Some 12) None (Some 100) blankCtx (itemIndex ''ITEM-6'' [slabRule]))) = 90"
  proof -
    have "p_rate (fst (evaluatePricingRules codeUnitCompare (blankLine\<lparr>item_code := Some ''ITEM-6''\<rparr>)
                     (Some 12) None (Some 100) blankCtx (itemIndex ''ITEM-6'' [slabRule]))) = 90"
      by code_simp
    moreover have "evaluatePricingRules lc (blankLine\<lparr>item_code := Some ''ITEM-6''\<rparr>)
                     (Some 12) None (Some 100) blankCtx (itemIndex ''ITEM-6'' [slabRule])
                   = evaluatePricingRules codeUnitCompare (blankLine\<lparr>item_code := Some ''ITEM-6''\<rparr>)
                     (Some 12) None (Some 100) blankCtx (itemIndex ''ITEM-6'' [slabRule])"
      by (rule evaluatePricingRules_one_rule) code_simp
    ultimately show ?thesis by simp
  qed
  from sel found val det repl marg ex1 ex2 show ?thesis by blast
qed

theorem slab_selection_witness:
  "(\<exists>t\<in>set (slabs slabRule). slabMinQty t \<le> 7)
   \<and> \<not> is_free_item_rule slabRule \<and> \<not> isMarginRule slabRule
   \<and> selectSlab slabRule 7 = Some \<lparr> slab_min_qty = Some 5, slab_rate_or_discount = Some 5 \<rparr>
   \<and> resolveSlabValue slabRule (selectSlab slabRule 7) = 5
   \<and> (\<exists>d. snd (snd (applyOneRule 100 slabRule 7 100)) = Some d \<and> d_value d = Some 5)
   \<and> applyOneRule 100 slabRule 7 100
       = applyOneRule 100 (slabRule \<lparr> rate_or_discount := Some 5, slabs := [] \<rparr>) 7 100
   \<and> fst (applyOneRule 100 slabRule 7 100) = 95
   \<and> isMarginRule marginSlabRule \<and> \<not> isPriceOverrideRule marginSlabRule
   \<and> \<not> is_free_item_rule marginSlabRule
   \<and> fst (applyOneRule 100 marginSlabRule 10 100)
       = fst (applyOneRule 100 (marginSlabRule \<lparr> slabs := [] \<rparr>) 10 100)"
proof -
  have q: "\<exists>t\<in>set (slabs slabRule). slabMinQty t \<le> 7"
    by (simp add: slabRule_def blankRule_def orZero_def)
  have nf: "\<not> is_free_item_rule slabRule"
    by (simp add: slabRule_def blankRule_def)
  have nm: "\<not> isMarginRule slabRule"
    by code_simp
  have s: "selectSlab slabRule 7 = Some \<lparr> slab_min_qty = Some 5, slab_rate_or_discount = Some 5 \<rparr>"
    by code_simp
  have v: "fst (applyOneRule 100 slabRule 7 100) = 95"
    by code_simp
  have m: "isMarginRule marginSlabRule \<and> \<not> isPriceOverrideRule marginSlabRule
           \<and> \<not> is_free_item_rule marginSlabRule"
    by code_simp
  note t1 = slab_selection [of slabRule 7 100 100 codeUnitCompare]
  note t2 = slab_selection [of marginSlabRule 10 100 100 codeUnitCompare]
  note val = t1 [THEN conjunct2, THEN conjunct2, THEN conjunct1]
  note det = t1 [THEN conjunct2, THEN conjunct2, THEN conjunct2, THEN conjunct1]
  note repl = t1 [THEN conjunct2, THEN conjunct2, THEN conjunct2, THEN conjunct2, THEN conjunct1]
  note marg = t2 [THEN conjunct2, THEN conjunct2, THEN conjunct2, THEN conjunct2, THEN conjunct2,
      THEN conjunct1]
  have sv: "slab_rate_or_discount \<lparr> slab_min_qty = Some 5, slab_rate_or_discount = Some 5 \<rparr> = Some (5::real)"
    by simp
  have r1: "resolveSlabValue slabRule (selectSlab slabRule 7) = 5"
    using val s sv by blast
  have d1: "\<exists>d. snd (snd (applyOneRule 100 slabRule 7 100)) = Some d \<and> d_value d = Some 5"
    using det nf r1 by simp
  have e1: "applyOneRule 100 slabRule 7 100
              = applyOneRule 100 (slabRule \<lparr> rate_or_discount := Some 5, slabs := [] \<rparr>) 7 100"
    using repl s sv nm by blast
  have e2: "fst (applyOneRule 100 marginSlabRule 10 100)
              = fst (applyOneRule 100 (marginSlabRule \<lparr> slabs := [] \<rparr>) 10 100)"
    using marg m by blast
  from q nf nm s r1 d1 e1 v m e2 show ?thesis by blast
qed

theorem slab_selection_counterexample:
  "selectSlab marginSlabRule 10 = Some \<lparr> slab_min_qty = Some 5, slab_rate_or_discount = Some 20 \<rparr>
   \<and> rate_or_discount marginSlabRule = Some 10
   \<and> map d_value (p_applied (fst (evaluatePricingRules codeUnitCompare
                                    (blankLine\<lparr>item_code := Some ''ITEM-6''\<rparr>) (Some 10) None (Some 100)
                                    blankCtx (itemIndex ''ITEM-6'' [marginSlabRule])))) = [Some 20]
   \<and> p_rate (fst (evaluatePricingRules codeUnitCompare (blankLine\<lparr>item_code := Some ''ITEM-6''\<rparr>)
                     (Some 10) None (Some 100) blankCtx (itemIndex ''ITEM-6'' [marginSlabRule]))) = 110
   \<and> p_rate (fst (evaluatePricingRules codeUnitCompare (blankLine\<lparr>item_code := Some ''ITEM-6''\<rparr>)
                     (Some 10) None (Some 100) blankCtx
                     (itemIndex ''ITEM-6'' [marginSlabRule \<lparr> slabs := [] \<rparr>]))) = 110
   \<and> p_rate (fst (evaluatePricingRules codeUnitCompare (blankLine\<lparr>item_code := Some ''ITEM-6''\<rparr>)
                     (Some 10) None (Some 100) blankCtx
                     (itemIndex ''ITEM-6''
                        [marginSlabRule \<lparr> rate_or_discount := Some 20, slabs := [] \<rparr>]))) = 120"
proof -
  have c1: "selectSlab marginSlabRule 10
              = Some \<lparr> slab_min_qty = Some 5, slab_rate_or_discount = Some 20 \<rparr>"
    by code_simp
  have c2: "rate_or_discount marginSlabRule = Some 10"
    by code_simp
  have c3: "map d_value (p_applied (fst (evaluatePricingRules codeUnitCompare
                                    (blankLine\<lparr>item_code := Some ''ITEM-6''\<rparr>) (Some 10) None (Some 100)
                                    blankCtx (itemIndex ''ITEM-6'' [marginSlabRule])))) = [Some 20]"
    by code_simp
  have c4: "p_rate (fst (evaluatePricingRules codeUnitCompare (blankLine\<lparr>item_code := Some ''ITEM-6''\<rparr>)
                     (Some 10) None (Some 100) blankCtx (itemIndex ''ITEM-6'' [marginSlabRule]))) = 110"
    by code_simp
  have c5: "p_rate (fst (evaluatePricingRules codeUnitCompare (blankLine\<lparr>item_code := Some ''ITEM-6''\<rparr>)
                     (Some 10) None (Some 100) blankCtx
                     (itemIndex ''ITEM-6'' [marginSlabRule \<lparr> slabs := [] \<rparr>]))) = 110"
    by code_simp
  have c6: "p_rate (fst (evaluatePricingRules codeUnitCompare (blankLine\<lparr>item_code := Some ''ITEM-6''\<rparr>)
                     (Some 10) None (Some 100) blankCtx
                     (itemIndex ''ITEM-6''
                        [marginSlabRule \<lparr> rate_or_discount := Some 20, slabs := [] \<rparr>]))) = 120"
    by code_simp
  from c1 c2 c3 c4 c5 c6 show ?thesis by blast
qed

subsection \<open>Free-item thresholds\<close>

lemma thresholds_coincide:
  "\<not> truthyNum (recurse_for r) \<or> \<not> truthyNum (min_qty r) \<or> recurse_for r = min_qty r \<Longrightarrow>
   orDefault 1 (numOr (numOr (recurse_for r) (min_qty r)) (Some 1))
     = orDefault 1 (numOr (numOr (min_qty r) (recurse_for r)) (Some 1))"
  by (auto simp: truthyNum_def numOr_def orDefault_def split: option.splits)

lemma freeQtyOf_capped: "max_free_qty r = Some m \<Longrightarrow> freeQtyOf r q \<le> m"
proof -
  assume m: "max_free_qty r = Some m"
  have fl: "\<And>x::real. jsFloor x \<le> x" by (simp add: jsFloor_def)
  have "\<And>x::real. jsFloor (min x m) \<le> m"
  proof -
    fix x :: real
    have "jsFloor (min x m) \<le> min x m" by (rule fl)
    then show "jsFloor (min x m) \<le> m" by simp
  qed
  with m show ?thesis by (simp add: freeQtyOf_def Let_def)
qed

lemma freeQtyOf_floored: "round_free_qty r \<Longrightarrow> jsFloor (freeQtyOf r q) = freeQtyOf r q"
  by (simp add: freeQtyOf_def Let_def jsFloor_def)

lemma applyFreeItemRule_qty:
  "applyFreeItemRule r item q = Some f \<Longrightarrow>
   fb_qty f = Some (freeQtyOf r q) \<and> fb_stock_qty f = Some (freeQtyOf r q) \<and> 0 < freeQtyOf r q
   \<and> fb_multiplier f = Some (snd (computeThresholdInfo r q))"
  by (auto simp: applyFreeItemRule_def Let_def split_def split: if_splits)

lemma applyFreeItemRule_none:
  "freeQtyOf r q \<le> 0 \<Longrightarrow> applyFreeItemRule r item q = None"
  by (simp add: applyFreeItemRule_def Let_def split_def)

lemma applyFreeItemRule_threshold:
  "applyFreeItemRule r item q = Some f \<Longrightarrow>
   fb_threshold_qty f = Some (fst (computeThresholdInfo r q))
   \<and> fb_min_qty f = Some (fst (computeThresholdInfo r q))"
  by (auto simp: applyFreeItemRule_def Let_def split_def split: if_splits)

text \<open>
  C9, as amended. A free-item rule has two thresholds: the divisor
  \<^verbatim>\<open>recurse_for || min_qty || 1\<close> and the minimum \<^verbatim>\<open>min_qty || recurse_for || 1\<close>; they are
  the same number unless both properties are set and differ. The multiplier is
  \<open>floor(qty / divisor)\<close> when \<^verbatim>\<open>apply_per_threshold\<close> is set, and otherwise 1 when the
  quantity reaches the minimum and 0 when it does not; the descriptor reports the minimum
  as its threshold in both cases. The free quantity is the multiplier times the free
  quantity per threshold when \<^verbatim>\<open>apply_per_threshold\<close> is set, otherwise the quantity times
  \<^verbatim>\<open>free_qty_per_unit\<close> or else \<^verbatim>\<open>free_qty\<close>; it is then capped at \<^verbatim>\<open>max_free_qty\<close> when
  that is present and floored when \<^verbatim>\<open>round_free_qty\<close> is set, and a descriptor is built
  only when it is positive. The rule \<open>{min_qty: 3, free_qty: 1, apply_per_threshold,
  same_item}\<close> at quantity 7 has multiplier 2 and free quantity 2.
\<close>

theorem free_item_multiplier_and_quantity:
  "(apply_per_threshold r \<longrightarrow>
      snd (computeThresholdInfo r q)
        = jsFloor (q / orDefault 1 (numOr (numOr (recurse_for r) (min_qty r)) (Some 1))))
   \<and> (\<not> apply_per_threshold r \<longrightarrow>
      snd (computeThresholdInfo r q)
        = (if q \<ge> orDefault 1 (numOr (numOr (min_qty r) (recurse_for r)) (Some 1)) then 1 else 0))
   \<and> (\<not> truthyNum (recurse_for r) \<or> \<not> truthyNum (min_qty r) \<or> recurse_for r = min_qty r \<longrightarrow>
      orDefault 1 (numOr (numOr (recurse_for r) (min_qty r)) (Some 1))
        = orDefault 1 (numOr (numOr (min_qty r) (recurse_for r)) (Some 1)))
   \<and> (\<forall>f. applyFreeItemRule r item q = Some f \<longrightarrow>
         (\<exists>fq. fb_qty f = Some fq \<and> 0 < fq
               \<and> fb_multiplier f = Some (snd (computeThresholdInfo r q))
               \<and> fb_threshold_qty f
                   = Some (orDefault 1 (numOr (numOr (min_qty r) (recurse_for r)) (Some 1)))
               \<and> fq = (let perThreshold =
                               (if truthyNum (free_qty_per_unit r) then orZero (free_qty_per_unit r)
                                else orZero (free_qty r));
                             raw =
                               (if apply_per_threshold r
                                then snd (computeThresholdInfo r q) * perThreshold
                                else if truthyNum (free_qty_per_unit r)
                                then q * orZero (free_qty_per_unit r)
                                else orZero (free_qty r));
                             capped = (case max_free_qty r of None \<Rightarrow> raw | Some m \<Rightarrow> min raw m)
                         in if round_free_qty r then jsFloor capped else capped)
               \<and> (\<forall>m. max_free_qty r = Some m \<longrightarrow> fq \<le> m)
               \<and> (round_free_qty r \<longrightarrow> jsFloor fq = fq)))
   \<and> snd (computeThresholdInfo freeRule 7) = 2
   \<and> map_option fb_qty (applyFreeItemRule freeRule blankLine 7) = Some (Some 2)"
proof -
  have per: "apply_per_threshold r \<longrightarrow>
      snd (computeThresholdInfo r q)
        = jsFloor (q / orDefault 1 (numOr (numOr (recurse_for r) (min_qty r)) (Some 1)))"
    by (simp add: computeThresholdInfo_def Let_def)
  have once: "\<not> apply_per_threshold r \<longrightarrow>
      snd (computeThresholdInfo r q)
        = (if q \<ge> orDefault 1 (numOr (numOr (min_qty r) (recurse_for r)) (Some 1)) then 1 else 0)"
    by (simp add: computeThresholdInfo_def Let_def)
  have same: "\<not> truthyNum (recurse_for r) \<or> \<not> truthyNum (min_qty r) \<or> recurse_for r = min_qty r \<longrightarrow>
      orDefault 1 (numOr (numOr (recurse_for r) (min_qty r)) (Some 1))
        = orDefault 1 (numOr (numOr (min_qty r) (recurse_for r)) (Some 1))"
    using thresholds_coincide by blast
  have minimum: "fst (computeThresholdInfo r q)
                   = orDefault 1 (numOr (numOr (min_qty r) (recurse_for r)) (Some 1))"
    by (simp add: computeThresholdInfo_def Let_def)
  have formula: "freeQtyOf r q
                   = (let perThreshold =
                               (if truthyNum (free_qty_per_unit r) then orZero (free_qty_per_unit r)
                                else orZero (free_qty r));
                             raw =
                               (if apply_per_threshold r
                                then snd (computeThresholdInfo r q) * perThreshold
                                else if truthyNum (free_qty_per_unit r)
                                then q * orZero (free_qty_per_unit r)
                                else orZero (free_qty r));
                             capped = (case max_free_qty r of None \<Rightarrow> raw | Some m \<Rightarrow> min raw m)
                         in if round_free_qty r then jsFloor capped else capped)"
    by (simp add: freeQtyOf_def Let_def)
  have desc: "\<forall>f. applyFreeItemRule r item q = Some f \<longrightarrow>
         (\<exists>fq. fb_qty f = Some fq \<and> 0 < fq
               \<and> fb_multiplier f = Some (snd (computeThresholdInfo r q))
               \<and> fb_threshold_qty f
                   = Some (orDefault 1 (numOr (numOr (min_qty r) (recurse_for r)) (Some 1)))
               \<and> fq = (let perThreshold =
                               (if truthyNum (free_qty_per_unit r) then orZero (free_qty_per_unit r)
                                else orZero (free_qty r));
                             raw =
                               (if apply_per_threshold r
                                then snd (computeThresholdInfo r q) * perThreshold
                                else if truthyNum (free_qty_per_unit r)
                                then q * orZero (free_qty_per_unit r)
                                else orZero (free_qty r));
                             capped = (case max_free_qty r of None \<Rightarrow> raw | Some m \<Rightarrow> min raw m)
                         in if round_free_qty r then jsFloor capped else capped)
               \<and> (\<forall>m. max_free_qty r = Some m \<longrightarrow> fq \<le> m)
               \<and> (round_free_qty r \<longrightarrow> jsFloor fq = fq))"
  proof (intro allI impI)
    fix f assume f: "applyFreeItemRule r item q = Some f"
    note a = applyFreeItemRule_qty [OF f]
    note b = applyFreeItemRule_threshold [OF f]
    have c: "\<forall>m. max_free_qty r = Some m \<longrightarrow> freeQtyOf r q \<le> m"
      using freeQtyOf_capped by blast
    have d: "round_free_qty r \<longrightarrow> jsFloor (freeQtyOf r q) = freeQtyOf r q"
      using freeQtyOf_floored by blast
    show "\<exists>fq. fb_qty f = Some fq \<and> 0 < fq
               \<and> fb_multiplier f = Some (snd (computeThresholdInfo r q))
               \<and> fb_threshold_qty f
                   = Some (orDefault 1 (numOr (numOr (min_qty r) (recurse_for r)) (Some 1)))
               \<and> fq = (let perThreshold =
                               (if truthyNum (free_qty_per_unit r) then orZero (free_qty_per_unit r)
                                else orZero (free_qty r));
                             raw =
                               (if apply_per_threshold r
                                then snd (computeThresholdInfo r q) * perThreshold
                                else if truthyNum (free_qty_per_unit r)
                                then q * orZero (free_qty_per_unit r)
                                else orZero (free_qty r));
                             capped = (case max_free_qty r of None \<Rightarrow> raw | Some m \<Rightarrow> min raw m)
                         in if round_free_qty r then jsFloor capped else capped)
               \<and> (\<forall>m. max_free_qty r = Some m \<longrightarrow> fq \<le> m)
               \<and> (round_free_qty r \<longrightarrow> jsFloor fq = fq)"
    proof (intro exI [of _ "freeQtyOf r q"] conjI)
      show "fb_qty f = Some (freeQtyOf r q)" using a by simp
      show "0 < freeQtyOf r q" using a by simp
      show "fb_multiplier f = Some (snd (computeThresholdInfo r q))" using a by simp
      show "fb_threshold_qty f
              = Some (orDefault 1 (numOr (numOr (min_qty r) (recurse_for r)) (Some 1)))"
        using b minimum by simp
      show "freeQtyOf r q
              = (let perThreshold =
                               (if truthyNum (free_qty_per_unit r) then orZero (free_qty_per_unit r)
                                else orZero (free_qty r));
                             raw =
                               (if apply_per_threshold r
                                then snd (computeThresholdInfo r q) * perThreshold
                                else if truthyNum (free_qty_per_unit r)
                                then q * orZero (free_qty_per_unit r)
                                else orZero (free_qty r));
                             capped = (case max_free_qty r of None \<Rightarrow> raw | Some m \<Rightarrow> min raw m)
                         in if round_free_qty r then jsFloor capped else capped)"
        by (rule formula)
      show "\<forall>m. max_free_qty r = Some m \<longrightarrow> freeQtyOf r q \<le> m" by (rule c)
      show "round_free_qty r \<longrightarrow> jsFloor (freeQtyOf r q) = freeQtyOf r q" by (rule d)
    qed
  qed
  have ex1: "snd (computeThresholdInfo freeRule 7) = 2"
    by code_simp
  have ex2: "map_option fb_qty (applyFreeItemRule freeRule blankLine 7) = Some (Some 2)"
    by code_simp
  from per once same desc ex1 ex2 show ?thesis by blast
qed

theorem free_item_multiplier_and_quantity_witness:
  "apply_per_threshold cappedFreeRule \<and> \<not> truthyNum (recurse_for cappedFreeRule)
   \<and> max_free_qty cappedFreeRule = Some 3 \<and> round_free_qty cappedFreeRule
   \<and> snd (computeThresholdInfo cappedFreeRule 10) = jsFloor (10 / 2)
   \<and> (\<exists>f fq. applyFreeItemRule cappedFreeRule blankLine 10 = Some f
              \<and> fb_qty f = Some fq \<and> 0 < fq \<and> fq \<le> 3 \<and> jsFloor fq = fq
              \<and> fb_multiplier f = Some 5 \<and> fb_threshold_qty f = Some 2)
   \<and> map_option fb_qty (applyFreeItemRule cappedFreeRule blankLine 10) = Some (Some 3)"
proof -
  have a: "apply_per_threshold cappedFreeRule" and b: "\<not> truthyNum (recurse_for cappedFreeRule)"
    and c: "max_free_qty cappedFreeRule = Some 3" and d: "round_free_qty cappedFreeRule"
    by (simp_all add: cappedFreeRule_def blankRule_def truthyNum_def)
  have e: "orDefault 1 (numOr (numOr (recurse_for cappedFreeRule) (min_qty cappedFreeRule)) (Some 1)) = 2"
    by (simp add: cappedFreeRule_def blankRule_def orDefault_def numOr_def)
  have e': "orDefault 1 (numOr (numOr (min_qty cappedFreeRule) (recurse_for cappedFreeRule)) (Some 1)) = 2"
    by (simp add: cappedFreeRule_def blankRule_def orDefault_def numOr_def)
  have m: "snd (computeThresholdInfo cappedFreeRule 10) = 5"
    by code_simp
  have v: "map_option fb_qty (applyFreeItemRule cappedFreeRule blankLine 10) = Some (Some 3)"
    by code_simp
  then obtain f where f: "applyFreeItemRule cappedFreeRule blankLine 10 = Some f"
    by (cases "applyFreeItemRule cappedFreeRule blankLine 10") auto
  note t = free_item_multiplier_and_quantity [of cappedFreeRule 10 blankLine]
  note mult = t [THEN conjunct1]
  note desc = t [THEN conjunct2, THEN conjunct2, THEN conjunct2, THEN conjunct1]
  from desc f obtain fq where fq: "fb_qty f = Some fq" "0 < fq"
      "fb_multiplier f = Some (snd (computeThresholdInfo cappedFreeRule 10))"
      "fb_threshold_qty f
         = Some (orDefault 1 (numOr (numOr (min_qty cappedFreeRule) (recurse_for cappedFreeRule))
                   (Some 1)))"
      "\<forall>m. max_free_qty cappedFreeRule = Some m \<longrightarrow> fq \<le> m"
      "round_free_qty cappedFreeRule \<longrightarrow> jsFloor fq = fq"
    by blast
  have j: "snd (computeThresholdInfo cappedFreeRule 10) = jsFloor (10 / 2)"
    using mult a e by simp
  have k: "\<exists>f fq. applyFreeItemRule cappedFreeRule blankLine 10 = Some f
              \<and> fb_qty f = Some fq \<and> 0 < fq \<and> fq \<le> 3 \<and> jsFloor fq = fq
              \<and> fb_multiplier f = Some 5 \<and> fb_threshold_qty f = Some 2"
    using f fq c d m e' by auto
  from a b c d j k v show ?thesis by blast
qed

theorem free_item_multiplier_and_quantity_counterexample:
  "min_qty twoThresholdRule = Some 3 \<and> recurse_for twoThresholdRule = Some 2
   \<and> apply_per_threshold twoThresholdRule
   \<and> computeThresholdInfo twoThresholdRule 7 = (3, 3)
   \<and> jsFloor (7 / 3) = 2
   \<and> map fb_threshold_qty
        (snd (evaluatePricingRules codeUnitCompare (blankLine\<lparr>item_code := Some ''ITEM-7''\<rparr>)
                (Some 7) None (Some 100) blankCtx (itemIndex ''ITEM-7'' [twoThresholdRule])))
       = [Some 3]
   \<and> map fb_multiplier
        (snd (evaluatePricingRules codeUnitCompare (blankLine\<lparr>item_code := Some ''ITEM-7''\<rparr>)
                (Some 7) None (Some 100) blankCtx (itemIndex ''ITEM-7'' [twoThresholdRule])))
       = [Some 3]
   \<and> map fb_qty
        (snd (evaluatePricingRules codeUnitCompare (blankLine\<lparr>item_code := Some ''ITEM-7''\<rparr>)
                (Some 7) None (Some 100) blankCtx (itemIndex ''ITEM-7'' [twoThresholdRule])))
       = [Some 3]"
proof -
  have c1: "min_qty twoThresholdRule = Some 3 \<and> recurse_for twoThresholdRule = Some 2
            \<and> apply_per_threshold twoThresholdRule"
    by code_simp
  have c2: "computeThresholdInfo twoThresholdRule 7 = (3, 3)"
    by code_simp
  have c3: "jsFloor (7 / 3) = 2"
    by code_simp
  have c4: "map fb_threshold_qty
        (snd (evaluatePricingRules codeUnitCompare (blankLine\<lparr>item_code := Some ''ITEM-7''\<rparr>)
                (Some 7) None (Some 100) blankCtx (itemIndex ''ITEM-7'' [twoThresholdRule])))
       = [Some 3]"
    by code_simp
  have c5: "map fb_multiplier
        (snd (evaluatePricingRules codeUnitCompare (blankLine\<lparr>item_code := Some ''ITEM-7''\<rparr>)
                (Some 7) None (Some 100) blankCtx (itemIndex ''ITEM-7'' [twoThresholdRule])))
       = [Some 3]"
    by code_simp
  have c6: "map fb_qty
        (snd (evaluatePricingRules codeUnitCompare (blankLine\<lparr>item_code := Some ''ITEM-7''\<rparr>)
                (Some 7) None (Some 100) blankCtx (itemIndex ''ITEM-7'' [twoThresholdRule])))
       = [Some 3]"
    by code_simp
  from c1 c2 c3 c4 c5 c6 show ?thesis by blast
qed

subsection \<open>Bounds on the evaluated rate\<close>

lemma set_insertBy: "set (insertBy cmp x ys) = insert x (set ys)"
  by (induction ys) auto

lemma set_sortBy: "set (sortBy cmp xs) = set xs"
  by (induction xs) (auto simp: sortBy_def set_insertBy)

lemma sortBy_Nil_iff: "sortBy cmp xs = [] \<longleftrightarrow> xs = []"
  using set_sortBy [of cmp xs] by (metis set_empty)

lemma jsRound_mono: "x \<le> y \<Longrightarrow> jsRound x \<le> jsRound y"
  by (simp add: jsRound_def floor_mono)

lemma round6_mono: "x \<le> y \<Longrightarrow> round6 x \<le> round6 y"
  by (simp add: round6_def jsRound_mono divide_right_mono)

lemma round6_zero: "round6 0 = 0"
  by (simp add: round6_def jsRound_def)

lemma round6_nonneg: "0 \<le> x \<Longrightarrow> 0 \<le> round6 x"
  using round6_mono [of 0 x] by (simp add: round6_zero)

lemma applyOneRule_nonneg: "\<not> is_free_item_rule r \<Longrightarrow> 0 \<le> fst (applyOneRule cur r q base)"
  by (simp add: applyOneRule_def Let_def split_def)

lemma applyPricingChain_nonneg:
  "\<forall>r\<in>set rs. \<not> is_free_item_rule r \<Longrightarrow> 0 \<le> rate0 \<or> rs \<noteq> [] \<Longrightarrow>
   0 \<le> fst (applyPricingChain rs rate0 q start applied)"
proof (induction rs arbitrary: rate0 applied)
  case Nil
  then show ?case by simp
next
  case (Cons r rs)
  from Cons.prems(1) have nf: "\<not> is_free_item_rule r" by simp
  obtain newRate discount det where one: "applyOneRule rate0 r q start = (newRate, discount, det)"
    by (cases "applyOneRule rate0 r q start") auto
  from applyOneRule_nonneg [OF nf, of rate0 q start] one have nn: "0 \<le> newRate" by simp
  from Cons.prems(1) have rest: "\<forall>r\<in>set rs. \<not> is_free_item_rule r" by simp
  from Cons.IH [OF rest, of newRate] nn
  have "\<And>ap. 0 \<le> fst (applyPricingChain rs newRate q start ap)" by blast
  with one nn show ?case by (simp add: Let_def)
qed

lemma applyPricingChain_applied:
  "\<forall>r\<in>set rs. \<not> is_free_item_rule r \<Longrightarrow> rs \<noteq> [] \<or> applied \<noteq> [] \<Longrightarrow>
   snd (applyPricingChain rs rate0 q start applied) \<noteq> []"
proof (induction rs arbitrary: rate0 applied)
  case Nil
  then show ?case by simp
next
  case (Cons r rs)
  from Cons.prems(1) have nf: "\<not> is_free_item_rule r" by simp
  obtain newRate discount det where one: "applyOneRule rate0 r q start = (newRate, discount, det)"
    by (cases "applyOneRule rate0 r q start") auto
  from applyOneRule_detail_value [OF nf, of rate0 q start] one obtain d where d: "det = Some d"
    by auto
  from Cons.prems(1) have rest: "\<forall>r\<in>set rs. \<not> is_free_item_rule r" by simp
  have "snd (applyPricingChain rs newRate q start (applied @ [d])) \<noteq> []"
    by (rule Cons.IH [OF rest]) simp
  with one d show ?case by (simp add: Let_def)
qed

lemma pricingRules_not_free:
  "r \<in> set (sortBy (ruleSort lc) (filter P (filter (\<lambda>r. \<not> isFreeRule r) xs))) \<Longrightarrow> \<not> is_free_item_rule r"
  by (auto simp: set_sortBy isFreeRule_def)

lemma evaluatePricingRules_pricing_cases:
  fixes lc item q docQty baseRate c ix
  defines "pr \<equiv> fst (evaluatePricingRules lc item q docQty baseRate c ix)"
      and "S \<equiv> startRateOf item baseRate"
  shows "(p_applied pr = [] \<and> p_rate pr = round6 S \<and> p_discountPerUnit pr = 0)
         \<or> (p_applied pr \<noteq> []
             \<and> (\<exists>r\<ge>0. p_rate pr = round6 r \<and> p_discountPerUnit pr = round6 (S - r)))"
proof -
  define eq where "eq = effectiveQtyOf item q docQty"
  define rs where "rs = sortBy (ruleSort lc)
              (filter (\<lambda>r. eq \<ge> orZero (min_qty r))
                 (filter (\<lambda>r. \<not> isFreeRule r) (validCandidates item c ix)))"
  have nf: "\<forall>r\<in>set rs. \<not> is_free_item_rule r"
    unfolding rs_def using pricingRules_not_free by blast
  show ?thesis
  proof (cases "rs = []")
    case True
    then have "pr = \<lparr> p_rate = round6 S, p_discountPerUnit = 0, p_applied = [] \<rparr>"
      unfolding pr_def S_def rs_def eq_def by (simp add: evaluatePricingRules_def Let_def)
    then show ?thesis by simp
  next
    case False
    obtain r ap where ch: "applyPricingChain rs S eq S [] = (r, ap)"
      by (cases "applyPricingChain rs S eq S []") auto
    from applyPricingChain_nonneg [OF nf, of S eq S "[]"] False ch have r0: "0 \<le> r" by simp
    from applyPricingChain_applied [OF nf, of "[]" S eq S] False ch have ap: "ap \<noteq> []" by simp
    from False ch
    have "pr = \<lparr> p_rate = round6 r, p_discountPerUnit = round6 (S - r), p_applied = ap \<rparr>"
      unfolding pr_def S_def rs_def eq_def by (simp add: evaluatePricingRules_def Let_def)
    with r0 ap show ?thesis by auto
  qed
qed

text \<open>
  C3, as amended. Let \<open>S\<close> be the baseline rate the evaluation starts from. If
  \<open>S \<ge> 0\<close>, or if at least one pricing rule is applied, the returned rate is \<open>\<ge> 0\<close> and
  the returned discount per unit is at most \<open>S\<close> rounded to six decimals, hence at most
  \<open>S\<close> when \<open>S\<close> has no more than six decimals.
\<close>

theorem evaluatePricingRules_bounds:
  "(0 \<le> startRateOf item baseRate
      \<or> p_applied (fst (evaluatePricingRules lc item q docQty baseRate c ix)) \<noteq> [] \<longrightarrow>
      0 \<le> p_rate (fst (evaluatePricingRules lc item q docQty baseRate c ix))
      \<and> p_discountPerUnit (fst (evaluatePricingRules lc item q docQty baseRate c ix))
          \<le> round6 (startRateOf item baseRate)
      \<and> (round6 (startRateOf item baseRate) = startRateOf item baseRate \<longrightarrow>
           p_discountPerUnit (fst (evaluatePricingRules lc item q docQty baseRate c ix))
             \<le> startRateOf item baseRate))"
proof -
  let ?pr = "fst (evaluatePricingRules lc item q docQty baseRate c ix)"
  let ?S = "startRateOf item baseRate"
  from evaluatePricingRules_pricing_cases [of lc item q docQty baseRate c ix]
  consider (none) "p_applied ?pr = []" "p_rate ?pr = round6 ?S" "p_discountPerUnit ?pr = 0"
    | (some) r where "p_applied ?pr \<noteq> []" "0 \<le> r" "p_rate ?pr = round6 r"
        "p_discountPerUnit ?pr = round6 (?S - r)"
    by blast
  then show ?thesis
  proof cases
    case none
    then show ?thesis using round6_nonneg [of ?S] by auto
  next
    case some
    have "round6 (?S - r) \<le> round6 ?S" using some(2) by (intro round6_mono) simp
    with some show ?thesis using round6_nonneg [of r] by auto
  qed
qed

theorem evaluatePricingRules_bounds_witness:
  "p_applied (fst (evaluatePricingRules codeUnitCompare paidLine (Some 1) None (Some 100) blankCtx
                     (itemIndex ''ITEM-4'' [overDiscountRule]))) \<noteq> []
   \<and> round6 (startRateOf paidLine (Some 100)) = startRateOf paidLine (Some 100)
   \<and> 0 \<le> p_rate (fst (evaluatePricingRules codeUnitCompare paidLine (Some 1) None (Some 100)
                          blankCtx (itemIndex ''ITEM-4'' [overDiscountRule])))
   \<and> p_discountPerUnit (fst (evaluatePricingRules codeUnitCompare paidLine (Some 1) None (Some 100)
                                blankCtx (itemIndex ''ITEM-4'' [overDiscountRule])))
       \<le> startRateOf paidLine (Some 100)
   \<and> p_rate (fst (evaluatePricingRules codeUnitCompare paidLine (Some 1) None (Some 100)
                     blankCtx (itemIndex ''ITEM-4'' [overDiscountRule]))) = 0
   \<and> p_discountPerUnit (fst (evaluatePricingRules codeUnitCompare paidLine (Some 1) None (Some 100)
                                blankCtx (itemIndex ''ITEM-4'' [overDiscountRule]))) = 100
   \<and> p_applied (fst (evaluatePricingRules codeUnitCompare paidLine (Some 1) None (Some (- 5))
                       blankCtx (itemIndex ''ITEM-4'' [overDiscountRule]))) \<noteq> []
   \<and> 0 \<le> p_rate (fst (evaluatePricingRules codeUnitCompare paidLine (Some 1) None (Some (- 5))
                          blankCtx (itemIndex ''ITEM-4'' [overDiscountRule])))"
proof -
  have a: "p_applied (fst (evaluatePricingRules codeUnitCompare paidLine (Some 1) None (Some 100)
                     blankCtx (itemIndex ''ITEM-4'' [overDiscountRule]))) \<noteq> []"
    by code_simp
  have r: "round6 (startRateOf paidLine (Some 100)) = startRateOf paidLine (Some 100)"
    by code_simp
  have v1: "p_rate (fst (evaluatePricingRules codeUnitCompare paidLine (Some 1) None (Some 100)
                     blankCtx (itemIndex ''ITEM-4'' [overDiscountRule]))) = 0"
    by code_simp
  have v2: "p_discountPerUnit (fst (evaluatePricingRules codeUnitCompare paidLine (Some 1) None
                     (Some 100) blankCtx (itemIndex ''ITEM-4'' [overDiscountRule]))) = 100"
    by code_simp
  have b: "p_applied (fst (evaluatePricingRules codeUnitCompare paidLine (Some 1) None (Some (- 5))
                       blankCtx (itemIndex ''ITEM-4'' [overDiscountRule]))) \<noteq> []"
    by code_simp
  note t1 = evaluatePricingRules_bounds [where item = paidLine and baseRate = "Some 100"
      and lc = codeUnitCompare and q = "Some 1" and docQty = None and c = blankCtx
      and ix = "itemIndex ''ITEM-4'' [overDiscountRule]"]
  note t2 = evaluatePricingRules_bounds [where item = paidLine and baseRate = "Some (- 5)"
      and lc = codeUnitCompare and q = "Some 1" and docQty = None and c = blankCtx
      and ix = "itemIndex ''ITEM-4'' [overDiscountRule]"]
  from a r v1 v2 b t1 t2 show ?thesis by blast
qed

theorem evaluatePricingRules_bounds_counterexample:
  "p_rate (fst (evaluatePricingRules codeUnitCompare blankLine (Some 1) (Some 1) (Some (- 5)) blankCtx
                  (itemIndex ''I'' []))) < 0
   \<and> startRateOf blankLine (Some (- 5))
       < p_discountPerUnit (fst (evaluatePricingRules codeUnitCompare blankLine (Some 1) (Some 1) (Some (- 5))
                                   blankCtx (itemIndex ''I'' [])))
   \<and> startRateOf (blankLine\<lparr>item_code := Some ''I''\<rparr>) (Some (6 / 10 ^ 7))
       < p_discountPerUnit
           (fst (evaluatePricingRules codeUnitCompare (blankLine\<lparr>item_code := Some ''I''\<rparr>) (Some 1) (Some 1)
                   (Some (6 / 10 ^ 7)) blankCtx (itemIndex ''I'' [fullDiscountRule])))"
  by code_simp

section \<open>Properties of the cart line applier\<close>

subsection \<open>Lines without quantity\<close>

text \<open>
  C10. When the document quantity and the resolved pricing quantity of a line are both
  0, \<^verbatim>\<open>_applyPricingToLine\<close> returns with the line and the freebie map as they were.
\<close>

theorem applyPricingToLine_zero_qty:
  "\<bar>orZero (qty item)\<bar> = 0 \<and> \<bar>resolvePricingQty item\<bar> = 0 \<Longrightarrow>
   applyPricingToLine e item c ix freebiesMap = Returned (item, freebiesMap)"
  by (simp add: applyPricingToLine_def Let_def)

theorem applyPricingToLine_zero_qty_witness:
  "\<bar>orZero (qty (paidLine\<lparr>qty := Some 0\<rparr>))\<bar> = 0
   \<and> \<bar>resolvePricingQty (paidLine\<lparr>qty := Some 0\<rparr>)\<bar> = 0
   \<and> applyPricingToLine plainEnv (paidLine\<lparr>qty := Some 0\<rparr>) blankCtx
         (itemIndex ''ITEM-4'' [marginRule]) []
       = Returned (paidLine\<lparr>qty := Some 0\<rparr>, [])"
proof -
  have h: "\<bar>orZero (qty (paidLine\<lparr>qty := Some 0\<rparr>))\<bar> = 0
           \<and> \<bar>resolvePricingQty (paidLine\<lparr>qty := Some 0\<rparr>)\<bar> = 0"
    by (simp add: paidLine_def blankLine_def emptyLine_def orZero_def resolvePricingQty_def)
  from h applyPricingToLine_zero_qty [OF h] show ?thesis by simp
qed

subsection \<open>The rate written to an unprotected line\<close>

lemma applyRateUpdate_base:
  "base_rate (stateOf (applyRateUpdate e item pr baseRate sq))
     = Some (min (min (p_rate pr) baseRate)
               (max (baseRate - min \<bar>p_discountPerUnit pr\<bar> (max baseRate 0)) 0))
   \<and> base_discount_amount (stateOf (applyRateUpdate e item pr baseRate sq))
     = Some (min \<bar>p_discountPerUnit pr\<bar> (max baseRate 0))
   \<and> base_price_list_rate (stateOf (applyRateUpdate e item pr baseRate sq)) = Some baseRate"
  by (auto simp: applyRateUpdate_def Let_def min_def max_def)

lemma applyPricingToLine_allowed:
  assumes "allowRateUpdateOf item"
      and "\<not> (\<bar>orZero (qty item)\<bar> = 0 \<and> \<bar>resolvePricingQty item\<bar> = 0)"
  shows "fst (stateOf (applyPricingToLine e item c ix fm))
           = stateOf (applyRateUpdate e
               (updatePricingBadge item
                  (p_applied (fst (evaluatePricingRules (locale_compare e) item (Some \<bar>resolvePricingQty item\<bar>)
                      (Some \<bar>orZero (qty item)\<bar>) (Some (resolveBaseRate item)) c ix))))
               (fst (evaluatePricingRules (locale_compare e) item (Some \<bar>resolvePricingQty item\<bar>)
                      (Some \<bar>orZero (qty item)\<bar>) (Some (resolveBaseRate item)) c ix))
               (resolveBaseRate item) (orZero (qty item)))"
  using assms
  by (auto simp: applyPricingToLine_def allowRateUpdateOf_def Let_def split_def
           split: outcome.splits)

lemma jsRound_shift: "jsRound (real_of_int k - y) = real_of_int k + jsRound (- y)"
proof -
  have "real_of_int k - y + 1 / 2 = (- y + 1 / 2) + real_of_int k" by simp
  then have "\<lfloor>real_of_int k - y + 1 / 2\<rfloor> = \<lfloor>- y + 1 / 2\<rfloor> + k"
    by (simp only: floor_add_int)
  then show ?thesis by (simp add: jsRound_def)
qed

lemma jsRound_neg_bound: "- jsRound (- y) \<le> jsRound y"
proof -
  have "- \<lfloor>- y + 1 / 2\<rfloor> = \<lceil>y - 1 / 2\<rceil>" by (simp add: ceiling_def)
  moreover have "\<lceil>y - 1 / 2\<rceil> \<le> \<lfloor>y + 1 / 2\<rfloor>" by linarith
  ultimately show ?thesis by (simp add: jsRound_def)
qed

lemma round6_fixed_int: "round6 S = S \<Longrightarrow> \<exists>k. S * 10 ^ 6 = real_of_int k"
proof -
  assume "round6 S = S"
  then have "jsRound (S * 10 ^ 6) = S * 10 ^ 6" by (simp add: round6_def field_simps)
  then show ?thesis unfolding jsRound_def by metis
qed

lemma round6_diff_bound:
  assumes "round6 S = S"
  shows "S - round6 (S - r) \<le> round6 r"
proof -
  from round6_fixed_int [OF assms] obtain k where k: "S * 10 ^ 6 = real_of_int k" by blast
  have "(S - r) * 10 ^ 6 = real_of_int k - r * 10 ^ 6" using k by (simp add: algebra_simps)
  then have "jsRound ((S - r) * 10 ^ 6) = real_of_int k + jsRound (- (r * 10 ^ 6))"
    by (simp add: jsRound_shift)
  then have "real_of_int k - jsRound ((S - r) * 10 ^ 6) \<le> jsRound (r * 10 ^ 6)"
    using jsRound_neg_bound [of "r * 10 ^ 6"] by simp
  then have "(real_of_int k - jsRound ((S - r) * 10 ^ 6)) / 10 ^ 6 \<le> jsRound (r * 10 ^ 6) / 10 ^ 6"
    by (simp add: divide_right_mono)
  moreover have "S = real_of_int k / 10 ^ 6" using k by (simp add: field_simps)
  ultimately show ?thesis by (simp add: round6_def diff_divide_distrib)
qed

lemma startRateOf_Some: "startRateOf item (Some b) = b"
  by (simp add: startRateOf_def orZero_def)

lemma final_rate_is_discounted:
  fixes S :: real
  assumes fixd: "round6 S = S"
      and alts: "(rate' = round6 S \<and> disc = 0)
                  \<or> (\<exists>r\<ge>0. rate' = round6 r \<and> disc = round6 (S - r))"
  shows "min (min rate' S) (max (S - min \<bar>disc\<bar> (max S 0)) 0) = S - min \<bar>disc\<bar> (max S 0)"
proof -
  from alts consider (none) "rate' = round6 S" "disc = 0"
    | (some) r where "0 \<le> r" "rate' = round6 r" "disc = round6 (S - r)"
    by blast
  then show ?thesis
  proof cases
    case none
    with fixd show ?thesis by (simp add: min_def max_def)
  next
    case some
    have rr: "0 \<le> round6 r" using some(1) by (rule round6_nonneg)
    have up: "disc \<le> S" using round6_mono [of "S - r" S] some(1,3) fixd by simp
    have low: "S - disc \<le> rate'" using round6_diff_bound [OF fixd, of r] some(2,3) by simp
    show ?thesis
    proof (cases "S < 0")
      case True
      with rr some(2) show ?thesis by (simp add: min_def max_def)
    next
      case False
      show ?thesis
      proof (cases "0 \<le> disc")
        case True
        with False up low show ?thesis by (simp add: min_def max_def)
      next
        case neg: False
        then have "S - r \<le> 0"
          using round6_nonneg [of "S - r"] some(3) by (cases "0 \<le> S - r") auto
        then have "S \<le> rate'" using round6_mono [of S r] fixd some(2) by simp
        with False neg show ?thesis by (auto simp: min_def max_def)
      qed
    qed
  qed
qed

lemma min3_le: "min (min (a::real) b) c \<le> b \<and> min (min a b) c \<le> a"
  by (simp add: min_le_iff_disj)

lemma applyPricingToLine_final_rate_aux:
  fixes S :: real
  assumes st: "item' = stateOf (applyRateUpdate e item1 pr S sq)"
      and ev: "(p_rate pr = round6 S \<and> p_discountPerUnit pr = 0)
               \<or> (\<exists>r\<ge>0. p_rate pr = round6 r \<and> p_discountPerUnit pr = round6 (S - r))"
      and d: "d = min \<bar>p_discountPerUnit pr\<bar> (max S 0)"
  shows "base_rate item' = Some (min (min (p_rate pr) S) (max (S - d) 0))
         \<and> base_discount_amount item' = Some d
         \<and> 0 \<le> d \<and> d \<le> max S 0
         \<and> (\<forall>f. base_rate item' = Some f \<longrightarrow> f \<le> S \<and> f \<le> p_rate pr)
         \<and> (round6 S = S \<longrightarrow> base_rate item' = Some (S - d))"
proof -
  have br: "base_rate item' = Some (min (min (p_rate pr) S) (max (S - d) 0))"
    using applyRateUpdate_base [of e item1 pr S sq] st d by simp
  have bd: "base_discount_amount item' = Some d"
    using applyRateUpdate_base [of e item1 pr S sq] st d by simp
  have rng: "0 \<le> d \<and> d \<le> max S 0" using d by simp
  have le: "\<forall>f. base_rate item' = Some f \<longrightarrow> f \<le> S \<and> f \<le> p_rate pr"
    using br min3_le [of "p_rate pr" S "max (S - d) 0"] by simp
  have six: "round6 S = S \<longrightarrow> base_rate item' = Some (S - d)"
  proof
    assume fixd: "round6 S = S"
    from final_rate_is_discounted [OF fixd ev] br d show "base_rate item' = Some (S - d)"
      by simp
  qed
  from br bd rng le six show ?thesis by blast
qed

text \<open>
  C4, as amended. For a line that is not price-locked, not promotion-applied and not
  manually overridden (and that has a quantity), \<^verbatim>\<open>_applyPricingToLine\<close> stores
  the base discount per unit \<open>d = min(|proposedDiscount|, max(baseline, 0))\<close> and the
  base rate \<open>min(proposedRate, baseline, max(baseline - d, 0))\<close>. The rate is never
  above the baseline nor above the proposed rate, \<open>d\<close> lies in \<open>[0, max(baseline, 0)]\<close>,
  and for a baseline of at most six decimals the base rate is \<open>baseline - d\<close>.
\<close>

theorem applyPricingToLine_final_rate:
  "allowRateUpdateOf item \<and> \<not> (\<bar>orZero (qty item)\<bar> = 0 \<and> \<bar>resolvePricingQty item\<bar> = 0) \<Longrightarrow>
   base_rate (fst (stateOf (applyPricingToLine e item c ix fm)))
     = Some (min (min (p_rate (linePricing e item c ix)) (resolveBaseRate item))
               (max (resolveBaseRate item - lineDiscount e item c ix) 0))
   \<and> base_discount_amount (fst (stateOf (applyPricingToLine e item c ix fm)))
     = Some (lineDiscount e item c ix)
   \<and> 0 \<le> lineDiscount e item c ix \<and> lineDiscount e item c ix \<le> max (resolveBaseRate item) 0
   \<and> (\<forall>f. base_rate (fst (stateOf (applyPricingToLine e item c ix fm))) = Some f \<longrightarrow>
         f \<le> resolveBaseRate item \<and> f \<le> p_rate (linePricing e item c ix))
   \<and> (round6 (resolveBaseRate item) = resolveBaseRate item \<longrightarrow>
         base_rate (fst (stateOf (applyPricingToLine e item c ix fm)))
           = Some (resolveBaseRate item - lineDiscount e item c ix))"
proof -
  assume a: "allowRateUpdateOf item \<and> \<not> (\<bar>orZero (qty item)\<bar> = 0 \<and> \<bar>resolvePricingQty item\<bar> = 0)"
  have st: "fst (stateOf (applyPricingToLine e item c ix fm))
              = stateOf (applyRateUpdate e
                  (updatePricingBadge item (p_applied (linePricing e item c ix)))
                  (linePricing e item c ix) (resolveBaseRate item) (orZero (qty item)))"
    using a by (intro applyPricingToLine_allowed) auto
  have "(p_applied (linePricing e item c ix) = []
          \<and> p_rate (linePricing e item c ix) = round6 (startRateOf item (Some (resolveBaseRate item)))
          \<and> p_discountPerUnit (linePricing e item c ix) = 0)
        \<or> (p_applied (linePricing e item c ix) \<noteq> []
            \<and> (\<exists>r\<ge>0. p_rate (linePricing e item c ix) = round6 r
                      \<and> p_discountPerUnit (linePricing e item c ix)
                          = round6 (startRateOf item (Some (resolveBaseRate item)) - r)))"
    by (rule evaluatePricingRules_pricing_cases)
  then have ev: "(p_rate (linePricing e item c ix) = round6 (resolveBaseRate item)
                   \<and> p_discountPerUnit (linePricing e item c ix) = 0)
                 \<or> (\<exists>r\<ge>0. p_rate (linePricing e item c ix) = round6 r
                      \<and> p_discountPerUnit (linePricing e item c ix)
                          = round6 (resolveBaseRate item - r))"
    unfolding startRateOf_Some by blast
  show ?thesis
    by (rule applyPricingToLine_final_rate_aux [OF st ev refl])
qed



theorem applyPricingToLine_final_rate_witness:
  "(allowRateUpdateOf paidLine
    \<and> \<not> (\<bar>orZero (qty paidLine)\<bar> = 0 \<and> \<bar>resolvePricingQty paidLine\<bar> = 0))
   \<and> round6 (resolveBaseRate paidLine) = resolveBaseRate paidLine
   \<and> base_discount_amount (fst (stateOf (applyPricingToLine plainEnv paidLine blankCtx
                                 (itemIndex ''ITEM-4'' [marginRule]) [])))
       = Some (lineDiscount plainEnv paidLine blankCtx (itemIndex ''ITEM-4'' [marginRule]))
   \<and> base_rate (fst (stateOf (applyPricingToLine plainEnv paidLine blankCtx
                                 (itemIndex ''ITEM-4'' [marginRule]) [])))
       = Some (resolveBaseRate paidLine
               - lineDiscount plainEnv paidLine blankCtx (itemIndex ''ITEM-4'' [marginRule]))"
proof -
  have h: "allowRateUpdateOf paidLine
           \<and> \<not> (\<bar>orZero (qty paidLine)\<bar> = 0 \<and> \<bar>resolvePricingQty paidLine\<bar> = 0)"
    by code_simp
  have r: "round6 (resolveBaseRate paidLine) = resolveBaseRate paidLine"
    by code_simp
  note t = applyPricingToLine_final_rate [OF h, of plainEnv blankCtx
      "itemIndex ''ITEM-4'' [marginRule]" "[]"]
  from t have d: "base_discount_amount (fst (stateOf (applyPricingToLine plainEnv paidLine blankCtx
                                 (itemIndex ''ITEM-4'' [marginRule]) [])))
       = Some (lineDiscount plainEnv paidLine blankCtx (itemIndex ''ITEM-4'' [marginRule]))"
    by (rule conjunct1 [OF conjunct2])
  from t r have b: "base_rate (fst (stateOf (applyPricingToLine plainEnv paidLine blankCtx
                                 (itemIndex ''ITEM-4'' [marginRule]) [])))
       = Some (resolveBaseRate paidLine
               - lineDiscount plainEnv paidLine blankCtx (itemIndex ''ITEM-4'' [marginRule]))"
    by blast
  from h r d b show ?thesis by blast
qed

theorem applyPricingToLine_final_rate_counterexample:
  "allowRateUpdateOf paidLine
   \<and> \<not> (\<bar>orZero (qty paidLine)\<bar> = 0 \<and> \<bar>resolvePricingQty paidLine\<bar> = 0)
   \<and> resolveBaseRate paidLine = 100
   \<and> p_rate (linePricing plainEnv paidLine blankCtx (itemIndex ''ITEM-4'' [marginRule])) = 110
   \<and> base_rate (fst (stateOf (applyPricingToLine plainEnv paidLine blankCtx
                                 (itemIndex ''ITEM-4'' [marginRule]) []))) = Some 90
   \<and> min (110::real) 100 \<noteq> 90"
proof -
  have h1: "allowRateUpdateOf paidLine"
    by code_simp
  have h2: "\<not> (\<bar>orZero (qty paidLine)\<bar> = 0 \<and> \<bar>resolvePricingQty paidLine\<bar> = 0)"
    by code_simp
  have s: "resolveBaseRate paidLine = 100"
    by code_simp
  have p: "p_rate (linePricing plainEnv paidLine blankCtx (itemIndex ''ITEM-4'' [marginRule])) = 110"
    by code_simp
  have b: "base_rate (fst (stateOf (applyPricingToLine plainEnv paidLine blankCtx
                                 (itemIndex ''ITEM-4'' [marginRule]) []))) = Some 90"
    by code_simp
  have m: "min (110::real) 100 \<noteq> 90"
    by simp
  from h1 h2 s p b m show ?thesis by blast
qed

section \<open>Properties of the free-line synchroniser\<close>

subsection \<open>Store and map basics\<close>



lemma lineAt_setLine_other: "r' \<noteq> r \<Longrightarrow> lineAt (setLine s r l) r' = lineAt s r'"
  by (simp add: lineAt_def setLine_def)

lemma setLine_frame [simp]:
  "items (setLine s r l) = items s" "packed_items (setLine s r l) = packed_items s"
  "length (heap (setLine s r l)) = length (heap s)"
  by (simp_all add: setLine_def)

lemma applyFreeLinePricing_tags [simp]:
  "auto_free_source (applyFreeLinePricing e l data q) = auto_free_source l"
  "bundle_id (applyFreeLinePricing e l data q) = bundle_id l"
  "posa_row_id (applyFreeLinePricing e l data q) = posa_row_id l"
  by (simp_all add: applyFreeLinePricing_def Let_def)

lemma calcKeepsTagsD:
  "calcKeepsTags e \<Longrightarrow> calc_stock_qty e = Some calc \<Longrightarrow>
   auto_free_source (calc l q) = auto_free_source l \<and> bundle_id (calc l q) = bundle_id l"
  unfolding calcKeepsTags_def by blast

lemma applyFreeLineState_tags:
  assumes "calcKeepsTags e"
  shows "auto_free_source (applyFreeLineState e l data) = auto_free_source l"
    and "bundle_id (applyFreeLineState e l data) = bundle_id l"
  using calcKeepsTagsD [OF assms]
  by (auto simp: applyFreeLineState_def Let_def split: option.splits)

lemma newFreeLine_tag [simp]: "auto_free_source (newFreeLine e s key data) = Some key"
  by (simp add: newFreeLine_def Let_def)

subsection \<open>Removal of stale free lines\<close>

lemma removeAt_frame [simp]: "heap (removeAt s idx) = heap s"
  by (simp add: removeAt_def Let_def)

lemma lineAt_removeAt [simp]: "lineAt (removeAt s idx) r = lineAt s r"
  by (simp add: lineAt_def)

lemma items_removeAt: "items (removeAt s idx) = take idx (items s) @ drop (Suc idx) (items s)"
  by (simp add: removeAt_def Let_def)

lemma packed_removeAt:
  "packed_items (removeAt s idx) =
     (if truthyStr (bundle_id (lineAt s (items s ! idx)))
      then filter (\<lambda>p. packed_bundle_id p \<noteq> bundle_id (lineAt s (items s ! idx))) (packed_items s)
      else packed_items s)"
  by (simp add: removeAt_def Let_def)

lemma removeStale_prefix:
  fixes P :: "nat \<Rightarrow> bool"
  assumes "n \<le> length (items s)"
  shows "items (foldl removeAt s (rev (filter (\<lambda>i. P (items s ! i)) [0..<n])))
           = filter (\<lambda>r. \<not> P r) (take n (items s)) @ drop n (items s)
         \<and> heap (foldl removeAt s (rev (filter (\<lambda>i. P (items s ! i)) [0..<n]))) = heap s
         \<and> packed_items (foldl removeAt s (rev (filter (\<lambda>i. P (items s ! i)) [0..<n])))
           = filter (keepsPacked s P (take n (items s))) (packed_items s)"
  using assms
proof (induction n arbitrary: s)
  case 0
  show ?case by (simp add: keepsPacked_def)
next
  case (Suc n)
  let ?xs = "items s"
  from Suc.prems have n: "n < length ?xs" by simp
  have tk: "take (Suc n) ?xs = take n ?xs @ [?xs ! n]"
    using n by (simp add: take_Suc_conv_app_nth)
  have dr: "drop n ?xs = ?xs ! n # drop (Suc n) ?xs"
    using n by (simp add: Cons_nth_drop_Suc)
  show ?case
  proof (cases "P (?xs ! n)")
    case False
    then have idx: "rev (filter (\<lambda>i. P (?xs ! i)) [0..<Suc n]) = rev (filter (\<lambda>i. P (?xs ! i)) [0..<n])"
      by simp
    from Suc.IH [of s] n
    have ih: "items (foldl removeAt s (rev (filter (\<lambda>i. P (?xs ! i)) [0..<n])))
               = filter (\<lambda>r. \<not> P r) (take n ?xs) @ drop n ?xs
             \<and> heap (foldl removeAt s (rev (filter (\<lambda>i. P (?xs ! i)) [0..<n]))) = heap s
             \<and> packed_items (foldl removeAt s (rev (filter (\<lambda>i. P (?xs ! i)) [0..<n])))
               = filter (keepsPacked s P (take n ?xs)) (packed_items s)"
      by simp
    have kp: "keepsPacked s P (take (Suc n) ?xs) = keepsPacked s P (take n ?xs)"
      using False by (auto simp: keepsPacked_def tk fun_eq_iff)
    from ih False show ?thesis
      unfolding idx kp by (simp add: tk dr)
  next
    case True
    let ?s1 = "removeAt s n"
    have it1: "items ?s1 = take n ?xs @ drop (Suc n) ?xs" by (rule items_removeAt)
    have same: "\<And>i. i < n \<Longrightarrow> items ?s1 ! i = ?xs ! i"
      using n by (simp add: it1 nth_append)
    have flt: "filter (\<lambda>i. P (items ?s1 ! i)) [0..<n] = filter (\<lambda>i. P (?xs ! i)) [0..<n]"
      by (rule filter_cong) (auto simp: same)
    have idx: "rev (filter (\<lambda>i. P (?xs ! i)) [0..<Suc n])
                 = n # rev (filter (\<lambda>i. P (items ?s1 ! i)) [0..<n])"
      using True by (simp add: flt)
    have len1: "n \<le> length (items ?s1)" using n by (simp add: it1)
    have tk1: "take n (items ?s1) = take n ?xs" using n by (simp add: it1)
    have dr1: "drop n (items ?s1) = drop (Suc n) ?xs" using n by (simp add: it1)
    from Suc.IH [OF len1]
    have ih: "items (foldl removeAt ?s1 (rev (filter (\<lambda>i. P (items ?s1 ! i)) [0..<n])))
               = filter (\<lambda>r. \<not> P r) (take n ?xs) @ drop (Suc n) ?xs
             \<and> heap (foldl removeAt ?s1 (rev (filter (\<lambda>i. P (items ?s1 ! i)) [0..<n]))) = heap s
             \<and> packed_items (foldl removeAt ?s1 (rev (filter (\<lambda>i. P (items ?s1 ! i)) [0..<n])))
               = filter (keepsPacked ?s1 P (take n ?xs)) (packed_items ?s1)"
      by (simp add: tk1 dr1)
    have kp1: "keepsPacked ?s1 P (take n ?xs) = keepsPacked s P (take n ?xs)"
      by (simp add: keepsPacked_def fun_eq_iff)
    have kps: "\<And>p. keepsPacked s P (take (Suc n) ?xs) p
                 = (keepsPacked s P (take n ?xs) p
                    \<and> (truthyStr (bundle_id (lineAt s (?xs ! n)))
                         \<longrightarrow> packed_bundle_id p \<noteq> bundle_id (lineAt s (?xs ! n))))"
      using True by (auto simp: keepsPacked_def tk)
    have pk: "filter (keepsPacked s P (take n ?xs)) (packed_items ?s1)
                = filter (keepsPacked s P (take (Suc n) ?xs)) (packed_items s)"
      by (auto simp: packed_removeAt kps intro: filter_cong)
    from ih True show ?thesis
      unfolding idx kp1 pk by (simp add: tk)
  qed
qed

lemma removeStale_result:
  "items (removeStale ks s) = filter (\<lambda>r. \<not> isStale ks (lineAt s r)) (items s)
   \<and> heap (removeStale ks s) = heap s
   \<and> packed_items (removeStale ks s)
       = filter (keepsPacked s (\<lambda>r. isStale ks (lineAt s r)) (items s)) (packed_items s)"
  using removeStale_prefix [of "length (items s)" s "\<lambda>r. isStale ks (lineAt s r)"]
  by (simp add: removeStale_def Let_def)

subsection \<open>The three branches of one synchronisation step\<close>

lemma findIndex_Some: "findIndex P xs = Some i \<Longrightarrow> i < length xs \<and> P (xs ! i)"
proof (induction xs arbitrary: i)
  case Nil
  then show ?case by simp
next
  case (Cons x xs)
  show ?case
  proof (cases "P x")
    case True
    with Cons.prems show ?thesis by simp
  next
    case False
    with Cons.prems obtain j where j: "findIndex P xs = Some j" "i = Suc j" by auto
    from Cons.IH [OF j(1)] j(2) show ?thesis by simp
  qed
qed

lemma findIndex_le: "findIndex P xs = Some i \<Longrightarrow> i < length xs"
  using findIndex_Some by blast

lemma syncEntry_match:
  "map_of ex key = Some (r, i) \<Longrightarrow>
   syncEntry e (s, ex, lg) (key, data)
     = (setLine s r (applyFreeLineState e (lineAt s r) data), ex, lg)"
  by (simp add: syncEntry_def Let_def)

lemma syncEntry_adopt:
  "map_of ex key = None \<Longrightarrow> findIndex (legacyMatches s data) lg = Some i \<Longrightarrow>
   syncEntry e (s, ex, lg) (key, data)
     = (setLine s (lg_line (lg ! i))
          (applyFreeLineState e
             ((lineAt s (lg_line (lg ! i))) \<lparr> auto_free_source := Some key,
                                               parent_row_id := fb_parentRowId data \<rparr>) data),
        mapSet ex key (lg_line (lg ! i), lg_index (lg ! i)),
        lg[i := (lg ! i) \<lparr> lg_used := True \<rparr>])"
  by (simp add: syncEntry_def Let_def)


lemma syncEntry_create:
  assumes "map_of ex key = None" and "findIndex (legacyMatches s data) lg = None"
  shows "\<exists>n\<le>length (items s).
           syncEntry e (s, ex, lg) (key, data)
             = (s \<lparr> heap := heap s @ [created e s key data],
                    items := take n (items s) @ [length (heap s)] @ drop n (items s) \<rparr>, ex, lg)"
proof -
  define s1 where "s1 = s \<lparr> heap := heap s @ [newFreeLine e s key data] \<rparr>"
  define n where "n = (case findIndex (\<lambda>l. posa_row_id l = fb_parentRowId data)
                                 (map (lineAt s1) (items s1)) of
                            Some parentIndex \<Rightarrow> parentIndex + 1
                          | None \<Rightarrow> length (items s1))"
  have it: "items s1 = items s" by (simp add: s1_def)
  have n: "n \<le> length (items s)"
  proof (cases "findIndex (\<lambda>l. posa_row_id l = fb_parentRowId data) (map (lineAt s1) (items s1))")
    case None
    then show ?thesis by (simp add: n_def it)
  next
    case (Some j)
    from findIndex_le [OF Some] have "j < length (items s)" by (simp add: it)
    with Some show ?thesis by (simp add: n_def)
  qed
  define s2 where "s2 = s1 \<lparr> items := take n (items s1) @ [length (heap s)] @ drop n (items s1) \<rparr>"
  have at: "lineAt s2 (length (heap s)) = newFreeLine e s key data"
    by (simp add: s2_def s1_def lineAt_def)
  have res: "syncEntry e (s, ex, lg) (key, data)
          = ((case calc_stock_qty e of
                Some calc \<Rightarrow> setLine s2 (length (heap s))
                               (calc (lineAt s2 (length (heap s))) (qty (lineAt s2 (length (heap s)))))
              | None \<Rightarrow> s2), ex, lg)"
    unfolding s2_def n_def s1_def using assms
    by (simp add: syncEntry_def Let_def allocLine_def split: option.splits)
  have "(case calc_stock_qty e of
                Some calc \<Rightarrow> setLine s2 (length (heap s))
                               (calc (lineAt s2 (length (heap s))) (qty (lineAt s2 (length (heap s)))))
              | None \<Rightarrow> s2)
        = s \<lparr> heap := heap s @ [created e s key data],
              items := take n (items s) @ [length (heap s)] @ drop n (items s) \<rparr>"
    using at by (auto simp: created_def setLine_def s2_def s1_def lineAt_def split: option.splits)
  with res n show ?thesis by auto
qed

lemma tagOf_setLine_same:
  "auto_free_source l = auto_free_source (lineAt s r) \<Longrightarrow> tagOf (setLine s r l) r' = tagOf s r'"
  by (cases "r < length (heap s)")
     (auto simp: tagOf_def lineAt_def setLine_def nth_list_update list_update_beyond)

lemma bundle_setLine_same:
  "bundle_id l = bundle_id (lineAt s r) \<Longrightarrow>
   bundle_id (lineAt (setLine s r l) r') = bundle_id (lineAt s r')"
  by (cases "r < length (heap s)")
     (auto simp: lineAt_def setLine_def nth_list_update list_update_beyond)

subsection \<open>Lines that carry a key keep it while the map is applied\<close>

lemma tagsKept_refl: "tagsKept s s"
  by (simp add: tagsKept_def)

lemma legacyUntagged_update:
  "legacyUntagged s0 lg \<Longrightarrow> i < length lg \<Longrightarrow> legacyUntagged s0 (lg[i := (lg ! i) \<lparr> lg_used := True \<rparr>])"
  unfolding legacyUntagged_def
  by (auto simp: set_conv_nth nth_list_update)

lemma tagsKept_step:
  assumes calc: "calcKeepsTags e" and kept: "tagsKept s0 s" and leg: "legacyUntagged s0 lg"
  shows "tagsKept s0 (fst (syncEntry e (s, ex, lg) (key, data)))
         \<and> legacyUntagged s0 (snd (snd (syncEntry e (s, ex, lg) (key, data))))"
proof (cases "map_of ex key")
  case (Some m)
  obtain r i where m: "m = (r, i)" by (cases m)
  have a: "auto_free_source (applyFreeLineState e (lineAt s r) data) = auto_free_source (lineAt s r)"
    and b: "bundle_id (applyFreeLineState e (lineAt s r) data) = bundle_id (lineAt s r)"
    using applyFreeLineState_tags [OF calc] by auto
  from kept show ?thesis
    unfolding syncEntry_match [OF Some [unfolded m]] tagsKept_def
    using tagOf_setLine_same [OF a] bundle_setLine_same [OF b] leg by simp
next
  case None
  show ?thesis
  proof (cases "findIndex (legacyMatches s data) lg")
    case (Some i)
    from findIndex_le [OF Some] have i: "i < length lg" .
    then have en: "lg ! i \<in> set lg" by simp
    let ?r = "lg_line (lg ! i)"
    from leg en have r0: "?r < length (heap s0)" and un: "\<not> truthyStr (tagOf s0 ?r)"
      by (auto simp: legacyUntagged_def)
    have other: "\<And>r'. r' < length (heap s0) \<Longrightarrow> truthyStr (tagOf s0 r') \<Longrightarrow> r' \<noteq> ?r"
      using un by auto
    from kept other show ?thesis
      unfolding syncEntry_adopt [OF None Some] tagsKept_def
      using legacyUntagged_update [OF leg i]
      by (auto simp: tagOf_def lineAt_setLine_other)
  next
    case none: None
    from syncEntry_create [OF None none, of e] obtain n where
      res: "syncEntry e (s, ex, lg) (key, data)
             = (s \<lparr> heap := heap s @ [created e s key data],
                    items := take n (items s) @ [length (heap s)] @ drop n (items s) \<rparr>, ex, lg)"
      and n: "n \<le> length (items s)" by blast
    have sub: "set (items s) \<subseteq> set (take n (items s) @ [length (heap s)] @ drop n (items s))"
    proof
      fix x assume "x \<in> set (items s)"
      then have "x \<in> set (take n (items s) @ drop n (items s))" by simp
      then show "x \<in> set (take n (items s) @ [length (heap s)] @ drop n (items s))"
        by (simp only: set_append) blast
    qed
    from kept sub leg show ?thesis
      unfolding res tagsKept_def
      by (auto simp: tagOf_def lineAt_def nth_append)
  qed
qed

lemma tagsKept_loop:
  assumes calc: "calcKeepsTags e"
  shows "tagsKept s0 (fst st) \<Longrightarrow> legacyUntagged s0 (snd (snd st)) \<Longrightarrow>
         tagsKept s0 (fst (foldl (syncEntry e) st m))"
proof (induction m arbitrary: st)
  case Nil
  then show ?case by simp
next
  case (Cons kd m)
  obtain s ex lg where st: "st = (s, ex, lg)" by (cases st) auto
  obtain key data where kd: "kd = (key, data)" by (cases kd)
  from tagsKept_step [OF calc, of s0 s lg ex key data] Cons.prems
  have "tagsKept s0 (fst (syncEntry e st kd))"
    and "legacyUntagged s0 (snd (snd (syncEntry e st kd)))"
    by (simp_all add: st kd)
  from Cons.IH [OF this] show ?case by simp
qed

subsection \<open>The index of existing and legacy free lines\<close>

lemma indexLine_legacy:
  "en \<in> set (snd (foldl (indexLine s) st ris)) \<Longrightarrow>
   en \<in> set (snd st)
   \<or> (\<exists>ri\<in>set ris. lg_line en = fst ri \<and> \<not> truthyStr (tagOf s (fst ri)) \<and> \<not> lg_used en)"
proof (induction ris arbitrary: st)
  case Nil
  then show ?case by simp
next
  case (Cons ri ris)
  from Cons.IH [of "indexLine s st ri"] Cons.prems
  consider "en \<in> set (snd (indexLine s st ri))"
    | "\<exists>ri\<in>set ris. lg_line en = fst ri \<and> \<not> truthyStr (tagOf s (fst ri)) \<and> \<not> lg_used en"
    by auto
  then show ?case
  proof cases
    case 1
    then show ?thesis
      by (auto simp: indexLine_def Let_def tagOf_def split: if_splits)
  next
    case 2
    then show ?thesis by auto
  qed
qed

lemma set_zip_fst: "ri \<in> set (zip xs ys) \<Longrightarrow> fst ri \<in> set xs"
  by (cases ri) (auto dest: set_zip_leftD)

lemma indexLines_legacyUntagged:
  assumes "\<forall>r\<in>set (items s). r < length (heap s)"
  shows "legacyUntagged s (snd (indexLines s))"
  unfolding legacyUntagged_def indexLines_def
proof
  fix en
  assume "en \<in> set (snd (foldl (indexLine s) ([], []) (zip (items s) [0..<length (items s)])))"
  from indexLine_legacy [OF this] obtain ri where
    ri: "ri \<in> set (zip (items s) [0..<length (items s)])" "lg_line en = fst ri"
        "\<not> truthyStr (tagOf s (fst ri))"
    by auto
  from set_zip_fst [OF ri(1)] assms ri(2,3)
  show "lg_line en < length (heap s) \<and> \<not> truthyStr (tagOf s (lg_line en))" by simp
qed

text \<open>
  C6. After \<^verbatim>\<open>_syncAutoFreeLines\<close> with a freebie map, the key of every line of the
  cart that carries one is a key of the map. A line of the cart whose key is not a key
  of the map is not in the cart afterwards, and no packed item with that line's bundle
  id is left. (For the second part \<^verbatim>\<open>calc_stock_qty\<close> must leave keys and
  bundle ids alone, and the entries of \<^verbatim>\<open>this.items\<close> are live objects.)
\<close>

theorem syncAutoFreeLines_removes_stale:
  "(\<forall>r\<in>set (items (syncAutoFreeLines e m s)).
      truthyStr (tagOf (syncAutoFreeLines e m s) r) \<longrightarrow>
      (\<exists>k\<in>fst ` set m. tagOf (syncAutoFreeLines e m s) r = Some k))
   \<and> (calcKeepsTags e \<and> liveRefs s \<longrightarrow>
       (\<forall>r\<in>set (items s).
          truthyStr (tagOf s r) \<and> tagOf s r \<notin> Some ` fst ` set m \<longrightarrow>
          r \<notin> set (items (syncAutoFreeLines e m s))
          \<and> (truthyStr (bundle_id (lineAt s r)) \<longrightarrow>
               (\<forall>p\<in>set (packed_items (syncAutoFreeLines e m s)).
                  packed_bundle_id p \<noteq> bundle_id (lineAt s r)))))"
proof -
  define sl where "sl = fst (foldl (syncEntry e) (s, indexLines s) m)"
  define ks where "ks = map fst m"
  have sync: "syncAutoFreeLines e m s = removeStale ks sl"
    by (simp add: syncAutoFreeLines_def sl_def ks_def Let_def)
  note rs = removeStale_result [of ks sl]
  have tag_eq: "\<And>r. tagOf (removeStale ks sl) r = tagOf sl r"
    using rs by (simp add: tagOf_def lineAt_def)
  have stale_iff: "\<And>l. isStale ks l \<longleftrightarrow> truthyStr (auto_free_source l) \<and> auto_free_source l \<notin> Some ` fst ` set m"
    by (auto simp: isStale_def ks_def tmpl_def truthyStr_def split: option.splits)
  have part1: "\<forall>r\<in>set (items (syncAutoFreeLines e m s)).
      truthyStr (tagOf (syncAutoFreeLines e m s) r) \<longrightarrow>
      (\<exists>k\<in>fst ` set m. tagOf (syncAutoFreeLines e m s) r = Some k)"
  proof (intro ballI impI)
    fix r
    assume r: "r \<in> set (items (syncAutoFreeLines e m s))"
      and t: "truthyStr (tagOf (syncAutoFreeLines e m s) r)"
    from r rs have "\<not> isStale ks (lineAt sl r)" by (simp add: sync)
    moreover from t have "truthyStr (tagOf sl r)" by (simp add: sync tag_eq)
    ultimately have "tagOf sl r \<in> Some ` fst ` set m"
      by (simp add: stale_iff tagOf_def)
    then show "\<exists>k\<in>fst ` set m. tagOf (syncAutoFreeLines e m s) r = Some k"
      by (auto simp: sync tag_eq)
  qed
  have part2: "calcKeepsTags e \<and> liveRefs s \<longrightarrow>
       (\<forall>r\<in>set (items s).
          truthyStr (tagOf s r) \<and> tagOf s r \<notin> Some ` fst ` set m \<longrightarrow>
          r \<notin> set (items (syncAutoFreeLines e m s))
          \<and> (truthyStr (bundle_id (lineAt s r)) \<longrightarrow>
               (\<forall>p\<in>set (packed_items (syncAutoFreeLines e m s)).
                  packed_bundle_id p \<noteq> bundle_id (lineAt s r))))"
  proof (intro impI ballI)
    fix r
    assume h: "calcKeepsTags e \<and> liveRefs s"
      and r: "r \<in> set (items s)"
      and st: "truthyStr (tagOf s r) \<and> tagOf s r \<notin> Some ` fst ` set m"
    from h have calc: "calcKeepsTags e" and live: "\<forall>r\<in>set (items s). r < length (heap s)"
      by (auto simp: liveRefs_def)
    have kept: "tagsKept s sl"
      unfolding sl_def
      by (rule tagsKept_loop [OF calc]) (simp_all add: tagsKept_refl indexLines_legacyUntagged [OF live])
    from live r have rl: "r < length (heap s)" by simp
    from kept rl st have same: "tagOf sl r = tagOf s r" "bundle_id (lineAt sl r) = bundle_id (lineAt s r)"
      by (auto simp: tagsKept_def)
    from kept r have rin: "r \<in> set (items sl)" by (auto simp: tagsKept_def)
    from st same have stale: "isStale ks (lineAt sl r)"
      by (simp add: stale_iff tagOf_def)
    from stale rs have gone: "r \<notin> set (items (syncAutoFreeLines e m s))"
      by (simp add: sync)
    have packed: "truthyStr (bundle_id (lineAt s r)) \<longrightarrow>
               (\<forall>p\<in>set (packed_items (syncAutoFreeLines e m s)).
                  packed_bundle_id p \<noteq> bundle_id (lineAt s r))"
    proof (intro impI ballI)
      fix p
      assume b: "truthyStr (bundle_id (lineAt s r))"
        and p: "p \<in> set (packed_items (syncAutoFreeLines e m s))"
      from p rs have "keepsPacked sl (\<lambda>r. isStale ks (lineAt sl r)) (items sl) p"
        by (simp add: sync)
      with rin stale b same show "packed_bundle_id p \<noteq> bundle_id (lineAt s r)"
        by (auto simp: keepsPacked_def)
    qed
    from gone packed
    show "r \<notin> set (items (syncAutoFreeLines e m s))
          \<and> (truthyStr (bundle_id (lineAt s r)) \<longrightarrow>
               (\<forall>p\<in>set (packed_items (syncAutoFreeLines e m s)).
                  packed_bundle_id p \<noteq> bundle_id (lineAt s r)))"
      by blast
  qed
  from part1 part2 show ?thesis by blast
qed

subsection \<open>Every key of the map gets a line\<close>
















subsection \<open>A second application finds every line\<close>





theorem syncAutoFreeLines_removes_stale_witness:
  "calcKeepsTags plainEnv \<and> liveRefs exampleCart
   \<and> 1 \<in> set (items exampleCart)
   \<and> truthyStr (tagOf exampleCart 1) \<and> tagOf exampleCart 1 \<notin> Some ` fst ` set exampleMap
   \<and> truthyStr (bundle_id (lineAt exampleCart 1))
   \<and> 1 \<notin> set (items (syncAutoFreeLines plainEnv exampleMap exampleCart))
   \<and> bundle_id (lineAt exampleCart 1)
        \<notin> packed_bundle_id ` set (packed_items (syncAutoFreeLines plainEnv exampleMap exampleCart))"
proof -
  have c: "calcKeepsTags plainEnv"
    by (simp add: calcKeepsTags_def plainEnv_def)
  have l: "liveRefs exampleCart"
    by (simp add: liveRefs_def exampleCart_def)
  have i: "1 \<in> set (items exampleCart)"
    by (simp add: exampleCart_def)
  have t: "truthyStr (tagOf exampleCart 1) \<and> tagOf exampleCart 1 \<notin> Some ` fst ` set exampleMap"
    by (simp add: exampleCart_def exampleMap_def tagOf_def lineAt_def staleFreeLine_def truthyStr_def)
  have b: "truthyStr (bundle_id (lineAt exampleCart 1))"
    by (simp add: exampleCart_def lineAt_def staleFreeLine_def truthyStr_def)
  from syncAutoFreeLines_removes_stale [of plainEnv exampleMap exampleCart] c l i t b
  have "1 \<notin> set (items (syncAutoFreeLines plainEnv exampleMap exampleCart))
        \<and> (\<forall>p\<in>set (packed_items (syncAutoFreeLines plainEnv exampleMap exampleCart)).
              packed_bundle_id p \<noteq> bundle_id (lineAt exampleCart 1))"
    by blast
  then have g: "1 \<notin> set (items (syncAutoFreeLines plainEnv exampleMap exampleCart))"
    and p: "bundle_id (lineAt exampleCart 1)
        \<notin> packed_bundle_id ` set (packed_items (syncAutoFreeLines plainEnv exampleMap exampleCart))"
    by auto
  from c l i t b g p show ?thesis by simp
qed


section \<open>Properties of the server reconciliation\<close>

subsection \<open>Updates and manually priced lines\<close>

lemma updatePricingBadge_rateFields:
  "rateFields (updatePricingBadge item ds) = rateFields item"
  by (simp add: updatePricingBadge_def rateFields_def Let_def)

lemma updatePricingBadge_manual:
  "manualOverrideOf (updatePricingBadge item ds) = manualOverrideOf item"
  by (simp add: updatePricingBadge_def manualOverrideOf_def Let_def)

lemma writeServerRates_manual:
  "manualOverrideOf (writeServerRates e item u) = manualOverrideOf item"
  by (simp add: writeServerRates_def manualOverrideOf_def Let_def)

lemma allowServerRateUpdate_manual:
  "manualOverrideOf item \<Longrightarrow> \<not> allowServerRateUpdate e ps cs item u"
  by (simp add: allowServerRateUpdate_def Let_def)

lemma applyServerUpdate_manual:
  "manualOverrideOf (lineAt (applyServerUpdate e ps cs s u) r) = manualOverrideOf (lineAt s r)"
proof (cases "updateTarget s u")
  case None
  then show ?thesis by (simp add: applyServerUpdate_def)
next
  case (Some r')
  show ?thesis
  proof (cases "r' = r \<and> r < length (heap s)")
    case True
    then show ?thesis
      using Some
      by (simp add: applyServerUpdate_def Let_def lineAt_def setLine_def
            updatePricingBadge_manual writeServerRates_manual)
  next
    case False
    then have "lineAt (setLine s r' l) r = lineAt s r" for l
      by (cases "r' = r") (simp_all add: lineAt_def setLine_def list_update_beyond)
    then have "lineAt (applyServerUpdate e ps cs s u) r = lineAt s r"
      using Some by (simp add: applyServerUpdate_def Let_def)
    then show ?thesis by simp
  qed
qed

lemma applyServerUpdate_keeps_manual:
  assumes "manualOverrideOf (lineAt s r)"
  shows "rateFields (lineAt (applyServerUpdate e ps cs s u) r) = rateFields (lineAt s r)"
proof (cases "updateTarget s u")
  case None
  then show ?thesis by (simp add: applyServerUpdate_def)
next
  case (Some r')
  show ?thesis
  proof (cases "r' = r \<and> r < length (heap s)")
    case True
    then have "\<not> allowServerRateUpdate e ps cs (lineAt s r') u"
      using assms allowServerRateUpdate_manual by simp
    then have "lineAt (applyServerUpdate e ps cs s u) r
                 = updatePricingBadge (lineAt s r) (serverDetails (lineAt s r) u)"
      using Some True by (simp add: applyServerUpdate_def Let_def lineAt_def setLine_def)
    then show ?thesis by (simp add: updatePricingBadge_rateFields)
  next
    case False
    then have "lineAt (setLine s r' l) r = lineAt s r" for l
      by (cases "r' = r") (simp_all add: lineAt_def setLine_def list_update_beyond)
    then have "lineAt (applyServerUpdate e ps cs s u) r = lineAt s r"
      using Some by (simp add: applyServerUpdate_def Let_def)
    then show ?thesis by simp
  qed
qed

lemma applyServerUpdates_keeps_manual:
  "manualOverrideOf (lineAt s r) \<Longrightarrow>
     rateFields (lineAt (applyServerUpdates e ps cs s us) r) = rateFields (lineAt s r)
     \<and> manualOverrideOf (lineAt (applyServerUpdates e ps cs s us) r)"
  unfolding applyServerUpdates_def
proof (induction us arbitrary: s)
  case Nil
  then show ?case by simp
next
  case (Cons u us)
  let ?s1 = "applyServerUpdate e ps cs s u"
  have m: "manualOverrideOf (lineAt ?s1 r)"
    using Cons.prems by (simp add: applyServerUpdate_manual)
  have "rateFields (lineAt ?s1 r) = rateFields (lineAt s r)"
    using Cons.prems by (rule applyServerUpdate_keeps_manual)
  with Cons.IH [OF m] show ?case by simp
qed

lemma applyPricingToLine_manual:
  assumes "manualOverrideOf item"
  shows "\<exists>item' fm'. applyPricingToLine e item c ix fm = Returned (item', fm')
           \<and> rateFields item' = rateFields item"
  using assms
  by (auto simp: applyPricingToLine_def Let_def updatePricingBadge_rateFields split: prod.splits)

subsection \<open>Lines the synchroniser does not touch\<close>

lemma mapSet_subset: "set (mapSet m k v) \<subseteq> insert (k, v) (set m)"
  by (induction m) (auto split: if_splits)

lemma mapSet_refs:
  "(fst \<circ> snd) ` set (mapSet m k (r, i)) \<subseteq> insert r ((fst \<circ> snd) ` set m)"
proof
  fix x assume "x \<in> (fst \<circ> snd) ` set (mapSet m k (r, i))"
  then obtain kv where kv: "kv \<in> set (mapSet m k (r, i))" "x = fst (snd kv)" by auto
  from kv(1) have "kv = (k, r, i) \<or> kv \<in> set m" using mapSet_subset [of m k "(r, i)"] by auto
  with kv(2) show "x \<in> insert r ((fst \<circ> snd) ` set m)" by auto
qed

lemma indexLine_refs:
  "refsOf (indexLine s st ri)
     \<subseteq> refsOf st \<union> {r. r = fst ri \<and> (truthyStr (auto_free_source (lineAt s r))
                                      \<or> truthy (is_free_item (lineAt s r)))}"
proof -
  obtain r i where ri: "ri = (r, i)" by (cases ri)
  have "(fst \<circ> snd) ` set (mapSet (fst st) k ri) \<subseteq> insert r ((fst \<circ> snd) ` set (fst st))" for k
    unfolding ri by (rule mapSet_refs)
  then have tagged: "refsOf (mapSet (fst st) k ri, snd st) \<subseteq> insert r (refsOf st)" for k
    by (auto simp: refsOf_def)
  show ?thesis
  proof (cases "truthyStr (auto_free_source (lineAt s r))")
    case True
    then show ?thesis
      using tagged [of "tmpl (auto_free_source (lineAt s r))"]
      by (auto simp: indexLine_def Let_def ri)
  next
    case False
    then show ?thesis
      by (auto simp: indexLine_def Let_def ri refsOf_def)
  qed
qed

lemma indexLines_refs_aux:
  "r \<in> refsOf (foldl (indexLine s) st xs) \<Longrightarrow>
     r \<in> refsOf st \<or> (r \<in> fst ` set xs \<and> (truthyStr (auto_free_source (lineAt s r))
                                            \<or> truthy (is_free_item (lineAt s r))))"
proof (induction xs arbitrary: st)
  case Nil
  then show ?case by simp
next
  case (Cons x xs)
  from Cons.IH [of "indexLine s st x"] Cons.prems
  consider "r \<in> refsOf (indexLine s st x)"
    | "r \<in> fst ` set xs \<and> (truthyStr (auto_free_source (lineAt s r))
                            \<or> truthy (is_free_item (lineAt s r)))"
    by auto
  then show ?case
  proof cases
    case 1
    with indexLine_refs [of s st x] show ?thesis by auto
  next
    case 2
    then show ?thesis by auto
  qed
qed

lemma indexLines_refs:
  assumes "r \<in> refsOf (indexLines s)"
  shows "truthyStr (auto_free_source (lineAt s r)) \<or> truthy (is_free_item (lineAt s r))"
  using indexLines_refs_aux [of r s "([], [])" "zip (items s) [0..<length (items s)]"] assms
  by (auto simp: indexLines_def refsOf_def)

lemma syncEntry_frame:
  "refsOf (snd (syncEntry e (s, ex, lg) kd)) \<subseteq> refsOf (ex, lg)
   \<and> length (heap s) \<le> length (heap (fst (syncEntry e (s, ex, lg) kd)))
   \<and> (\<forall>p. p < length (heap s) \<and> p \<notin> refsOf (ex, lg) \<longrightarrow>
          lineAt (fst (syncEntry e (s, ex, lg) kd)) p = lineAt s p)"
proof -
  obtain key data where kd: "kd = (key, data)" by (cases kd)
  show ?thesis
  proof (cases "map_of ex key")
    case (Some m)
    obtain r i where m: "m = (r, i)" by (cases m)
    have "(key, r, i) \<in> set ex" using Some m by (simp add: map_of_SomeD)
    then have "r \<in> refsOf (ex, lg)" by (force simp: refsOf_def)
    then have "lineAt (setLine s r l) p = lineAt s p" if "p \<notin> refsOf (ex, lg)" for p l
      using that by (intro lineAt_setLine_other) auto
    then show ?thesis
      using syncEntry_match [of ex key r i e s lg data] Some m kd
      by simp
  next
    case None
    show ?thesis
    proof (cases "findIndex (legacyMatches s data) lg")
      case (Some i)
      let ?r = "lg_line (lg ! i)"
      have i: "i < length lg" using Some by (rule findIndex_le)
      then have r: "?r \<in> refsOf (ex, lg)" by (auto simp: refsOf_def)
      have ex': "(fst \<circ> snd) ` set (mapSet ex key (?r, lg_index (lg ! i)))
                   \<subseteq> insert ?r ((fst \<circ> snd) ` set ex)"
        by (rule mapSet_refs)
      have lg': "lg_line ` set (lg[i := (lg ! i) \<lparr> lg_used := True \<rparr>]) \<subseteq> lg_line ` set lg"
      proof
        fix x assume "x \<in> lg_line ` set (lg[i := (lg ! i) \<lparr> lg_used := True \<rparr>])"
        then obtain en where en: "en \<in> set (lg[i := (lg ! i) \<lparr> lg_used := True \<rparr>])" "x = lg_line en"
          by auto
        from en(1) have "en = (lg ! i) \<lparr> lg_used := True \<rparr> \<or> en \<in> set lg"
          using set_update_subset_insert [of lg i] by auto
        with en(2) i show "x \<in> lg_line ` set lg" by auto
      qed
      have refs: "refsOf (mapSet ex key (?r, lg_index (lg ! i)), lg[i := (lg ! i) \<lparr> lg_used := True \<rparr>])
                    \<subseteq> refsOf (ex, lg)"
      proof -
        have "?r \<in> lg_line ` set lg" using i by auto
        then have "insert ?r ((fst \<circ> snd) ` set ex) \<union> lg_line ` set lg
                     \<subseteq> (fst \<circ> snd) ` set ex \<union> lg_line ` set lg"
          by auto
        moreover have "(fst \<circ> snd) ` set (mapSet ex key (?r, lg_index (lg ! i)))
                         \<union> lg_line ` set (lg[i := (lg ! i) \<lparr> lg_used := True \<rparr>])
                       \<subseteq> insert ?r ((fst \<circ> snd) ` set ex) \<union> lg_line ` set lg"
          using ex' lg' by (rule Un_mono)
        ultimately show ?thesis
          unfolding refsOf_def fst_conv snd_conv by (rule order_trans [rotated])
      qed
      have "lineAt (setLine s ?r l) p = lineAt s p" if "p \<notin> refsOf (ex, lg)" for p l
        using that r by (intro lineAt_setLine_other) auto
      then show ?thesis
        using syncEntry_adopt [OF None Some, of e] kd refs
        by simp
    next
      case none: None
      from syncEntry_create [OF None none, of e] obtain n where
        n: "syncEntry e (s, ex, lg) (key, data)
              = (s \<lparr> heap := heap s @ [created e s key data],
                     items := take n (items s) @ [length (heap s)] @ drop n (items s) \<rparr>, ex, lg)"
        by blast
      show ?thesis
        unfolding kd n by (simp add: lineAt_def nth_append)
    qed
  qed
qed

lemma syncLoop_frame:
  "refsOf (snd (foldl (syncEntry e) st fm)) \<subseteq> refsOf (snd st)
   \<and> length (heap (fst st)) \<le> length (heap (fst (foldl (syncEntry e) st fm)))
   \<and> (\<forall>p. p < length (heap (fst st)) \<and> p \<notin> refsOf (snd st) \<longrightarrow>
          lineAt (fst (foldl (syncEntry e) st fm)) p = lineAt (fst st) p)"
proof (induction fm arbitrary: st)
  case Nil
  then show ?case by simp
next
  case (Cons kd fm)
  obtain s ex lg where st: "st = (s, ex, lg)" by (cases st)
  define st1 where "st1 = syncEntry e (s, ex, lg) kd"
  define st2 where "st2 = foldl (syncEntry e) st1 fm"
  have s1: "refsOf (snd st1) \<subseteq> refsOf (ex, lg)"
    and s2: "length (heap s) \<le> length (heap (fst st1))"
    and s3: "\<And>p. p < length (heap s) \<Longrightarrow> p \<notin> refsOf (ex, lg) \<Longrightarrow> lineAt (fst st1) p = lineAt s p"
    using syncEntry_frame [of e s ex lg kd] unfolding st1_def by simp_all
  have r1: "refsOf (snd st2) \<subseteq> refsOf (snd st1)"
    and r2: "length (heap (fst st1)) \<le> length (heap (fst st2))"
    and r3: "\<And>p. p < length (heap (fst st1)) \<Longrightarrow> p \<notin> refsOf (snd st1) \<Longrightarrow>
                 lineAt (fst st2) p = lineAt (fst st1) p"
    using Cons.IH [of st1] unfolding st2_def by simp_all
  have a: "refsOf (snd st2) \<subseteq> refsOf (ex, lg)"
    using r1 s1 by (rule order_trans)
  have b: "length (heap s) \<le> length (heap (fst st2))"
    using s2 r2 by (rule order_trans)
  have c: "lineAt (fst st2) p = lineAt s p"
    if p: "p < length (heap s)" "p \<notin> refsOf (ex, lg)" for p
  proof -
    have "p < length (heap (fst st1))" using s2 p(1) by simp
    moreover have "p \<notin> refsOf (snd st1)" using s1 p(2) by (rule contra_subsetD)
    ultimately have "lineAt (fst st2) p = lineAt (fst st1) p" by (rule r3)
    also have "\<dots> = lineAt s p" using p by (rule s3)
    finally show ?thesis .
  qed
  have "foldl (syncEntry e) st (kd # fm) = st2"
    by (simp add: st st1_def st2_def)
  then show ?case using a b c by (simp add: st)
qed

lemma syncAutoFreeLines_frame:
  assumes "p < length (heap s)"
    and "\<not> truthy (is_free_item (lineAt s p))" and "\<not> truthyStr (auto_free_source (lineAt s p))"
  shows "lineAt (syncAutoFreeLines e fm s) p = lineAt s p"
proof -
  have "p \<notin> refsOf (indexLines s)"
    using indexLines_refs [of p s] assms(2,3) by blast
  then have "lineAt (fst (foldl (syncEntry e) (s, indexLines s) fm)) p = lineAt s p"
    using syncLoop_frame [of e "(s, indexLines s)" fm] assms(1) by simp
  moreover have "lineAt (removeStale ks s') p = lineAt s' p" for ks s'
    using removeStale_result [of ks s'] by (simp add: lineAt_def)
  ultimately show ?thesis
    by (simp add: syncAutoFreeLines_def Let_def)
qed


lemma applyServerUpdate_kind:
  "is_free_item (lineAt (applyServerUpdate e ps cs s u) r) = is_free_item (lineAt s r)
   \<and> auto_free_source (lineAt (applyServerUpdate e ps cs s u) r) = auto_free_source (lineAt s r)
   \<and> length (heap (applyServerUpdate e ps cs s u)) = length (heap s)"
proof (cases "updateTarget s u")
  case None
  then show ?thesis by (simp add: applyServerUpdate_def)
next
  case (Some r')
  have len: "length (heap (applyServerUpdate e ps cs s u)) = length (heap s)"
    using Some by (simp add: applyServerUpdate_def Let_def)
  show ?thesis
  proof (cases "r' = r \<and> r < length (heap s)")
    case True
    then show ?thesis
      using Some len
      by (simp add: applyServerUpdate_def Let_def lineAt_def setLine_def
            updatePricingBadge_def writeServerRates_def)
  next
    case False
    then have "lineAt (setLine s r' l) r = lineAt s r" for l
      by (cases "r' = r") (simp_all add: lineAt_def setLine_def list_update_beyond)
    then have "lineAt (applyServerUpdate e ps cs s u) r = lineAt s r"
      using Some by (simp add: applyServerUpdate_def Let_def)
    then show ?thesis using len by simp
  qed
qed

lemma applyServerUpdates_kind:
  "is_free_item (lineAt (applyServerUpdates e ps cs s us) r) = is_free_item (lineAt s r)
   \<and> auto_free_source (lineAt (applyServerUpdates e ps cs s us) r) = auto_free_source (lineAt s r)
   \<and> length (heap (applyServerUpdates e ps cs s us)) = length (heap s)"
  unfolding applyServerUpdates_def
proof (induction us arbitrary: s)
  case Nil
  then show ?case by simp
next
  case (Cons u us)
  show ?case
    using Cons.IH [of "applyServerUpdate e ps cs s u"] applyServerUpdate_kind [of e ps cs s u r]
    by simp
qed

lemma applyServerPricingRules_manual:
  assumes m: "manualOverrideOf (lineAt s r)" and live: "r < length (heap s)"
    and paid: "\<not> truthy (is_free_item (lineAt s r))" "\<not> truthyStr (auto_free_source (lineAt s r))"
  shows "rateFields (lineAt (applyServerPricingRules e c resp s) r) = rateFields (lineAt s r)"
proof -
  define st where
    "st = serverFreeState (foldl registerExistingFreebie [] (map (lineAt s) (items s)))
            (rs_free_lines resp)"
  define s1 where "s1 = applyServerUpdates e (fst (snd st)) (snd (snd st)) s (rs_updates resp)"
  have k: "is_free_item (lineAt s1 r) = is_free_item (lineAt s r)"
          "auto_free_source (lineAt s1 r) = auto_free_source (lineAt s r)"
          "length (heap s1) = length (heap s)"
    using applyServerUpdates_kind [of e "fst (snd st)" "snd (snd st)" s "rs_updates resp" r]
    unfolding s1_def by simp_all
  have "lineAt (syncAutoFreeLines e fm s1) r = lineAt s1 r" for fm
    using live paid k by (intro syncAutoFreeLines_frame) simp_all
  moreover have "rateFields (lineAt s1 r) = rateFields (lineAt s r)"
    using applyServerUpdates_keeps_manual [OF m] unfolding s1_def by blast
  ultimately have after: "rateFields (lineAt (syncAutoFreeLines e fm s1) r) = rateFields (lineAt s r)"
    for fm by simp
  have direct: "lineAt (syncAutoFreeLines e fm s) r = lineAt s r" for fm
    using live paid by (rule syncAutoFreeLines_frame)
  show ?thesis
    using after direct
    by (simp add: applyServerPricingRules_def Let_def st_def s1_def)
qed

text \<open>
  C1. A line whose rate was set by hand (\<^verbatim>\<open>_manual_rate_set === true\<close>, and
  \<^verbatim>\<open>_manual_rate_set_from_uom\<close> not \<^verbatim>\<open>true\<close>) keeps its rate, base rate, price-list rate,
  discount amount and discount percentage (and its amounts): \<^verbatim>\<open>_applyPricingToLine\<close>
  returns with these fields as they were, whatever the rules are; the loop of
  \<^verbatim>\<open>_applyServerPricingRules\<close> that applies the server's updates leaves them as they were,
  whatever the updates and the same-item freebies are; and so does the whole of
  \<^verbatim>\<open>_applyServerPricingRules\<close> for a line that is not a free line.
\<close>

theorem manual_override_unchanged:
  assumes "manualOverrideOf (lineAt s r)"
  shows "(\<exists>item' fm'. applyPricingToLine e (lineAt s r) c ix fm = Returned (item', fm')
             \<and> rateFields item' = rateFields (lineAt s r))
         \<and> rateFields (lineAt (applyServerUpdates e ps cs s us) r) = rateFields (lineAt s r)
         \<and> (r < length (heap s) \<and> \<not> truthy (is_free_item (lineAt s r))
              \<and> \<not> truthyStr (auto_free_source (lineAt s r)) \<longrightarrow>
            rateFields (lineAt (applyServerPricingRules e sc resp s) r) = rateFields (lineAt s r))"
proof (intro conjI impI)
  show "\<exists>item' fm'. applyPricingToLine e (lineAt s r) c ix fm = Returned (item', fm')
          \<and> rateFields item' = rateFields (lineAt s r)"
    using assms by (rule applyPricingToLine_manual)
  show "rateFields (lineAt (applyServerUpdates e ps cs s us) r) = rateFields (lineAt s r)"
    using applyServerUpdates_keeps_manual [OF assms] by blast
  show "rateFields (lineAt (applyServerPricingRules e sc resp s) r) = rateFields (lineAt s r)"
    if "r < length (heap s) \<and> \<not> truthy (is_free_item (lineAt s r))
          \<and> \<not> truthyStr (auto_free_source (lineAt s r))"
    using assms that by (intro applyServerPricingRules_manual) simp_all
qed

theorem manual_override_unchanged_witness:
  "manualOverrideOf (lineAt (cartOf [manualItem]) 0)
   \<and> 0 < length (heap (cartOf [manualItem]))
   \<and> \<not> truthy (is_free_item (lineAt (cartOf [manualItem]) 0))
   \<and> \<not> truthyStr (auto_free_source (lineAt (cartOf [manualItem]) 0))
   \<and> rateFields (lineAt (cartOf [manualItem]) 0)
       = [Some 120, Some 120, Some 150, Some 150, Some 60, Some 60, Some 40, None, None]
   \<and> (\<exists>item' fm'. applyPricingToLine plainEnv (lineAt (cartOf [manualItem]) 0) blankCtx
                      (itemIndex ''ITEM-1'' [fullDiscountRule]) [] = Returned (item', fm')
          \<and> rateFields item' = rateFields (lineAt (cartOf [manualItem]) 0))
   \<and> rateFields (lineAt (applyServerUpdates plainEnv [] [] (cartOf [manualItem]) [manualUpdate]) 0)
       = rateFields (lineAt (cartOf [manualItem]) 0)
   \<and> rateFields (lineAt (applyServerPricingRules plainEnv serverCtx
                            \<lparr> rs_updates = [manualUpdate], rs_free_lines = [] \<rparr>
                            (cartOf [manualItem])) 0)
       = rateFields (lineAt (cartOf [manualItem]) 0)
   \<and> rate (lineAt (applyServerUpdates plainEnv [] []
                     (cartOf [manualItem \<lparr> manual_rate_set := JFalsy \<rparr>]) [manualUpdate]) 0)
       = Some 80"
proof -
  have h: "manualOverrideOf (lineAt (cartOf [manualItem]) 0)"
    by code_simp
  have p: "0 < length (heap (cartOf [manualItem]))
           \<and> \<not> truthy (is_free_item (lineAt (cartOf [manualItem]) 0))
           \<and> \<not> truthyStr (auto_free_source (lineAt (cartOf [manualItem]) 0))"
    by code_simp
  have v: "rateFields (lineAt (cartOf [manualItem]) 0)
             = [Some 120, Some 120, Some 150, Some 150, Some 60, Some 60, Some 40, None, None]"
    by code_simp
  have n: "rate (lineAt (applyServerUpdates plainEnv [] []
                     (cartOf [manualItem \<lparr> manual_rate_set := JFalsy \<rparr>]) [manualUpdate]) 0)
             = Some 80"
    by code_simp
  note t = manual_override_unchanged [OF h, where e = plainEnv and c = blankCtx
      and ix = "itemIndex ''ITEM-1'' [fullDiscountRule]" and fm = "[]" and ps = "[]"
      and cs = "[]" and us = "[manualUpdate]" and sc = serverCtx
      and resp = "\<lparr> rs_updates = [manualUpdate], rs_free_lines = [] \<rparr>"]
  from t p h v n show ?thesis by blast
qed

subsection \<open>The same-item freebie guard\<close>

lemma processServerFree_links:
  "snd (processServerFree snaps st en) =
     (if truthyStr (sf_item_code en) \<and> entrySameItem snaps en then
        (case entryNormalizedParent snaps en of
           Some p \<Rightarrow> (fst (snd st) @ [(p, sf_item_code en)], snd (snd st))
         | None \<Rightarrow> (fst (snd st), snd (snd st) @ [sf_item_code en]))
      else snd st)"
  by (simp add: processServerFree_def Let_def split: option.splits)

lemma serverFree_parents:
  "set (fst (snd (foldl (processServerFree snaps) st free))) =
     set (fst (snd st))
     \<union> {(p, sf_item_code en) | p en. en \<in> set free \<and> truthyStr (sf_item_code en)
           \<and> entrySameItem snaps en \<and> entryNormalizedParent snaps en = Some p}"
proof (induction free arbitrary: st)
  case Nil
  then show ?case by simp
next
  case (Cons en free)
  have "set (fst (snd (processServerFree snaps st en))) =
          set (fst (snd st))
          \<union> {(p, sf_item_code en) | p. truthyStr (sf_item_code en)
                \<and> entrySameItem snaps en \<and> entryNormalizedParent snaps en = Some p}"
    by (auto simp: processServerFree_links split: option.splits)
  then show ?case
    unfolding foldl_Cons Cons.IH by auto
qed

lemma serverFree_codes:
  "set (snd (snd (foldl (processServerFree snaps) st free))) =
     set (snd (snd st))
     \<union> {sf_item_code en | en. en \<in> set free \<and> truthyStr (sf_item_code en)
           \<and> entrySameItem snaps en \<and> entryNormalizedParent snaps en = None}"
proof (induction free arbitrary: st)
  case Nil
  then show ?case by simp
next
  case (Cons en free)
  have "set (snd (snd (processServerFree snaps st en))) =
          set (snd (snd st))
          \<union> {c. c = sf_item_code en \<and> truthyStr (sf_item_code en)
                \<and> entrySameItem snaps en \<and> entryNormalizedParent snaps en = None}"
    by (auto simp: processServerFree_links split: option.splits)
  then show ?case
    unfolding foldl_Cons Cons.IH by auto
qed

lemma hasSameItemFree_iff:
  "hasSameItemFree (fst (snd (serverFreeState snaps free))) (snd (snd (serverFreeState snaps free)))
     item u = recordedSameItemFree snaps free item u"
proof -
  let ?pk = "strOr (posa_row_id item) (strOr (line.name item) (upd_row_id u))"
  let ?P = "\<lambda>en. en \<in> set free \<and> truthyStr (sf_item_code en) \<and> entrySameItem snaps en
                  \<and> sf_item_code en = item_code item"
  have parents: "((tmpl ?pk, item_code item) \<in> set (fst (snd (serverFreeState snaps free))))
                   = (\<exists>en. ?P en \<and> entryNormalizedParent snaps en = Some (tmpl ?pk))"
    unfolding serverFreeState_def serverFree_parents by force
  have codes: "(item_code item \<in> set (snd (snd (serverFreeState snaps free))))
                 = (\<exists>en. ?P en \<and> entryNormalizedParent snaps en = None)"
    unfolding serverFreeState_def serverFree_codes by force
  have R: "recordedSameItemFree snaps free item u =
             (\<exists>en. ?P en \<and> (entryNormalizedParent snaps en = None
                     \<or> (truthyStr ?pk \<and> entryNormalizedParent snaps en = Some (tmpl ?pk))))"
    unfolding recordedSameItemFree_def Let_def Bex_def
    by (intro arg_cong [where f = Ex] ext) (auto split: option.splits)
  show ?thesis
    unfolding hasSameItemFree_def Let_def parents codes R by blast
qed

lemma returnedZeroed_guard:
  "returnedZeroed e item u \<Longrightarrow> serverZeroedValues e item u \<or> serverFullDiscount item u"
  unfolding returnedZeroed_def serverZeroedValues_def serverFullDiscount_def Let_def
  by (cases "updBasePriceListRate item u > 0") auto

lemma guard_blocks:
  assumes "hasSameItemFree ps cs item u" and "originalBaseRate e item > 0"
    and "serverZeroedValues e item u \<or> serverFullDiscount item u \<or> fallbackFullDiscount e item"
  shows "\<not> allowServerRateUpdate e ps cs item u"
  using assms by (simp add: allowServerRateUpdate_def Let_def)

lemma updateTarget_live:
  "liveRefs s \<Longrightarrow> updateTarget s u = Some r \<Longrightarrow> r < length (heap s)"
  by (auto simp: liveRefs_def updateTarget_def find_Some_iff)

lemma applyServerUpdate_blocked:
  assumes "updateTarget s u = Some r" and "r < length (heap s)"
    and "\<not> allowServerRateUpdate e ps cs (lineAt s r) u"
  shows "lineAt (applyServerUpdate e ps cs s u) r
           = updatePricingBadge (lineAt s r) (serverDetails (lineAt s r) u)"
  using assms by (simp add: applyServerUpdate_def Let_def lineAt_def setLine_def)

lemma named_freebie_recorded:
  assumes en: "en \<in> set free" and code: "truthyStr (sf_item_code en)"
    and item: "sf_item_code en = item_code item" and flag: "coerceFlag (sf_same_item en)"
    and parent: "namesLineAsParent en item u \<or> namesNoParent snaps en"
  shows "recordedSameItemFree snaps free item u"
proof -
  let ?pk = "strOr (posa_row_id item) (strOr (line.name item) (upd_row_id u))"
  have same: "entrySameItem snaps en"
    using flag by (simp add: entrySameItem_def)
  have truthy_parent: "truthyStr (entryParent en)" if "entryParent en = Some p" for p
    using that by (auto simp: entryParent_def Let_def split: if_splits)
  have "case entryNormalizedParent snaps en of
          None \<Rightarrow> True
        | Some p \<Rightarrow> truthyStr ?pk \<and> p = tmpl ?pk"
    using parent
  proof
    assume "namesLineAsParent en item u"
    then obtain p where p: "entryParent en = Some p" "?pk = Some p"
      by (auto simp: namesLineAsParent_def split: option.splits)
    have t: "truthyStr (Some p)" using truthy_parent [OF p(1)] p(1) by simp
    then have "strOr (Some p) x = Some p" for x
      by (simp add: strOr_def truthyStr_def)
    then have "entryNormalizedParent snaps en = Some p"
      using p(1) t by (simp add: entryNormalizedParent_def Let_def)
    then show ?thesis using p(2) t by (simp add: tmpl_def)
  next
    assume "namesNoParent snaps en"
    then have n: "entryParent en = None"
      and f: "\<not> truthyStr (optField (entryFallback snaps en) sn_parentRowId)"
      by (simp_all add: namesNoParent_def)
    have "\<not> truthyStr (strOr None (optField (entryFallback snaps en) sn_parentRowId))"
      using f by (auto simp: strOr_def truthyStr_def split: option.splits)
    then have "entryNormalizedParent snaps en = None"
      using n by (simp add: entryNormalizedParent_def Let_def)
    then show ?thesis by simp
  qed
  then show ?thesis
    unfolding recordedSameItemFree_def Let_def
    using en code item same by (intro bexI [of _ en]) simp_all
qed

text \<open>
  C2, as amended. Let an update address a paid line whose original base rate is positive,
  and let the server's free lines contain an entry of the line's item that is flagged
  \<^verbatim>\<open>same_item\<close> and either names the line as its parent row, or names no parent row while
  the cart held no free line of the entry's rule and item that records a parent row (such
  a line hands its parent row to the entry, and the guard then protects that row only).
  If the returned rate is \<open>\<le> 0\<close> while the returned or the original base price-list rate
  is positive, or the returned price-list rate (discount) is \<open>\<le> 0\<close> while the line's
  original one was positive, or the update is a full discount (a percentage of at least
  99.99, or a discount within \<open>10\<^sup>-\<^sup>6\<close> of a positive price-list rate), then the update's
  rates are not written: rate, price-list rate, discount and amounts of the line stay as
  they were.
\<close>

theorem same_item_freebie_guard:
  assumes "liveRefs s" and "updateTarget s u = Some r"
    and "en \<in> set free" and "truthyStr (sf_item_code en)"
    and "sf_item_code en = item_code (lineAt s r)" and "coerceFlag (sf_same_item en)"
    and "namesLineAsParent en (lineAt s r) u \<or> namesNoParent snaps en"
    and "originalBaseRate e (lineAt s r) > 0"
    and "returnedZeroed e (lineAt s r) u"
  shows "rateFields (lineAt (applyServerUpdate e (fst (snd (serverFreeState snaps free)))
                        (snd (snd (serverFreeState snaps free))) s u) r)
           = rateFields (lineAt s r)"
proof -
  let ?ps = "fst (snd (serverFreeState snaps free))"
  let ?cs = "snd (snd (serverFreeState snaps free))"
  have live: "r < length (heap s)"
    using assms(1,2) by (rule updateTarget_live)
  have "recordedSameItemFree snaps free (lineAt s r) u"
    using assms(3-7) by (rule named_freebie_recorded)
  then have same: "hasSameItemFree ?ps ?cs (lineAt s r) u"
    by (simp add: hasSameItemFree_iff)
  have zeroed: "serverZeroedValues e (lineAt s r) u \<or> serverFullDiscount (lineAt s r) u
                   \<or> fallbackFullDiscount e (lineAt s r)"
    using returnedZeroed_guard [OF assms(9)] by blast
  have "\<not> allowServerRateUpdate e ?ps ?cs (lineAt s r) u"
    using same assms(8) zeroed by (rule guard_blocks)
  then have "lineAt (applyServerUpdate e ?ps ?cs s u) r
               = updatePricingBadge (lineAt s r) (serverDetails (lineAt s r) u)"
    using assms(2) live by (simp add: applyServerUpdate_blocked)
  then show ?thesis by (simp add: updatePricingBadge_rateFields)
qed

theorem same_item_freebie_guard_witness:
  "liveRefs (cartOf [sameItemPaid])
   \<and> updateTarget (cartOf [sameItemPaid]) zeroingUpdate = Some 0
   \<and> sameItemFree \<in> set [sameItemFree] \<and> truthyStr (sf_item_code sameItemFree)
   \<and> sf_item_code sameItemFree = item_code (lineAt (cartOf [sameItemPaid]) 0)
   \<and> coerceFlag (sf_same_item sameItemFree)
   \<and> namesLineAsParent sameItemFree (lineAt (cartOf [sameItemPaid]) 0) zeroingUpdate
   \<and> parentlessFree \<in> set [parentlessFree] \<and> truthyStr (sf_item_code parentlessFree)
   \<and> sf_item_code parentlessFree = item_code (lineAt (cartOf [sameItemPaid]) 0)
   \<and> coerceFlag (sf_same_item parentlessFree)
   \<and> namesNoParent [] parentlessFree
   \<and> originalBaseRate plainEnv (lineAt (cartOf [sameItemPaid]) 0) > 0
   \<and> returnedZeroed plainEnv (lineAt (cartOf [sameItemPaid]) 0) zeroingUpdate
   \<and> rateFields (lineAt (cartOf [sameItemPaid]) 0)
       = [Some 50, Some 50, Some 50, Some 50, Some 0, Some 0, Some 0, None, None]
   \<and> rateFields (lineAt (applyServerUpdate plainEnv
                            (fst (snd (serverFreeState [] [sameItemFree])))
                            (snd (snd (serverFreeState [] [sameItemFree])))
                            (cartOf [sameItemPaid]) zeroingUpdate) 0)
       = rateFields (lineAt (cartOf [sameItemPaid]) 0)
   \<and> rateFields (lineAt (applyServerUpdate plainEnv
                            (fst (snd (serverFreeState [] [parentlessFree])))
                            (snd (snd (serverFreeState [] [parentlessFree])))
                            (cartOf [sameItemPaid]) zeroingUpdate) 0)
       = rateFields (lineAt (cartOf [sameItemPaid]) 0)"
proof -
  have h1: "liveRefs (cartOf [sameItemPaid])"
    by code_simp
  have h2: "updateTarget (cartOf [sameItemPaid]) zeroingUpdate = Some 0"
    by code_simp
  have h3: "sameItemFree \<in> set [sameItemFree]"
    by simp
  have h4: "truthyStr (sf_item_code sameItemFree)"
    by code_simp
  have h5: "sf_item_code sameItemFree = item_code (lineAt (cartOf [sameItemPaid]) 0)"
    by code_simp
  have h6: "coerceFlag (sf_same_item sameItemFree)"
    by code_simp
  have h7: "namesLineAsParent sameItemFree (lineAt (cartOf [sameItemPaid]) 0) zeroingUpdate"
    by code_simp
  have g3: "parentlessFree \<in> set [parentlessFree]"
    by simp
  have g4: "truthyStr (sf_item_code parentlessFree)"
    by code_simp
  have g5: "sf_item_code parentlessFree = item_code (lineAt (cartOf [sameItemPaid]) 0)"
    by code_simp
  have g6: "coerceFlag (sf_same_item parentlessFree)"
    by code_simp
  have g7: "namesNoParent [] parentlessFree"
    by code_simp
  have h8: "originalBaseRate plainEnv (lineAt (cartOf [sameItemPaid]) 0) > 0"
    by code_simp
  have h9: "returnedZeroed plainEnv (lineAt (cartOf [sameItemPaid]) 0) zeroingUpdate"
    by code_simp
  have v: "rateFields (lineAt (cartOf [sameItemPaid]) 0)
             = [Some 50, Some 50, Some 50, Some 50, Some 0, Some 0, Some 0, None, None]"
    by code_simp
  note t1 = same_item_freebie_guard [OF h1 h2 h3 h4 h5 h6 disjI1 [OF h7] h8 h9, of "[]"]
  note t2 = same_item_freebie_guard [OF h1 h2 g3 g4 g5 g6 disjI2 [OF g7] h8 h9]
  from h1 h2 h3 h4 h5 h6 h7 g3 g4 g5 g6 g7 h8 h9 v t1 t2 show ?thesis by blast
qed

theorem same_item_freebie_guard_counterexample:
  "updateTarget (cartOf [sameItemPaid, otherRowPaid, otherRowFree]) zeroingUpdate = Some 0
   \<and> sf_item_code parentlessFree
       = item_code (lineAt (cartOf [sameItemPaid, otherRowPaid, otherRowFree]) 0)
   \<and> coerceFlag (sf_same_item parentlessFree)
   \<and> entryParent parentlessFree = None
   \<and> originalBaseRate plainEnv (lineAt (cartOf [sameItemPaid, otherRowPaid, otherRowFree]) 0) = 50
   \<and> updBaseRate (lineAt (cartOf [sameItemPaid, otherRowPaid, otherRowFree]) 0) zeroingUpdate = 0
   \<and> updBasePriceListRate (lineAt (cartOf [sameItemPaid, otherRowPaid, otherRowFree]) 0)
        zeroingUpdate = 50
   \<and> updDiscountPercentage (lineAt (cartOf [sameItemPaid, otherRowPaid, otherRowFree]) 0)
        zeroingUpdate = 100
   \<and> rate (lineAt (cartOf [sameItemPaid, otherRowPaid, otherRowFree]) 0) = Some 50
   \<and> rate (lineAt (applyServerPricingRules plainEnv serverCtx
                     \<lparr> rs_updates = [zeroingUpdate], rs_free_lines = [parentlessFree] \<rparr>
                     (cartOf [sameItemPaid, otherRowPaid, otherRowFree])) 0) = Some 0
   \<and> base_rate (lineAt (applyServerPricingRules plainEnv serverCtx
                          \<lparr> rs_updates = [zeroingUpdate], rs_free_lines = [parentlessFree] \<rparr>
                          (cartOf [sameItemPaid, otherRowPaid, otherRowFree])) 0) = Some 0
   \<and> updateTarget (cartOf [edgePaid]) clearingUpdate = Some 0
   \<and> namesLineAsParent sameItemFree (lineAt (cartOf [edgePaid]) 0) clearingUpdate
   \<and> originalBaseRate plainEnv (lineAt (cartOf [edgePaid]) 0) = 50
   \<and> updBaseRate (lineAt (cartOf [edgePaid]) 0) clearingUpdate = 0
   \<and> rate (lineAt (cartOf [edgePaid]) 0) = Some 50
   \<and> rate (lineAt (applyServerPricingRules plainEnv serverCtx
                     \<lparr> rs_updates = [clearingUpdate], rs_free_lines = [sameItemFree] \<rparr>
                     (cartOf [edgePaid])) 0) = Some 0"
proof -
  have c1: "updateTarget (cartOf [sameItemPaid, otherRowPaid, otherRowFree]) zeroingUpdate = Some 0"
    by code_simp
  have c2: "sf_item_code parentlessFree
              = item_code (lineAt (cartOf [sameItemPaid, otherRowPaid, otherRowFree]) 0)"
    by code_simp
  have c3: "coerceFlag (sf_same_item parentlessFree)"
    by code_simp
  have c4: "entryParent parentlessFree = None"
    by code_simp
  have c5: "originalBaseRate plainEnv
              (lineAt (cartOf [sameItemPaid, otherRowPaid, otherRowFree]) 0) = 50"
    by code_simp
  have c6: "updBaseRate (lineAt (cartOf [sameItemPaid, otherRowPaid, otherRowFree]) 0)
              zeroingUpdate = 0"
    by code_simp
  have c7: "updBasePriceListRate (lineAt (cartOf [sameItemPaid, otherRowPaid, otherRowFree]) 0)
              zeroingUpdate = 50"
    by code_simp
  have c8: "updDiscountPercentage (lineAt (cartOf [sameItemPaid, otherRowPaid, otherRowFree]) 0)
              zeroingUpdate = 100"
    by code_simp
  have c9: "rate (lineAt (cartOf [sameItemPaid, otherRowPaid, otherRowFree]) 0) = Some 50"
    by code_simp
  have c10: "rate (lineAt (applyServerPricingRules plainEnv serverCtx
                     \<lparr> rs_updates = [zeroingUpdate], rs_free_lines = [parentlessFree] \<rparr>
                     (cartOf [sameItemPaid, otherRowPaid, otherRowFree])) 0) = Some 0"
    by code_simp
  have c11: "base_rate (lineAt (applyServerPricingRules plainEnv serverCtx
                          \<lparr> rs_updates = [zeroingUpdate], rs_free_lines = [parentlessFree] \<rparr>
                          (cartOf [sameItemPaid, otherRowPaid, otherRowFree])) 0) = Some 0"
    by code_simp
  have d1: "updateTarget (cartOf [edgePaid]) clearingUpdate = Some 0"
    by code_simp
  have d2: "namesLineAsParent sameItemFree (lineAt (cartOf [edgePaid]) 0) clearingUpdate"
    by code_simp
  have d3: "originalBaseRate plainEnv (lineAt (cartOf [edgePaid]) 0) = 50"
    by code_simp
  have d4: "updBaseRate (lineAt (cartOf [edgePaid]) 0) clearingUpdate = 0"
    by code_simp
  have d5: "rate (lineAt (cartOf [edgePaid]) 0) = Some 50"
    by code_simp
  have d6: "rate (lineAt (applyServerPricingRules plainEnv serverCtx
                     \<lparr> rs_updates = [clearingUpdate], rs_free_lines = [sameItemFree] \<rparr>
                     (cartOf [edgePaid])) 0) = Some 0"
    by code_simp
  from c1 c2 c3 c4 c5 c6 c7 c8 c9 c10 c11 d1 d2 d3 d4 d5 d6 show ?thesis by blast
qed

end
